theory Spec2Isabelle
  imports Complex_Main "HOL-Library.Word"
begin

unbundle bit_operations_syntax

section \<open>JavaScript strings, numbers and values\<close>

text \<open>
  A JavaScript string is a sequence of UTF-16 code units. The identifier functions of both
  variants (\<^verbatim>\<open>btoa\<close>, \<^verbatim>\<open>encodeURIComponent\<close>) behave differently above U+00FF and on
  surrogates, so strings are lists of 16-bit words and not byte strings. \<open>js\<close> embeds an
  ASCII literal.
\<close>

type_synonym jschar = "16 word"
type_synonym jsstring = "jschar list"

definition js :: "string \<Rightarrow> jsstring" where
  "js s = map (\<lambda>c. of_char c) s"

text \<open>
  A number is NaN, an infinity or a finite value; every finite double is a rational number
  (the two zeros are identified: they compare equal and print alike). Rounding is not
  modelled: parsing, printing and addition of numbers are operations of the runtime below.
\<close>

datatype jsnum = NaN | PosInf | NegInf | Finite rat

datatype jsval =
    JUndefined
  | JNull
  | JBoolean bool
  | JNumber jsnum
  | JString jsstring
  | JArray "jsval list"
  | JObject "(jsstring \<times> jsval) list"

text \<open>An object is the list of its own enumerable properties in \<^verbatim>\<open>Object.keys\<close> order.\<close>

type_synonym jsobject = "(jsstring \<times> jsval) list"

datatype js_error =
    GapiError jsstring jsstring   \<comment> \<open>\<^verbatim>\<open>err.result.error\<close> with its \<^verbatim>\<open>status\<close> and \<^verbatim>\<open>message\<close>\<close>
  | InvalidCharacterError         \<comment> \<open>thrown by \<^verbatim>\<open>btoa\<close>\<close>
  | URIError                      \<comment> \<open>thrown by \<^verbatim>\<open>encodeURIComponent\<close>\<close>
  | TypeError
  | OtherError                    \<comment> \<open>any other thrown value without \<^verbatim>\<open>result.error\<close>\<close>

text \<open>
  The parts of the ECMAScript runtime that depend on Unicode tables, on locale data or on
  floating-point rounding are parameters of the model. \<open>localeCompare\<close> stands for
  \<^verbatim>\<open>a.localeCompare(b, undefined, {numeric: true, sensitivity: 'base'})\<close>, the only way the
  program calls it.
\<close>

record js_runtime =
  toLowerCase :: "jsstring \<Rightarrow> jsstring"
  toUpperCase :: "jsstring \<Rightarrow> jsstring"
  parseFloat :: "jsstring \<Rightarrow> jsnum"
  finiteToString :: "rat \<Rightarrow> jsstring"
  numAdd :: "jsnum \<Rightarrow> jsnum \<Rightarrow> jsnum"
  localeCompare :: "jsstring \<Rightarrow> jsstring \<Rightarrow> int"

definition getProp :: "jsobject \<Rightarrow> jsstring \<Rightarrow> jsval" where
  "getProp obj k = (case map_of obj k of None \<Rightarrow> JUndefined | Some v \<Rightarrow> v)"

text \<open>
  An object is the list of its own enumerable properties in the order in which
  \<^verbatim>\<open>Object.keys\<close>, \<^verbatim>\<open>for ... in\<close> and \<^verbatim>\<open>JSON.stringify\<close> visit them: the keys that are
  array indices (canonical decimal numerals below 4294967295) first, in ascending numeric
  order, then the other keys in the order of their creation.
\<close>

definition isDigit :: "jschar \<Rightarrow> bool" where
  "isDigit c = (0x30 \<le> c \<and> c \<le> 0x39)"

definition digitsValue :: "jsstring \<Rightarrow> nat" where
  "digitsValue ds = foldl (\<lambda>n c. 10 * n + (unat c - 48)) 0 ds"

definition indexValue :: "jsstring \<Rightarrow> int" where
  "indexValue ds = foldl (\<lambda>n c. 10 * n + (uint c - 48)) 0 ds"

definition arrayIndex :: "jsstring \<Rightarrow> int option" where
  "arrayIndex k =
     (if k \<noteq> [] \<and> list_all isDigit k \<and> (hd k \<noteq> 0x30 \<or> length k = 1)
         \<and> indexValue k < 4294967295
      then Some (indexValue k) else None)"

text \<open>Writing to an own property: the key keeps its position.\<close>

fun replaceProp :: "jsobject \<Rightarrow> jsstring \<Rightarrow> jsval \<Rightarrow> jsobject" where
  "replaceProp [] k v = []"
| "replaceProp ((k', v') # obj) k v =
     (if k' = k then (k, v) # obj else (k', v') # replaceProp obj k v)"

text \<open>Creating a property: an array index goes to its numeric place, any other key to the end.\<close>

fun insertProp :: "jsobject \<Rightarrow> jsstring \<Rightarrow> jsval \<Rightarrow> jsobject" where
  "insertProp [] k v = [(k, v)]"
| "insertProp ((k', v') # obj) k v =
     (case arrayIndex k of
        None \<Rightarrow> (k', v') # insertProp obj k v
      | Some n \<Rightarrow>
          (case arrayIndex k' of
             None \<Rightarrow> (k, v) # (k', v') # obj
           | Some m \<Rightarrow> if m < n then (k', v') # insertProp obj k v
                      else (k, v) # (k', v') # obj))"

text \<open>
  Property assignment \<^verbatim>\<open>obj[k] = v\<close> on an ordinary object whose prototype is
  \<^verbatim>\<open>Object.prototype\<close>. The key \<^verbatim>\<open>__proto__\<close> is an accessor inherited from the prototype:
  assigning to it calls the setter, which creates no own property (it changes the
  prototype when \<open>v\<close> is an object or null and does nothing otherwise). Every other
  inherited property of \<^verbatim>\<open>Object.prototype\<close> is a writable data property, so the assignment
  creates an own property as for a fresh key.
\<close>

definition setProp :: "jsobject \<Rightarrow> jsstring \<Rightarrow> jsval \<Rightarrow> jsobject" where
  "setProp obj k v =
     (if k = js ''__proto__'' then obj
      else if map_of obj k \<noteq> None then replaceProp obj k v
      else insertProp obj k v)"

definition numToString :: "js_runtime \<Rightarrow> jsnum \<Rightarrow> jsstring" where
  "numToString rt n = (case n of
      NaN \<Rightarrow> js ''NaN''
    | PosInf \<Rightarrow> js ''Infinity''
    | NegInf \<Rightarrow> js ''-Infinity''
    | Finite q \<Rightarrow> finiteToString rt q)"

fun intercalate :: "jsstring \<Rightarrow> jsstring list \<Rightarrow> jsstring" where
  "intercalate sep [] = []"
| "intercalate sep [x] = x"
| "intercalate sep (x # y # ys) = x @ sep @ intercalate sep (y # ys)"

text \<open>\<^verbatim>\<open>String(v)\<close>, which is also \<^verbatim>\<open>v.toString()\<close> wherever the latter is defined.\<close>

fun toStr :: "js_runtime \<Rightarrow> jsval \<Rightarrow> jsstring" where
  "toStr rt JUndefined = js ''undefined''"
| "toStr rt JNull = js ''null''"
| "toStr rt (JBoolean b) = (if b then js ''true'' else js ''false'')"
| "toStr rt (JNumber n) = numToString rt n"
| "toStr rt (JString s) = s"
| "toStr rt (JArray xs) =
     intercalate (js '','')
       (map (\<lambda>x. if x = JUndefined \<or> x = JNull then [] else toStr rt x) xs)"
| "toStr rt (JObject obj) = js ''[object Object]''"

fun truthy :: "jsval \<Rightarrow> bool" where
  "truthy JUndefined = False"
| "truthy JNull = False"
| "truthy (JBoolean b) = b"
| "truthy (JNumber n) = (n \<noteq> NaN \<and> n \<noteq> Finite 0)"
| "truthy (JString s) = (s \<noteq> [])"
| "truthy (JArray xs) = True"
| "truthy (JObject obj) = True"

fun toNumber :: "js_runtime \<Rightarrow> jsval \<Rightarrow> jsnum" where
  "toNumber rt JUndefined = NaN"
| "toNumber rt JNull = Finite 0"
| "toNumber rt (JBoolean b) = (if b then Finite 1 else Finite 0)"
| "toNumber rt (JNumber n) = n"
| "toNumber rt v = NaN"

text \<open>
  The binary \<^verbatim>\<open>+\<close>: string concatenation as soon as one operand is a string (arrays and
  objects convert to strings first), numeric addition otherwise.
\<close>

fun isStringy :: "jsval \<Rightarrow> bool" where
  "isStringy (JString s) = True"
| "isStringy (JArray xs) = True"
| "isStringy (JObject obj) = True"
| "isStringy v = False"

definition js_add :: "js_runtime \<Rightarrow> jsval \<Rightarrow> jsval \<Rightarrow> jsval" where
  "js_add rt a b =
     (if isStringy a \<or> isStringy b then JString (toStr rt a @ toStr rt b)
      else JNumber (numAdd rt (toNumber rt a) (toNumber rt b)))"

section \<open>Browser and runtime functions with a fixed definition\<close>

subsection \<open>\<^verbatim>\<open>btoa\<close>\<close>

definition b64chars :: jsstring where
  "b64chars = js ''ABCDEFGHIJKLMNOPQRSTUVWXYZabcdefghijklmnopqrstuvwxyz0123456789+/''"

definition b64 :: "nat \<Rightarrow> jschar" where
  "b64 n = b64chars ! (n mod 64)"

definition b64pad :: jschar where
  "b64pad = 0x3D"

fun base64 :: "nat list \<Rightarrow> jsstring" where
  "base64 [] = []"
| "base64 [a] = [b64 (a div 4), b64 ((a mod 4) * 16), b64pad, b64pad]"
| "base64 [a, b] =
     [b64 (a div 4), b64 ((a mod 4) * 16 + b div 16), b64 ((b mod 16) * 4), b64pad]"
| "base64 (a # b # c # rest) =
     [b64 (a div 4), b64 ((a mod 4) * 16 + b div 16),
      b64 ((b mod 16) * 4 + c div 64), b64 (c mod 64)] @ base64 rest"

text \<open>\<^verbatim>\<open>btoa\<close> throws \<^verbatim>\<open>InvalidCharacterError\<close> when a code unit exceeds U+00FF.\<close>

definition btoa :: "jsstring \<Rightarrow> js_error + jsstring" where
  "btoa s = (if list_all (\<lambda>c. c \<le> 0xFF) s then Inr (base64 (map unat s))
             else Inl InvalidCharacterError)"

subsection \<open>\<^verbatim>\<open>encodeURIComponent\<close>\<close>

definition isHighSurrogate :: "jschar \<Rightarrow> bool" where
  "isHighSurrogate c = (0xD800 \<le> c \<and> c \<le> 0xDBFF)"

definition isLowSurrogate :: "jschar \<Rightarrow> bool" where
  "isLowSurrogate c = (0xDC00 \<le> c \<and> c \<le> 0xDFFF)"

definition uriUnreserved :: "jschar \<Rightarrow> bool" where
  "uriUnreserved c =
     ((0x41 \<le> c \<and> c \<le> 0x5A) \<or> (0x61 \<le> c \<and> c \<le> 0x7A) \<or> (0x30 \<le> c \<and> c \<le> 0x39)
      \<or> c \<in> set (js ''-_.!~*'') \<or> c = 0x27 \<or> c = 0x28 \<or> c = 0x29)"

definition hexUpper :: "nat \<Rightarrow> jschar" where
  "hexUpper n = js ''0123456789ABCDEF'' ! (n mod 16)"

definition percent :: "nat \<Rightarrow> jsstring" where
  "percent b = [0x25, hexUpper (b div 16), hexUpper (b mod 16)]"

definition utf8 :: "nat \<Rightarrow> nat list" where
  "utf8 cp =
     (if cp < 0x80 then [cp]
      else if cp < 0x800 then [0xC0 + cp div 64, 0x80 + cp mod 64]
      else if cp < 0x10000 then [0xE0 + cp div 4096, 0x80 + (cp div 64) mod 64, 0x80 + cp mod 64]
      else [0xF0 + cp div 262144, 0x80 + (cp div 4096) mod 64,
            0x80 + (cp div 64) mod 64, 0x80 + cp mod 64])"

definition surrogatePair :: "jschar \<Rightarrow> jschar \<Rightarrow> nat" where
  "surrogatePair hi lo = (unat hi - 0xD800) * 0x400 + (unat lo - 0xDC00) + 0x10000"

definition thenPrepend :: "jsstring \<Rightarrow> js_error + jsstring \<Rightarrow> js_error + jsstring" where
  "thenPrepend p r = (case r of Inl e \<Rightarrow> Inl e | Inr s \<Rightarrow> Inr (p @ s))"

text \<open>A lone surrogate makes \<^verbatim>\<open>encodeURIComponent\<close> throw \<^verbatim>\<open>URIError\<close>.\<close>

fun encodeURIComponent :: "jsstring \<Rightarrow> js_error + jsstring" where
  "encodeURIComponent [] = Inr []"
| "encodeURIComponent (c # cs) =
     (if uriUnreserved c then thenPrepend [c] (encodeURIComponent cs)
      else if isLowSurrogate c then Inl URIError
      else if \<not> isHighSurrogate c then
        thenPrepend (concat (map percent (utf8 (unat c)))) (encodeURIComponent cs)
      else (case cs of
          [] \<Rightarrow> Inl URIError
        | d # ds \<Rightarrow>
            if \<not> isLowSurrogate d then Inl URIError
            else thenPrepend (concat (map percent (utf8 (surrogatePair c d))))
                   (encodeURIComponent ds)))"

section \<open>Record identifiers\<close>

text \<open>
  Sheet variant: \<^verbatim>\<open>const getSalonId = (salon) => btoa(salon.name + salon.address)\<close>.
  AI variant: \<^verbatim>\<open>const getBusinessId = (business) =>
  btoa(encodeURIComponent(business.name + business.address))\<close>.
\<close>

definition getSalonId :: "js_runtime \<Rightarrow> jsobject \<Rightarrow> js_error + jsstring" where
  "getSalonId rt salon =
     btoa (toStr rt (js_add rt (getProp salon (js ''name'')) (getProp salon (js ''address''))))"

definition getBusinessId :: "js_runtime \<Rightarrow> jsobject \<Rightarrow> js_error + jsstring" where
  "getBusinessId rt business =
     (case encodeURIComponent
             (toStr rt (js_add rt (getProp business (js ''name'')) (getProp business (js ''address''))))
      of Inl e \<Rightarrow> Inl e | Inr s \<Rightarrow> btoa s)"


section \<open>Strings, property access and JSON\<close>

text \<open>Decimal digits of a natural number, as \<^verbatim>\<open>String(i)\<close> gives them for an array index.\<close>

definition digitChar :: "nat \<Rightarrow> jschar" where
  "digitChar n = js ''0123456789'' ! (n mod 10)"

fun decNat :: "nat \<Rightarrow> jsstring" where
  "decNat n = (if n < 10 then [digitChar n] else decNat (n div 10) @ [digitChar (n mod 10)])"

declare decNat.simps [simp del]

text \<open>\<^verbatim>\<open>s.includes(q)\<close>: \<open>q\<close> occurs in \<open>s\<close> as a contiguous run of code units.\<close>

fun js_includes :: "jsstring \<Rightarrow> jsstring \<Rightarrow> bool" where
  "js_includes [] q = (q = [])"
| "js_includes (c # cs) q = (take (length q) (c # cs) = q \<or> js_includes cs q)"

text \<open>The white space and line terminators that \<^verbatim>\<open>String.prototype.trim\<close> removes.\<close>

definition isWhiteSpace :: "jschar \<Rightarrow> bool" where
  "isWhiteSpace c =
     ((0x09 \<le> c \<and> c \<le> 0x0D) \<or> c = 0x20 \<or> c = 0xA0 \<or> c = 0x1680
      \<or> (0x2000 \<le> c \<and> c \<le> 0x200A) \<or> c = 0x2028 \<or> c = 0x2029 \<or> c = 0x202F
      \<or> c = 0x205F \<or> c = 0x3000 \<or> c = 0xFEFF)"

definition trim :: "jsstring \<Rightarrow> jsstring" where
  "trim s = rev (dropWhile isWhiteSpace (rev (dropWhile isWhiteSpace s)))"


fun getMember :: "jsval \<Rightarrow> jsstring \<Rightarrow> jsval" where
  "getMember (JObject obj) k = getProp obj k"
| "getMember (JArray xs) k =
     (if k = js ''length'' then JNumber (Finite (of_nat (length xs)))
      else case find (\<lambda>i. decNat i = k) [0..<length xs] of
             None \<Rightarrow> JUndefined | Some i \<Rightarrow> xs ! i)"
| "getMember (JString s) k =
     (if k = js ''length'' then JNumber (Finite (of_nat (length s)))
      else case find (\<lambda>i. decNat i = k) [0..<length s] of
             None \<Rightarrow> JUndefined | Some i \<Rightarrow> JString [s ! i])"
| "getMember v k = JUndefined"

text \<open>Optional chaining \<^verbatim>\<open>v?.[k]\<close>.\<close>

definition optMember :: "jsval \<Rightarrow> jsstring \<Rightarrow> jsval" where
  "optMember v k = (if v = JUndefined \<or> v = JNull then JUndefined else getMember v k)"

text \<open>\<^verbatim>\<open>a || b\<close> and \<^verbatim>\<open>a ?? b\<close>.\<close>

definition orElse :: "jsval \<Rightarrow> jsval \<Rightarrow> jsval" where
  "orElse a b = (if truthy a then a else b)"

definition the_default :: "'a \<Rightarrow> 'a option \<Rightarrow> 'a" where
  "the_default d x = (case x of None \<Rightarrow> d | Some y \<Rightarrow> y)"

definition nullish :: "jsval \<Rightarrow> jsval \<Rightarrow> jsval" where
  "nullish a b = (if a = JUndefined \<or> a = JNull then b else a)"

text \<open>
  \<^verbatim>\<open>a === b\<close> on primitives. Arrays and objects compare by reference; the model has values
  only, and two of them never count as the same reference.
\<close>

fun strictEq :: "jsval \<Rightarrow> jsval \<Rightarrow> bool" where
  "strictEq (JNumber a) (JNumber b) = (a = b \<and> a \<noteq> NaN)"
| "strictEq (JArray xs) b = False"
| "strictEq (JObject obj) b = False"
| "strictEq a b = (a = b)"

subsection \<open>\<^verbatim>\<open>JSON.stringify\<close>\<close>

definition hexLower :: "nat \<Rightarrow> jschar" where
  "hexLower n = js ''0123456789abcdef'' ! (n mod 16)"

definition unicodeEscape :: "jschar \<Rightarrow> jsstring" where
  "unicodeEscape c =
     [0x5C, 0x75] @ [hexLower (unat c div 4096), hexLower (unat c div 256),
                  hexLower (unat c div 16), hexLower (unat c)]"

definition quoteUnit :: "jschar \<Rightarrow> jsstring" where
  "quoteUnit c =
     (if c = 0x08 then [0x5C, 0x62] else if c = 0x09 then [0x5C, 0x74]
      else if c = 0x0A then [0x5C, 0x6E] else if c = 0x0C then [0x5C, 0x66]
      else if c = 0x0D then [0x5C, 0x72] else if c = 0x22 then [0x5C, 0x22]
      else if c = 0x5C then [0x5C, 0x5C]
      else if c < 0x20 then unicodeEscape c
      else [c])"

text \<open>
  The body of a quoted string: a surrogate pair is kept, a lone surrogate is written as a
  \<^verbatim>\<open>u\<close> escape.
\<close>

fun quoteBody :: "jsstring \<Rightarrow> jsstring" where
  "quoteBody [] = []"
| "quoteBody (c # cs) =
     (if isHighSurrogate c then
        (case cs of
           [] \<Rightarrow> unicodeEscape c
         | d # ds \<Rightarrow> if isLowSurrogate d then c # d # quoteBody ds
                     else unicodeEscape c @ quoteBody (d # ds))
      else if isLowSurrogate c then unicodeEscape c @ quoteBody cs
      else quoteUnit c @ quoteBody cs)"

definition quoteJSON :: "jsstring \<Rightarrow> jsstring" where
  "quoteJSON s = [0x22] @ quoteBody s @ [0x22]"

text \<open>\<open>None\<close> is the result \<^verbatim>\<open>undefined\<close>. An object skips its undefined properties.\<close>

fun JSON_stringify :: "js_runtime \<Rightarrow> jsval \<Rightarrow> jsstring option" where
  "JSON_stringify rt JUndefined = None"
| "JSON_stringify rt JNull = Some (js ''null'')"
| "JSON_stringify rt (JBoolean b) = Some (if b then js ''true'' else js ''false'')"
| "JSON_stringify rt (JNumber n) =
     Some (case n of Finite q \<Rightarrow> finiteToString rt q | _ \<Rightarrow> js ''null'')"
| "JSON_stringify rt (JString s) = Some (quoteJSON s)"
| "JSON_stringify rt (JArray xs) =
     Some (js ''['' @ intercalate (js '','')
             (map (\<lambda>x. case JSON_stringify rt x of None \<Rightarrow> js ''null'' | Some t \<Rightarrow> t) xs)
           @ js '']'')"
| "JSON_stringify rt (JObject obj) =
     Some (js ''{'' @ intercalate (js '','')
             (concat (map (\<lambda>kv. case JSON_stringify rt (snd kv) of
                                   None \<Rightarrow> []
                                 | Some t \<Rightarrow> [quoteJSON (fst kv) @ js '':'' @ t]) obj))
           @ js ''}'')"

text \<open>\<^verbatim>\<open>JSON.stringify\<close> of an array, which is never \<^verbatim>\<open>undefined\<close>.\<close>

definition stringifyArray :: "js_runtime \<Rightarrow> jsval list \<Rightarrow> jsstring" where
  "stringifyArray rt xs = (case JSON_stringify rt (JArray xs) of None \<Rightarrow> [] | Some t \<Rightarrow> t)"

definition stringifyObject :: "js_runtime \<Rightarrow> jsobject \<Rightarrow> jsstring" where
  "stringifyObject rt obj = (case JSON_stringify rt (JObject obj) of None \<Rightarrow> [] | Some t \<Rightarrow> t)"


section \<open>The AI variant: export and filtering\<close>

text \<open>
  \<^verbatim>\<open>escapeHTML\<close>: a string has its five special characters replaced; any other value
  goes through \<^verbatim>\<open>String(str || '')\<close>.
\<close>

definition escapeUnit :: "jschar \<Rightarrow> jsstring" where
  "escapeUnit c =
     (if c = 0x26 then js ''&amp;'' else if c = 0x3C then js ''&lt;''
      else if c = 0x3E then js ''&gt;'' else if c = 0x22 then js ''&quot;''
      else if c = 0x27 then js ''&#39;'' else [c])"

fun escapeHTML :: "js_runtime \<Rightarrow> jsval \<Rightarrow> jsstring" where
  "escapeHTML rt (JString s) = concat (map escapeUnit s)"
| "escapeHTML rt v = toStr rt (orElse v (JString []))"






text \<open>
  \<^verbatim>\<open>filterAndRenderResults\<close> keeps a business when the three tests of its callback hold.
  \<^verbatim>\<open>(b.socialMedia?.instagram || '').toLowerCase()\<close> throws when the handle is a truthy value
  that is not a string.
\<close>

definition lowerOrThrow :: "js_runtime \<Rightarrow> jsval \<Rightarrow> js_error + jsstring" where
  "lowerOrThrow rt v =
     (case orElse v (JString []) of
        JString s \<Rightarrow> Inr (toLowerCase rt s)
      | _ \<Rightarrow> Inl TypeError)"

definition businessMatches ::
  "js_runtime \<Rightarrow> jsstring \<Rightarrow> jsstring \<Rightarrow> bool \<Rightarrow> jsobject \<Rightarrow> js_error + bool" where
  "businessMatches rt searchTerm instagramSearchTerm hasInstagramOnly b =
     (let fullText = toLowerCase rt (stringifyObject rt b);
          matchesSearch = (if searchTerm \<noteq> [] then js_includes fullText searchTerm else True);
          instagram = optMember (getProp b (js ''socialMedia'')) (js ''instagram'')
      in case (if instagramSearchTerm \<noteq> []
               then (case lowerOrThrow rt instagram of
                       Inl e \<Rightarrow> Inl e
                     | Inr handle \<Rightarrow> Inr (js_includes handle instagramSearchTerm))
               else Inr True) of
           Inl e \<Rightarrow> Inl e
         | Inr matchesInstagram \<Rightarrow>
             Inr (matchesSearch \<and> matchesInstagram
                  \<and> (if hasInstagramOnly then truthy instagram else True)))"

text \<open>\<^verbatim>\<open>xs.filter(p)\<close> for a callback that may throw: the first throw ends the loop.\<close>

fun filterThrowing :: "('a \<Rightarrow> js_error + bool) \<Rightarrow> 'a list \<Rightarrow> js_error + 'a list" where
  "filterThrowing p [] = Inr []"
| "filterThrowing p (x # xs) =
     (case p x of
        Inl e \<Rightarrow> Inl e
      | Inr keep \<Rightarrow>
          (case filterThrowing p xs of
             Inl e \<Rightarrow> Inl e
           | Inr ys \<Rightarrow> Inr (if keep then x # ys else ys)))"

text \<open>
  The three inputs of the AI variant's filter bar, and \<^verbatim>\<open>filtered\<close> as
  \<^verbatim>\<open>filterAndRenderResults\<close> computes it before handing it to \<^verbatim>\<open>renderResults\<close>.
\<close>

record filter_inputs =
  searchInput :: jsstring
  instagramHandleInput :: jsstring
  followsFilterCheckbox :: bool

definition filterBusinesses ::
  "js_runtime \<Rightarrow> filter_inputs \<Rightarrow> jsobject list \<Rightarrow> js_error + jsobject list" where
  "filterBusinesses rt ui currentBusinesses =
     (let searchTerm = toLowerCase rt (searchInput ui);
          instagramSearchTerm = toLowerCase rt (instagramHandleInput ui);
          hasInstagramOnly = followsFilterCheckbox ui
      in filterThrowing (businessMatches rt searchTerm instagramSearchTerm hasInstagramOnly)
           currentBusinesses)"


section \<open>The sheet variant: state and display\<close>

text \<open>
  What the page shows. A card is kept as the parts of its markup that the program reads
  back or rewrites: the salon id (in the element id \<^verbatim>\<open>card-<id>\<close> and in the button's
  \<^verbatim>\<open>data-salon-id\<close>), the \<^verbatim>\<open>data-salon-info\<close> snapshot, and the favorite button's text,
  \<^verbatim>\<open>favorited\<close> class and \<^verbatim>\<open>disabled\<close> attribute. The remaining markup of a card is text
  built by \<^verbatim>\<open>escapeHTML\<close> and is not kept.
\<close>

record card =
  cardId :: jsstring
  salonInfo :: jsstring
  buttonText :: jsstring
  buttonFavorited :: bool
  buttonDisabled :: bool

datatype html = Cards "card list" | Message jsstring | ErrorBox jsstring | NoContent

datatype direction = Asc | Desc

text \<open>
  The module's variables, the parts of the document it reads and writes, and a log of its
  calls to the outside (\<^verbatim>\<open>alert\<close>, \<^verbatim>\<open>updateSheetData\<close>, \<^verbatim>\<open>clearInterval\<close>). The page markup is
  not part of the sources: \<open>resultsFirst\<close> says whether the results container precedes the
  favorites list in document order, which decides what \<^verbatim>\<open>getElementById\<close> finds.
\<close>

record app_state =
  currentSalons :: "jsobject list"
  headers :: "jsstring list"
  currentSpreadsheetId :: "jsstring option"
  dataPollingInterval :: "nat option"
  lastDataState :: jsstring
  isEditing :: bool
  currentSortKey :: jsstring
  currentSortDirection :: direction
  searchInputValue :: jsstring
  favoritesHidden :: bool
  loaderHidden :: bool
  resultsContainer :: html
  favoritesList :: html
  resultsFirst :: bool
  mapHidden :: bool
  mapMarkers :: "jsstring list"
  sortOptions :: "jsstring list"
  alerts :: "jsstring list"
  sheetWrites :: "(jsstring \<times> jsval list list) list"
  clearedIntervals :: "nat list"

text \<open>
  A thrown error of the Google API client carries \<^verbatim>\<open>result.error\<close>; \<open>GapiError status message\<close>
  is such an error, an absent \<^verbatim>\<open>status\<close> or \<^verbatim>\<open>message\<close> being the empty string.
\<close>

definition parseGapiError :: "js_error \<Rightarrow> jsstring" where
  "parseGapiError err =
     (case err of
        GapiError status message \<Rightarrow>
          (if status = js ''NOT_FOUND'' then
             js ''The Google Sheet could not be found. Please check the URL or ID and make sure it's correct.''
           else if status = js ''PERMISSION_DENIED'' then
             js ''You do not have permission to access this Google Sheet. Please check the sheet's sharing settings and ensure you are signed in with the correct Google account.''
           else if status = js ''RESOURCE_EXHAUSTED'' then
             js ''The app has made too many requests to Google Sheets. Please wait a moment and try again later.''
           else if message \<noteq> [] then message
           else js ''An unknown error occurred while communicating with Google Sheets.'')
      | _ \<Rightarrow> js ''An unexpected error occurred. Please check the console for more details.'')"

definition setLoading :: "bool \<Rightarrow> app_state \<Rightarrow> app_state" where
  "setLoading isLoading s = s\<lparr>loaderHidden := \<not> isLoading\<rparr>"

definition displayError :: "jsstring \<Rightarrow> app_state \<Rightarrow> app_state" where
  "displayError message s = s\<lparr>resultsContainer := ErrorBox message\<rparr>"

definition alert :: "jsstring \<Rightarrow> app_state \<Rightarrow> app_state" where
  "alert message s = s\<lparr>alerts := alerts s @ [message]\<rparr>"

definition isFavorited :: "js_runtime \<Rightarrow> jsobject \<Rightarrow> bool" where
  "isFavorited rt salon =
     (let favValue = (if truthy (getProp salon (js ''favorite''))
                      then toUpperCase rt (toStr rt (getProp salon (js ''favorite'')))
                      else js ''FALSE'')
      in favValue = js ''TRUE'')"

text \<open>
  \<^verbatim>\<open>updateFavoriteButtons\<close>: every favorite button of the document whose \<^verbatim>\<open>data-salon-id\<close>
  is the salon's id gets its text and class from \<^verbatim>\<open>isFavorited(salon)\<close>.
\<close>

definition setButton :: "jsstring \<Rightarrow> bool \<Rightarrow> card \<Rightarrow> card" where
  "setButton salonId isNowFavorited c =
     (if cardId c = salonId
      then c\<lparr>buttonText := (if isNowFavorited then js ''Unfavorite'' else js ''Favorite''),
             buttonFavorited := isNowFavorited\<rparr>
      else c)"

fun mapCards :: "(card \<Rightarrow> card) \<Rightarrow> html \<Rightarrow> html" where
  "mapCards f (Cards cs) = Cards (map f cs)"
| "mapCards f h = h"

definition updateFavoriteButtons :: "js_runtime \<Rightarrow> jsobject \<Rightarrow> app_state \<Rightarrow> js_error + app_state" where
  "updateFavoriteButtons rt salon s =
     (case getSalonId rt salon of
        Inl e \<Rightarrow> Inl e
      | Inr salonId \<Rightarrow>
          (let isNowFavorited = isFavorited rt salon
           in Inr (s\<lparr>resultsContainer := mapCards (setButton salonId isNowFavorited) (resultsContainer s),
                     favoritesList := mapCards (setButton salonId isNowFavorited) (favoritesList s)\<rparr>)))"


subsection \<open>Cards\<close>

text \<open>
  \<^verbatim>\<open>url && url.startsWith('http')\<close> is evaluated for every source and social link: a truthy
  value that is not a string has no \<^verbatim>\<open>startsWith\<close>, and the call throws \<^verbatim>\<open>TypeError\<close>.
\<close>

fun startsWithThrows :: "jsval \<Rightarrow> bool" where
  "startsWithThrows (JString u) = False"
| "startsWithThrows v = truthy v"

text \<open>
  \<^verbatim>\<open>renderSources\<close> returns early on a falsy or empty \<^verbatim>\<open>sources\<close> and calls
  \<^verbatim>\<open>salon.sources.filter\<close> otherwise, which only an array has.
\<close>

definition renderSourcesThrows :: "jsobject \<Rightarrow> bool" where
  "renderSourcesThrows salon =
     (let sources = getProp salon (js ''sources'')
      in if \<not> truthy sources \<or> strictEq (getMember sources (js ''length'')) (JNumber (Finite 0))
         then False
         else (case sources of
                 JArray urls \<Rightarrow> list_ex startsWithThrows urls
               | _ \<Rightarrow> True))"

definition socialIconKeys :: "jsstring list" where
  "socialIconKeys = [js ''instagram'', js ''facebook'', js ''tiktok'']"

text \<open>The own properties that the spread \<^verbatim>\<open>{ ...v }\<close> copies.\<close>

definition spreadEntries :: "jsval \<Rightarrow> jsobject" where
  "spreadEntries v =
     (case v of
        JObject obj \<Rightarrow> obj
      | JArray xs \<Rightarrow> zip (map decNat [0..<length xs]) xs
      | JString t \<Rightarrow> zip (map decNat [0..<length t]) (map (\<lambda>c. JString [c]) t)
      | _ \<Rightarrow> [])"

definition collectedSocials :: "jsobject \<Rightarrow> jsobject" where
  "collectedSocials salon =
     foldl (\<lambda>collected key.
              if key \<in> set socialIconKeys \<and> \<not> truthy (getProp collected key)
              then setProp collected key (getProp salon key)
              else collected)
           (spreadEntries (getProp salon (js ''social_media'')))
           (map fst salon)"

definition renderSocialsThrows :: "jsobject \<Rightarrow> bool" where
  "renderSocialsThrows salon = list_ex (\<lambda>entry. startsWithThrows (snd entry)) (collectedSocials salon)"

text \<open>One element of \<^verbatim>\<open>createSalonCards\<close>: the template of a card, with what can throw in it.\<close>

definition createSalonCard :: "js_runtime \<Rightarrow> jsobject \<Rightarrow> js_error + card" where
  "createSalonCard rt salon =
     (case getSalonId rt salon of
        Inl e \<Rightarrow> Inl e
      | Inr salonId \<Rightarrow>
          (let isFav = isFavorited rt salon;
               canEdit = (getProp salon (js ''rowIndex'') \<noteq> JUndefined)
           in if renderSourcesThrows salon \<or> renderSocialsThrows salon then Inl TypeError
              else Inr \<lparr>cardId = salonId,
                        salonInfo = stringifyObject rt salon,
                        buttonText = (if isFav then js ''Unfavorite'' else js ''Favorite''),
                        buttonFavorited = isFav,
                        buttonDisabled = (\<not> canEdit)\<rparr>))"

text \<open>\<^verbatim>\<open>xs.map(f)\<close> for a callback that may throw.\<close>

fun mapThrowing :: "('a \<Rightarrow> js_error + 'b) \<Rightarrow> 'a list \<Rightarrow> js_error + 'b list" where
  "mapThrowing f [] = Inr []"
| "mapThrowing f (x # xs) =
     (case f x of
        Inl e \<Rightarrow> Inl e
      | Inr y \<Rightarrow> (case mapThrowing f xs of Inl e \<Rightarrow> Inl e | Inr ys \<Rightarrow> Inr (y # ys)))"

definition createSalonCards :: "js_runtime \<Rightarrow> jsobject list \<Rightarrow> js_error + card list" where
  "createSalonCards rt salons = mapThrowing (createSalonCard rt) salons"

text \<open>
  \<^verbatim>\<open>updateMap\<close>. The mapping widget is an outside service: its calls are taken to return
  normally, and of a marker only the salon id is kept. Markers are added one by one, so a
  throwing \<^verbatim>\<open>getSalonId\<close> leaves those added before it.
\<close>

fun addMarkers :: "js_runtime \<Rightarrow> jsobject list \<Rightarrow> jsstring list \<Rightarrow> js_error option \<times> jsstring list" where
  "addMarkers rt [] acc = (None, acc)"
| "addMarkers rt (salon # rest) acc =
     (case getSalonId rt salon of
        Inl e \<Rightarrow> (Some e, acc)
      | Inr salonId \<Rightarrow> addMarkers rt rest (acc @ [salonId]))"

definition updateMap :: "js_runtime \<Rightarrow> jsobject list \<Rightarrow> app_state \<Rightarrow> js_error option \<times> app_state" where
  "updateMap rt salons s =
     (let validSalons =
            filter (\<lambda>x. truthy (getProp x (js ''latitude'')) \<and> truthy (getProp x (js ''longitude'')))
                   salons
      in if length validSalons = 0 then (None, s\<lparr>mapHidden := True\<rparr>)
         else (case addMarkers rt validSalons [] of
                 (thrown, markers) \<Rightarrow> (thrown, s\<lparr>mapHidden := False, mapMarkers := markers\<rparr>)))"

definition displayResults :: "js_runtime \<Rightarrow> jsobject list \<Rightarrow> app_state \<Rightarrow> js_error option \<times> app_state" where
  "displayResults rt salons s =
     (if length salons = 0 then
        (let query = trim (searchInputValue s)
         in updateMap rt []
              (s\<lparr>resultsContainer :=
                    (if query \<noteq> []
                     then Message (js ''No salons found matching \"'' @ escapeHTML rt (JString query) @ js ''\".'')
                     else Message (js ''No salons found.''))\<rparr>))
      else (case createSalonCards rt salons of
              Inl e \<Rightarrow> (Some e, s)
            | Inr cards \<Rightarrow> updateMap rt salons (s\<lparr>resultsContainer := Cards cards\<rparr>)))"

definition displayFavorites :: "js_runtime \<Rightarrow> app_state \<Rightarrow> js_error option \<times> app_state" where
  "displayFavorites rt s =
     (let s1 = s\<lparr>mapHidden := True, resultsContainer := NoContent\<rparr>;
          favoriteSalons = filter (isFavorited rt) (currentSalons s1)
      in if length favoriteSalons = 0 then
           (None, s1\<lparr>favoritesList := Message (js ''You haven't saved any favorite salons yet.'')\<rparr>)
         else (case createSalonCards rt favoriteSalons of
                 Inl e \<Rightarrow> (Some e, s1)
               | Inr cards \<Rightarrow> (None, s1\<lparr>favoritesList := Cards cards\<rparr>)))"


section \<open>The sheet variant: sorting and filtering\<close>

text \<open>
  The comparator of \<^verbatim>\<open>sortSalons\<close>. \<open>boolLike\<close> is the replacement of a \<^verbatim>\<open>'TRUE'\<close> or
  \<^verbatim>\<open>'FALSE'\<close> string by a boolean; \<open>numericPath\<close> is the condition of the \<^verbatim>\<open>if\<close> that
  selects the numeric comparison, on the two values after that replacement.
\<close>

definition boolLike :: "js_runtime \<Rightarrow> jsval \<Rightarrow> jsval" where
  "boolLike rt val =
     (case val of
        JString t \<Rightarrow>
          (if toUpperCase rt t = js ''TRUE'' \<or> toUpperCase rt t = js ''FALSE''
           then JBoolean (toUpperCase rt t = js ''TRUE'')
           else val)
      | _ \<Rightarrow> val)"

definition sortValue :: "js_runtime \<Rightarrow> jsobject \<Rightarrow> jsstring \<Rightarrow> jsval" where
  "sortValue rt a key = boolLike rt (nullish (getProp a key) (JString []))"

definition numericGuard :: "js_runtime \<Rightarrow> jsval \<Rightarrow> bool" where
  "numericGuard rt val =
     (parseFloat rt (toStr rt val) \<noteq> NaN
      \<and> toStr rt val = numToString rt (parseFloat rt (toStr rt val)))"

definition numericPath :: "js_runtime \<Rightarrow> jsval \<Rightarrow> jsval \<Rightarrow> bool" where
  "numericPath rt valA valB =
     (let numA = parseFloat rt (toStr rt valA);
          numB = parseFloat rt (toStr rt valB)
      in numA \<noteq> NaN \<and> numB \<noteq> NaN
         \<and> toStr rt valA = numToString rt numA \<and> toStr rt valB = numToString rt numB)"

fun numLess :: "jsnum \<Rightarrow> jsnum \<Rightarrow> bool" where
  "numLess NaN b = False"
| "numLess a NaN = False"
| "numLess PosInf b = False"
| "numLess a NegInf = False"
| "numLess NegInf b = True"
| "numLess a PosInf = True"
| "numLess (Finite x) (Finite y) = (x < y)"

definition dirSign :: "direction \<Rightarrow> int" where
  "dirSign direction = (if direction = Asc then 1 else -1)"

definition compareSalons :: "js_runtime \<Rightarrow> jsstring \<Rightarrow> direction \<Rightarrow> jsobject \<Rightarrow> jsobject \<Rightarrow> int" where
  "compareSalons rt key direction a b =
     (let dir = dirSign direction;
          valA = sortValue rt a key;
          valB = sortValue rt b key;
          numA = parseFloat rt (toStr rt valA);
          numB = parseFloat rt (toStr rt valB)
      in if numericPath rt valA valB then
           (if numLess numA numB then -1 * dir
            else if numLess numB numA then 1 * dir
            else 0)
         else localeCompare rt (toStr rt valA) (toStr rt valB) * dir)"

text \<open>
  \<^verbatim>\<open>Array.prototype.sort\<close> is stable; with a comparator that is not a consistent order its
  result is left to the engine. The model sorts by stable insertion.
\<close>

fun insertBy :: "('a \<Rightarrow> 'a \<Rightarrow> int) \<Rightarrow> 'a \<Rightarrow> 'a list \<Rightarrow> 'a list" where
  "insertBy cmp x [] = [x]"
| "insertBy cmp x (y # ys) = (if cmp x y < 0 then x # y # ys else y # insertBy cmp x ys)"

definition sortBy :: "('a \<Rightarrow> 'a \<Rightarrow> int) \<Rightarrow> 'a list \<Rightarrow> 'a list" where
  "sortBy cmp xs = foldl (\<lambda>sorted x. insertBy cmp x sorted) [] xs"

definition sortSalons :: "js_runtime \<Rightarrow> jsobject list \<Rightarrow> jsstring \<Rightarrow> direction \<Rightarrow> jsobject list" where
  "sortSalons rt salons key direction = sortBy (compareSalons rt key direction) salons"

text \<open>
  The callback of the filter in \<^verbatim>\<open>applyFilterAndRender\<close>. \<^verbatim>\<open>(salon.name || '').toLowerCase()\<close>
  throws on a truthy value that is not a string; the three fields are read before the
  tests are combined.
\<close>

definition salonMatches :: "js_runtime \<Rightarrow> jsstring \<Rightarrow> jsobject \<Rightarrow> js_error + bool" where
  "salonMatches rt query salon =
     (case lowerOrThrow rt (getProp salon (js ''name'')) of
        Inl e \<Rightarrow> Inl e
      | Inr name \<Rightarrow>
     (case lowerOrThrow rt (getProp salon (js ''address'')) of
        Inl e \<Rightarrow> Inl e
      | Inr address \<Rightarrow>
     (case lowerOrThrow rt (getProp salon (js ''description'')) of
        Inl e \<Rightarrow> Inl e
      | Inr description \<Rightarrow>
          Inr (js_includes name query \<or> js_includes address query
               \<or> js_includes description query))))"

text \<open>\<^verbatim>\<open>salonsToRender\<close> as \<^verbatim>\<open>applyFilterAndRender\<close> computes it before the sort.\<close>

definition filterSalons :: "js_runtime \<Rightarrow> jsstring \<Rightarrow> jsobject list \<Rightarrow> js_error + jsobject list" where
  "filterSalons rt searchValue salons =
     (let query = toLowerCase rt (trim searchValue)
      in if query \<noteq> [] then filterThrowing (salonMatches rt query) salons else Inr salons)"

definition applyFilterAndRender :: "js_runtime \<Rightarrow> app_state \<Rightarrow> js_error option \<times> app_state" where
  "applyFilterAndRender rt s =
     (if favoritesHidden s then
        (case filterSalons rt (searchInputValue s) (currentSalons s) of
           Inl e \<Rightarrow> (Some e, s)
         | Inr filtered \<Rightarrow>
             (let salonsToRender =
                    (if currentSortKey s \<noteq> js ''none''
                     then sortSalons rt filtered (currentSortKey s) (currentSortDirection s)
                     else filtered)
              in displayResults rt salonsToRender s))
      else (None, s))"


section \<open>The sheet variant: polling\<close>

text \<open>
  The outcome of \<^verbatim>\<open>gapi.client.sheets.spreadsheets.values.get\<close>: the promise is rejected,
  or fulfils with \<^verbatim>\<open>response.result.values\<close>, which is absent for an empty sheet and
  otherwise the rows of the range. The call leaves the value render option at its default,
  so every cell is a string.
\<close>

datatype fetch_result = Rejected js_error | Values "jsstring list list option"

definition rowsValue :: "jsstring list list \<Rightarrow> jsval list" where
  "rowsValue data = map (\<lambda>row. JArray (map JString row)) data"

text \<open>
  Modelled from the spec: \<^verbatim>\<open>updateSortOptions\<close> is called by \<^verbatim>\<open>loadData\<close> and defined in a
  part of the module that the sources do not include; a header-set change "triggers
  reconstruction of sort options", and nothing else is said of it.
\<close>

definition updateSortOptions :: "jsstring list \<Rightarrow> app_state \<Rightarrow> app_state" where
  "updateSortOptions hs s = s\<lparr>sortOptions := hs\<rparr>"

text \<open>\<^verbatim>\<open>row[i] || ''\<close> for a row of strings.\<close>

definition cellOrEmpty :: "jsstring list \<Rightarrow> nat \<Rightarrow> jsval" where
  "cellOrEmpty row i = orElse (if i < length row then JString (row ! i) else JUndefined) (JString [])"

text \<open>The callback of \<^verbatim>\<open>rows.map\<close> in \<^verbatim>\<open>loadData\<close>.\<close>

definition makeSalon :: "js_runtime \<Rightarrow> jsstring list \<Rightarrow> jsstring list \<Rightarrow> nat \<Rightarrow> jsobject" where
  "makeSalon rt hs row index =
     foldl (\<lambda>salon (header, i). setProp salon (toLowerCase rt header) (cellOrEmpty row i))
           [(js ''rowIndex'', JNumber (Finite (of_nat (index + 2))))]
           (zip hs [0..<length hs])"

definition makeSalons :: "js_runtime \<Rightarrow> jsstring list \<Rightarrow> jsstring list list \<Rightarrow> jsobject list" where
  "makeSalons rt hs rows = map (\<lambda>(row, index). makeSalon rt hs row index) (zip rows [0..<length rows])"

definition noDataMessage :: jsstring where
  "noDataMessage = js ''No data found in the sheet, or sheet is missing a header row.''"

text \<open>
  The \<^verbatim>\<open>try\<close> block of \<^verbatim>\<open>loadData\<close> from the fulfilled fetch on. The result is the state
  where the block ended, with the error when it ended by a throw.
\<close>

definition loadData_try :: "js_runtime \<Rightarrow> jsstring list list option \<Rightarrow> app_state \<Rightarrow> js_error option \<times> app_state" where
  "loadData_try rt values s =
     (case values of
        None \<Rightarrow> (None, setLoading False (displayError noDataMessage s))
      | Some data \<Rightarrow>
          if length data < 2 then (None, setLoading False (displayError noDataMessage s))
          else
            (let currentState = stringifyArray rt (rowsValue data)
             in if currentState = lastDataState s then (None, setLoading False s)
                else
                  (let s1 = s\<lparr>lastDataState := currentState\<rparr>;
                       newHeaders = hd data;
                       s2 = (if stringifyArray rt (map JString (headers s1))
                                \<noteq> stringifyArray rt (map JString newHeaders)
                             then updateSortOptions newHeaders (s1\<lparr>headers := newHeaders\<rparr>)
                             else s1);
                       rows = tl data;
                       s3 = s2\<lparr>currentSalons := makeSalons rt (headers s2) rows\<rparr>
                   in applyFilterAndRender rt s3)))"

text \<open>\<^verbatim>\<open>if (dataPollingInterval)\<close>: a handle is truthy unless it is 0.\<close>

definition pollingActive :: "app_state \<Rightarrow> bool" where
  "pollingActive s = (case dataPollingInterval s of None \<Rightarrow> False | Some h \<Rightarrow> h \<noteq> 0)"

definition errorStatus :: "js_error \<Rightarrow> jsstring" where
  "errorStatus err = (case err of GapiError status message \<Rightarrow> status | _ \<Rightarrow> [])"

text \<open>The \<^verbatim>\<open>catch\<close> block of \<^verbatim>\<open>loadData\<close>.\<close>

definition loadData_catch :: "js_error \<Rightarrow> app_state \<Rightarrow> app_state" where
  "loadData_catch err s =
     (let friendlyMessage = parseGapiError err;
          s1 = displayError friendlyMessage s;
          status = errorStatus err
      in if status = js ''NOT_FOUND'' \<or> status = js ''PERMISSION_DENIED'' then
           (if pollingActive s1
            then s1\<lparr>clearedIntervals := clearedIntervals s1 @ [the_default 0 (dataPollingInterval s1)],
                    dataPollingInterval := None\<rparr>
            else s1)
         else s1)"

text \<open>
  \<^verbatim>\<open>loadData\<close> up to its \<^verbatim>\<open>await\<close>: \<open>None\<close> when it returns before any request, the state
  with the loader shown when the request is sent.
\<close>

definition loadData_begin :: "app_state \<Rightarrow> app_state option" where
  "loadData_begin s =
     (if isEditing s then None
      else if currentSpreadsheetId s = None \<or> currentSpreadsheetId s = Some [] then None
      else Some (setLoading True s))"

text \<open>\<^verbatim>\<open>loadData\<close> from the settled request to its end, through \<^verbatim>\<open>catch\<close> and \<^verbatim>\<open>finally\<close>.\<close>

definition loadData_resume :: "js_runtime \<Rightarrow> fetch_result \<Rightarrow> app_state \<Rightarrow> app_state" where
  "loadData_resume rt r s =
     setLoading False
       (case r of
          Rejected err \<Rightarrow> loadData_catch err s
        | Values values \<Rightarrow>
            (case loadData_try rt values s of
               (None, s1) \<Rightarrow> s1
             | (Some err, s1) \<Rightarrow> loadData_catch err s1))"

text \<open>One poll cycle with nothing else running between the request and its answer.\<close>

definition loadData :: "js_runtime \<Rightarrow> fetch_result \<Rightarrow> app_state \<Rightarrow> app_state" where
  "loadData rt r s = (case loadData_begin s of None \<Rightarrow> s | Some s1 \<Rightarrow> loadData_resume rt r s1)"


section \<open>The sheet variant: favorites\<close>

text \<open>
  \<^verbatim>\<open>toggleFavorite(salon)\<close> runs to the point where the write is sent; the handlers of the
  promise run when the write settles. The record handed in is an object of its own: the
  handler that calls \<^verbatim>\<open>toggleFavorite\<close> is not part of the sources, and a card carries a
  serialized snapshot of its record for it. The functions return the record as they leave it.
\<close>

datatype toggle_outcome =
    NotSheetBacked                              \<comment> \<open>no \<^verbatim>\<open>rowIndex\<close>: alert, nothing changes\<close>
  | NoFavoriteColumn                            \<comment> \<open>no such header: alert, reverted\<close>
  | Threw js_error                              \<comment> \<open>an exception left the function\<close>
  | WriteSent jsstring "jsval list list" jsval  \<comment> \<open>range, values, and \<^verbatim>\<open>originalFavoriteState\<close>\<close>

fun findIndex :: "('a \<Rightarrow> bool) \<Rightarrow> 'a list \<Rightarrow> nat option" where
  "findIndex p [] = None"
| "findIndex p (x # xs) =
     (if p x then Some 0 else (case findIndex p xs of None \<Rightarrow> None | Some i \<Rightarrow> Some (Suc i)))"

definition updateSheetData :: "jsstring \<Rightarrow> jsval list list \<Rightarrow> app_state \<Rightarrow> app_state" where
  "updateSheetData cellRange values s = s\<lparr>sheetWrites := sheetWrites s @ [(cellRange, values)]\<rparr>"

definition toggleFavorite :: "js_runtime \<Rightarrow> jsobject \<Rightarrow> app_state \<Rightarrow> toggle_outcome \<times> jsobject \<times> app_state" where
  "toggleFavorite rt salon s =
     (if getProp salon (js ''rowIndex'') = JUndefined then
        (NotSheetBacked, salon,
         alert (js ''You can only favorite items that are loaded from a Google Sheet.'') s)
      else
        (let originalFavoriteState = getProp salon (js ''favorite'');
             isNowFavorited = (\<not> isFavorited rt salon);
             salon1 = setProp salon (js ''favorite'')
                        (JString (if isNowFavorited then js ''TRUE'' else js ''FALSE''))
         in case updateFavoriteButtons rt salon1 s of
              Inl e \<Rightarrow> (Threw e, salon1, s)
            | Inr s1 \<Rightarrow>
                (case findIndex (\<lambda>h. toLowerCase rt h = js ''favorite'') (headers s1) of
                   None \<Rightarrow>
                     (let s2 = alert (js ''Could not find a \"favorite\" column in your sheet.'') s1;
                          salon2 = setProp salon1 (js ''favorite'') originalFavoriteState
                      in case updateFavoriteButtons rt salon2 s2 of
                           Inl e \<Rightarrow> (Threw e, salon2, s2)
                         | Inr s3 \<Rightarrow> (NoFavoriteColumn, salon2, s3))
                 | Some favoriteColIndex \<Rightarrow>
                     (let colLetter = [of_nat (65 + favoriteColIndex)];
                          cellRange = js ''Sheet1!'' @ colLetter @ toStr rt (getProp salon1 (js ''rowIndex''));
                          values = [[getProp salon1 (js ''favorite'')]]
                      in (WriteSent cellRange values originalFavoriteState, salon1,
                          updateSheetData cellRange values s1)))))"

text \<open>
  \<^verbatim>\<open>document.getElementById('card-' + id)\<close> is the first such card in document order; the
  handler rewrites its \<^verbatim>\<open>data-salon-info\<close>.
\<close>

fun setFirstInfo :: "jsstring \<Rightarrow> jsstring \<Rightarrow> card list \<Rightarrow> card list" where
  "setFirstInfo salonId info [] = []"
| "setFirstInfo salonId info (c # cs) =
     (if cardId c = salonId then c\<lparr>salonInfo := info\<rparr> # cs else c # setFirstInfo salonId info cs)"

fun hasCard :: "jsstring \<Rightarrow> html \<Rightarrow> bool" where
  "hasCard salonId (Cards cs) = list_ex (\<lambda>c. cardId c = salonId) cs"
| "hasCard salonId h = False"

fun setInfoIn :: "jsstring \<Rightarrow> jsstring \<Rightarrow> html \<Rightarrow> html" where
  "setInfoIn salonId info (Cards cs) = Cards (setFirstInfo salonId info cs)"
| "setInfoIn salonId info h = h"

definition setCardInfo :: "jsstring \<Rightarrow> jsstring \<Rightarrow> app_state \<Rightarrow> app_state" where
  "setCardInfo salonId info s =
     (if resultsFirst s then
        (if hasCard salonId (resultsContainer s)
         then s\<lparr>resultsContainer := setInfoIn salonId info (resultsContainer s)\<rparr>
         else s\<lparr>favoritesList := setInfoIn salonId info (favoritesList s)\<rparr>)
      else
        (if hasCard salonId (favoritesList s)
         then s\<lparr>favoritesList := setInfoIn salonId info (favoritesList s)\<rparr>
         else s\<lparr>resultsContainer := setInfoIn salonId info (resultsContainer s)\<rparr>))"

text \<open>The fulfilment handler (\<^verbatim>\<open>.then\<close>).\<close>

definition toggleFavorite_then :: "js_runtime \<Rightarrow> jsobject \<Rightarrow> app_state \<Rightarrow> js_error option \<times> app_state" where
  "toggleFavorite_then rt salon s =
     (case (case findIndex (\<lambda>x. strictEq (getProp x (js ''rowIndex'')) (getProp salon (js ''rowIndex'')))
                           (currentSalons s) of
              None \<Rightarrow> (None, s)
            | Some index \<Rightarrow>
                (let updated = setProp (currentSalons s ! index) (js ''favorite'')
                                 (getProp salon (js ''favorite''));
                     s1 = s\<lparr>currentSalons := (currentSalons s)[index := updated]\<rparr>
                 in case getSalonId rt salon of
                      Inl e \<Rightarrow> (Some e, s1)
                    | Inr salonId \<Rightarrow> (None, setCardInfo salonId (stringifyObject rt updated) s1)))
      of (Some e, s2) \<Rightarrow> (Some e, s2)
       | (None, s2) \<Rightarrow> (if \<not> favoritesHidden s2 then displayFavorites rt s2 else (None, s2)))"

text \<open>
  The rejection handler (\<^verbatim>\<open>.catch\<close>). It is chained after \<^verbatim>\<open>.then\<close>, so it also runs when
  the fulfilment handler throws.
\<close>

definition toggleFavorite_catch ::
  "js_runtime \<Rightarrow> js_error \<Rightarrow> jsval \<Rightarrow> jsobject \<Rightarrow> app_state \<Rightarrow> js_error option \<times> jsobject \<times> app_state" where
  "toggleFavorite_catch rt err originalFavoriteState salon s =
     (let friendlyMessage = parseGapiError err;
          s1 = alert (js ''Failed to update favorite status: '' @ friendlyMessage) s;
          salon1 = setProp salon (js ''favorite'') originalFavoriteState
      in case updateFavoriteButtons rt salon1 s1 of
           Inl e \<Rightarrow> (Some e, salon1, s1)
         | Inr s2 \<Rightarrow> (None, salon1, s2))"

text \<open>
  The whole chain once the write has settled: \<open>None\<close> for a fulfilled write, the error of a
  rejected one.
\<close>

definition toggleFavorite_settled ::
  "js_runtime \<Rightarrow> js_error option \<Rightarrow> jsval \<Rightarrow> jsobject \<Rightarrow> app_state \<Rightarrow> js_error option \<times> jsobject \<times> app_state" where
  "toggleFavorite_settled rt writeError originalFavoriteState salon s =
     (case writeError of
        Some err \<Rightarrow> toggleFavorite_catch rt err originalFavoriteState salon s
      | None \<Rightarrow>
          (case toggleFavorite_then rt salon s of
             (None, s1) \<Rightarrow> (None, salon, s1)
           | (Some e, s1) \<Rightarrow> toggleFavorite_catch rt e originalFavoriteState salon s1))"


section \<open>A reference runtime and example data\<close>

text \<open>
  A runtime for concrete evaluation. It agrees with ECMAScript on ASCII text and on decimal
  integers: letters outside A-Z and a-z keep their case, \<open>refParseFloat\<close> reads white
  space, a sign and decimal digits only, a number that is not an integer is printed with
  the digits of its decimal expansion, addition is exact, and the collation compares
  lower-cased code units, runs of digits by their value.
\<close>

definition asciiLower :: "jsstring \<Rightarrow> jsstring" where
  "asciiLower s = map (\<lambda>c. if 0x41 \<le> c \<and> c \<le> 0x5A then c + 0x20 else c) s"

definition asciiUpper :: "jsstring \<Rightarrow> jsstring" where
  "asciiUpper s = map (\<lambda>c. if 0x61 \<le> c \<and> c \<le> 0x7A then c - 0x20 else c) s"

definition refParseFloat :: "jsstring \<Rightarrow> jsnum" where
  "refParseFloat s =
     (let t = dropWhile isWhiteSpace s;
          negative = (t \<noteq> [] \<and> hd t = 0x2D);
          u = (if t \<noteq> [] \<and> (hd t = 0x2D \<or> hd t = 0x2B) then tl t else t);
          ds = takeWhile isDigit u
      in if ds = [] then NaN
         else Finite (if negative then - of_nat (digitsValue ds) else of_nat (digitsValue ds)))"

fun fractionDigits :: "nat \<Rightarrow> rat \<Rightarrow> jsstring" where
  "fractionDigits 0 r = []"
| "fractionDigits (Suc k) r =
     (if r = 0 then []
      else digitChar (nat \<lfloor>r * 10\<rfloor>) # fractionDigits k (r * 10 - of_int \<lfloor>r * 10\<rfloor>))"

definition refFiniteToString :: "rat \<Rightarrow> jsstring" where
  "refFiniteToString q =
     (if q < 0 then [0x2D] else [])
     @ decNat (nat \<lfloor>\<bar>q\<bar>\<rfloor>)
     @ (if \<bar>q\<bar> = of_int \<lfloor>\<bar>q\<bar>\<rfloor> then []
        else 0x2E # fractionDigits 17 (\<bar>q\<bar> - of_int \<lfloor>\<bar>q\<bar>\<rfloor>))"

fun refNumAdd :: "jsnum \<Rightarrow> jsnum \<Rightarrow> jsnum" where
  "refNumAdd NaN b = NaN"
| "refNumAdd a NaN = NaN"
| "refNumAdd PosInf NegInf = NaN"
| "refNumAdd NegInf PosInf = NaN"
| "refNumAdd PosInf b = PosInf"
| "refNumAdd NegInf b = NegInf"
| "refNumAdd a PosInf = PosInf"
| "refNumAdd a NegInf = NegInf"
| "refNumAdd (Finite x) (Finite y) = Finite (x + y)"

function refCollate :: "jsstring \<Rightarrow> jsstring \<Rightarrow> int" where
  "refCollate [] [] = 0"
| "refCollate [] (y # ys) = -1"
| "refCollate (x # xs) [] = 1"
| "refCollate (x # xs) (y # ys) =
     (if isDigit x \<and> isDigit y then
        (let nx = digitsValue (takeWhile isDigit (x # xs));
             ny = digitsValue (takeWhile isDigit (y # ys))
         in if nx < ny then -1 else if ny < nx then 1
            else refCollate (dropWhile isDigit xs) (dropWhile isDigit ys))
      else if x < y then -1 else if y < x then 1
      else refCollate xs ys)"
  by pat_completeness auto
termination
  by (relation "measure (\<lambda>(a, b). length a)")
     (auto simp: less_Suc_eq_le length_dropWhile_le)

definition refLocaleCompare :: "jsstring \<Rightarrow> jsstring \<Rightarrow> int" where
  "refLocaleCompare a b = refCollate (asciiLower a) (asciiLower b)"

definition refRuntime :: js_runtime where
  "refRuntime =
     \<lparr>toLowerCase = asciiLower, toUpperCase = asciiUpper, parseFloat = refParseFloat,
      finiteToString = refFiniteToString, numAdd = refNumAdd, localeCompare = refLocaleCompare\<rparr>"


definition upperFixesFlags :: "js_runtime \<Rightarrow> bool" where
  "upperFixesFlags rt =
     (toUpperCase rt (js ''TRUE'') = js ''TRUE'' \<and> toUpperCase rt (js ''FALSE'') = js ''FALSE'')"

definition printsNumerals :: "js_runtime \<Rightarrow> bool" where
  "printsNumerals rt = (\<forall>q. set (finiteToString rt q) \<subseteq> set (js ''0123456789.e+-''))"

definition reads123 :: "js_runtime \<Rightarrow> bool" where
  "reads123 rt =
     (parseFloat rt (js ''123'') = Finite 123 \<and> finiteToString rt 123 = js ''123''
      \<and> toUpperCase rt (js ''123'') = js ''123'')"

section \<open>Notions used in the statements\<close>

text \<open>
  \<^verbatim>\<open>String.prototype.isWellFormed\<close>: every surrogate is half of a pair. \<open>nameAddress\<close> is
  the string \<^verbatim>\<open>String(record.name + record.address)\<close> that both identifier functions encode.
\<close>

fun isWellFormed :: "jsstring \<Rightarrow> bool" where
  "isWellFormed [] = True"
| "isWellFormed (c # cs) =
     (if isHighSurrogate c then
        (case cs of [] \<Rightarrow> False | d # ds \<Rightarrow> isLowSurrogate d \<and> isWellFormed ds)
      else \<not> isLowSurrogate c \<and> isWellFormed cs)"

definition nameAddress :: "js_runtime \<Rightarrow> jsobject \<Rightarrow> jsstring" where
  "nameAddress rt obj = toStr rt (js_add rt (getProp obj (js ''name'')) (getProp obj (js ''address'')))"

definition isLatin1 :: "jsstring \<Rightarrow> bool" where
  "isLatin1 s = list_all (\<lambda>c. c \<le> 0xFF) s"

definition isBase64 :: "jsstring \<Rightarrow> bool" where
  "isBase64 s = list_all (\<lambda>c. c \<in> set b64chars \<or> c = b64pad) s"

text \<open>The example sheet of the specification and the records used in concrete checks.\<close>

definition acme :: jsobject where
  "acme = [(js ''rowIndex'', JNumber (Finite 2)), (js ''name'', JString (js ''Acme'')),
           (js ''address'', JString (js ''1 Main St'')), (js ''favorite'', JString (js ''FALSE''))]"

definition zhongwen :: jsobject where
  "zhongwen = [(js ''name'', JString [0x4E2D, 0x6587]), (js ''address'', JString (js ''1 Main St''))]"

definition loneSurrogate :: jsobject where
  "loneSurrogate = [(js ''name'', JString [0xD83D]), (js ''address'', JString (js ''1 Main St''))]"


text \<open>
  The pieces a quoted string is made of, each with the code units it stands for: a surrogate
  pair, the escape of a lone surrogate, or what \<open>quoteUnit\<close> gives for any other unit.
\<close>

inductive token :: "jsstring \<Rightarrow> jsstring \<Rightarrow> bool" where
  pair: "isHighSurrogate c \<Longrightarrow> isLowSurrogate d \<Longrightarrow> token [c, d] [c, d]"
| lone: "isHighSurrogate c \<or> isLowSurrogate c \<Longrightarrow> token (unicodeEscape c) [c]"
| unit: "\<not> isHighSurrogate c \<Longrightarrow> \<not> isLowSurrogate c \<Longrightarrow> token (quoteUnit c) [c]"

text \<open>
  The module's state when it is loaded, the example sheet, a session that polls it, and the
  same session with an edit open.
\<close>

definition initialState :: app_state where
  "initialState =
     \<lparr>currentSalons = [], headers = [], currentSpreadsheetId = None, dataPollingInterval = None,
      lastDataState = [], isEditing = False, currentSortKey = js ''none'',
      currentSortDirection = Asc, searchInputValue = [], favoritesHidden = True,
      loaderHidden = True, resultsContainer = NoContent, favoritesList = NoContent,
      resultsFirst = True, mapHidden = True, mapMarkers = [], sortOptions = [], alerts = [],
      sheetWrites = [], clearedIntervals = []\<rparr>"

definition acmeSheet :: "jsstring list list" where
  "acmeSheet = [[js ''Name'', js ''Address'', js ''Favorite''],
                [js ''Acme'', js ''1 Main St'', js ''FALSE'']]"

definition pollingState :: app_state where
  "pollingState = initialState\<lparr>currentSpreadsheetId := Some (js ''sheet-1''), dataPollingInterval := Some 7\<rparr>"

definition editingState :: app_state where
  "editingState = pollingState\<lparr>isEditing := True\<rparr>"

section \<open>Sequences of events\<close>

text \<open>
  What can happen to the state through the functions above: a poll cycle with the outcome
  of its request, a click on a favorite button with the outcome of its write, a new
  filtering of the results, and the opening of the favorites view's list.
\<close>

datatype event =
    Poll fetch_result
  | Toggle jsobject "js_error option"
  | Refilter
  | ShowFavorites

definition toggleAndSettle ::
  "js_runtime \<Rightarrow> js_error option \<Rightarrow> jsobject \<Rightarrow> app_state \<Rightarrow> jsobject \<times> app_state" where
  "toggleAndSettle rt writeError salon s =
     (case toggleFavorite rt salon s of
        (WriteSent cellRange values originalFavoriteState, salon1, s1) \<Rightarrow>
          snd (toggleFavorite_settled rt writeError originalFavoriteState salon1 s1)
      | (outcome, salon1, s1) \<Rightarrow> (salon1, s1))"

fun step :: "js_runtime \<Rightarrow> event \<Rightarrow> app_state \<Rightarrow> app_state" where
  "step rt (Poll r) s = loadData rt r s"
| "step rt (Toggle salon writeError) s = snd (toggleAndSettle rt writeError salon s)"
| "step rt Refilter s = snd (applyFilterAndRender rt s)"
| "step rt ShowFavorites s = snd (displayFavorites rt s)"

definition run :: "js_runtime \<Rightarrow> event list \<Rightarrow> app_state \<Rightarrow> app_state" where
  "run rt events s = foldl (\<lambda>s' e. step rt e s') s events"

section \<open>What the results container shows\<close>

text \<open>
  \<open>visibleSalons\<close> is \<^verbatim>\<open>salonsToRender\<close> of \<^verbatim>\<open>applyFilterAndRender\<close> for the state's records,
  query and sort settings. \<open>renderedView\<close> is what the results container holds once these
  have been rendered inside \<^verbatim>\<open>loadData\<close>: the cards, the message for an empty list, or
  the error message of the \<^verbatim>\<open>catch\<close> block when building the list or a card threw.
\<close>

definition visibleSalons :: "js_runtime \<Rightarrow> app_state \<Rightarrow> js_error + jsobject list" where
  "visibleSalons rt s =
     (case filterSalons rt (searchInputValue s) (currentSalons s) of
        Inl e \<Rightarrow> Inl e
      | Inr filtered \<Rightarrow>
          Inr (if currentSortKey s \<noteq> js ''none''
               then sortSalons rt filtered (currentSortKey s) (currentSortDirection s)
               else filtered))"

definition renderedView :: "js_runtime \<Rightarrow> app_state \<Rightarrow> html" where
  "renderedView rt s =
     (case visibleSalons rt s of
        Inl e \<Rightarrow> ErrorBox (parseGapiError e)
      | Inr salons \<Rightarrow>
          if salons = [] then
            (if trim (searchInputValue s) \<noteq> []
             then Message (js ''No salons found matching \"''
                           @ escapeHTML rt (JString (trim (searchInputValue s))) @ js ''\".'')
             else Message (js ''No salons found.''))
          else (case createSalonCards rt salons of
                  Inl e \<Rightarrow> ErrorBox (parseGapiError e)
                | Inr cards \<Rightarrow> Cards cards))"

text \<open>A session in which the favorites view is open: its list is shown and the results are empty.\<close>

definition favoritesOpenState :: app_state where
  "favoritesOpenState =
     pollingState\<lparr>favoritesHidden := False,
                  favoritesList := Message (js ''You haven't saved any favorite salons yet.'')\<rparr>"

text \<open>The end of \<^verbatim>\<open>loadData\<close>'s \<^verbatim>\<open>try\<close> block: a thrown error goes through the \<^verbatim>\<open>catch\<close> block.\<close>

definition finishTry :: "js_error option \<times> app_state \<Rightarrow> app_state" where
  "finishTry p = (case p of (None, s1) \<Rightarrow> s1 | (Some err, s1) \<Rightarrow> loadData_catch err s1)"



section \<open>Notions for the filters\<close>

text \<open>
  A field is text when it is a string or falsy, as every field of a sheet record other
  than \<^verbatim>\<open>rowIndex\<close> is; \<open>fieldText\<close> is the string that \<^verbatim>\<open>(field || '')\<close> then gives.
\<close>

fun isText :: "jsval \<Rightarrow> bool" where
  "isText (JString t) = True"
| "isText v = (\<not> truthy v)"

fun fieldText :: "jsval \<Rightarrow> jsstring" where
  "fieldText (JString t) = t"
| "fieldText v = []"

definition salonHasText :: "jsobject \<Rightarrow> bool" where
  "salonHasText salon =
     (isText (getProp salon (js ''name'')) \<and> isText (getProp salon (js ''address''))
      \<and> isText (getProp salon (js ''description'')))"

text \<open>A business with a phone number and no description, and a search for digits of it.\<close>

definition phoneBusiness :: jsobject where
  "phoneBusiness = [(js ''name'', JString (js ''Acme'')), (js ''address'', JString (js ''1 Main St'')),
                    (js ''phone'', JString (js ''555-0100''))]"

definition phoneSearch :: filter_inputs where
  "phoneSearch = \<lparr>searchInput = js ''555'', instagramHandleInput = [], followsFilterCheckbox = False\<rparr>"

text \<open>Two records with a street column, for the comparator.\<close>

definition street123 :: jsobject where
  "street123 = [(js ''street'', JString (js ''123''))]"

definition streetMain :: jsobject where
  "streetMain = [(js ''street'', JString (js ''123 Main St''))]"

section \<open>Notions for the favorite buttons\<close>

text \<open>
  \<open>buttonsShow rt salon s\<close>: every favorite button of the document that carries the record's
  identifier shows the record's favorite state, in its text and in its class.
\<close>

fun cardsOf :: "html \<Rightarrow> card list" where
  "cardsOf (Cards cs) = cs"
| "cardsOf h = []"

definition buttonShows :: "bool \<Rightarrow> card \<Rightarrow> bool" where
  "buttonShows fav c =
     (buttonFavorited c = fav \<and> buttonText c = (if fav then js ''Unfavorite'' else js ''Favorite''))"

definition buttonsShow :: "js_runtime \<Rightarrow> jsobject \<Rightarrow> app_state \<Rightarrow> bool" where
  "buttonsShow rt salon s =
     list_all (\<lambda>c. getSalonId rt salon = Inr (cardId c) \<longrightarrow> buttonShows (isFavorited rt salon) c)
       (cardsOf (resultsContainer s) @ cardsOf (favoritesList s))"

text \<open>
  Two clicks on a record's favorite button, each write fulfilled before the next click, the
  second click on the record as the first left it: \<^verbatim>\<open>toggleFavorite\<close> assigns to the object it
  is given, and the fulfilment handler copies the new value into the record set and into the
  card's snapshot.
\<close>

definition twoToggles :: "js_runtime \<Rightarrow> jsobject \<Rightarrow> app_state \<Rightarrow> jsobject \<times> app_state" where
  "twoToggles rt salon s =
     (case toggleAndSettle rt None salon s of
        (salon1, s1) \<Rightarrow> toggleAndSettle rt None salon1 s1)"

text \<open>
  The example sheet loaded and shown, and a record of a sheet whose favorite cell is empty.
\<close>

definition loadedState :: app_state where
  "loadedState = loadData refRuntime (Values (Some acmeSheet)) pollingState"

definition blankFavorite :: jsobject where
  "blankFavorite = [(js ''rowIndex'', JNumber (Finite 2)), (js ''name'', JString (js ''Acme'')),
                    (js ''address'', JString (js ''1 Main St'')), (js ''favorite'', JString [])]"

text \<open>
  \<open>handlerCompletes rt salon s\<close>: if a click on the record's favorite button in state \<open>s\<close>
  sends a write, the fulfilment handler of that write returns without throwing.
\<close>

definition handlerCompletes :: "js_runtime \<Rightarrow> jsobject \<Rightarrow> app_state \<Rightarrow> bool" where
  "handlerCompletes rt salon s =
     (case toggleFavorite rt salon s of
        (WriteSent cellRange values originalFavoriteState, salon1, s1) \<Rightarrow>
          fst (toggleFavorite_then rt salon1 s1) = None
      | (outcome, salon1, s1) \<Rightarrow> True)"

definition flag :: "bool \<Rightarrow> jsval" where
  "flag f = JString (if f then js ''TRUE'' else js ''FALSE'')"

section \<open>Further example sessions\<close>

text \<open>
  The example sheet once its favorite cell holds \<^verbatim>\<open>TRUE\<close>, with its record and the session
  that has loaded it, and a sheet whose only record has a Chinese name.
\<close>

definition acmeFavoriteSheet :: "jsstring list list" where
  "acmeFavoriteSheet = [[js ''Name'', js ''Address'', js ''Favorite''],
                        [js ''Acme'', js ''1 Main St'', js ''TRUE'']]"

definition acmeFavorite :: jsobject where
  "acmeFavorite = [(js ''rowIndex'', JNumber (Finite 2)), (js ''name'', JString (js ''Acme'')),
                   (js ''address'', JString (js ''1 Main St'')), (js ''favorite'', JString (js ''TRUE''))]"

definition loadedFavoriteState :: app_state where
  "loadedFavoriteState = loadData refRuntime (Values (Some acmeFavoriteSheet)) pollingState"

definition zhongwenSheet :: "jsstring list list" where
  "zhongwenSheet = [[js ''Name'', js ''Address''], [[0x4E2D, 0x6587], js ''1 Main St'']]"

definition zhongwenRow :: jsobject where
  "zhongwenRow = [(js ''rowIndex'', JNumber (Finite 2)), (js ''name'', JString [0x4E2D, 0x6587]),
                  (js ''address'', JString (js ''1 Main St''))]"

text \<open>The card of a record whose name and address are those of the example.\<close>

definition acmeCard :: "jsobject \<Rightarrow> bool \<Rightarrow> card" where
  "acmeCard salon fav =
     \<lparr>cardId = js ''QWNtZTEgTWFpbiBTdA=='',
      salonInfo = stringifyObject refRuntime salon,
      buttonText = (if fav then js ''Unfavorite'' else js ''Favorite''),
      buttonFavorited = fav,
      buttonDisabled = False\<rparr>"

text \<open>The session whose first poll was answered with the example sheet while the favorites view was open.\<close>

definition favoritesOpenLoaded :: app_state where
  "favoritesOpenLoaded = loadData refRuntime (Values (Some acmeSheet)) favoritesOpenState"

text \<open>
  Modelled from the spec: the handler that opens an edit is not part of the sources; "a
  local edit session is open (a boolean editing flag is set)". Here a poll cycle of the
  loaded session has sent its request, and an edit is opened before the answer arrives.
\<close>

definition editOpenedInFlight :: app_state where
  "editOpenedInFlight = (setLoading True loadedState)\<lparr>isEditing := True\<rparr>"

text \<open>
  The example sheet with no favorite cell in its data row, as the service returns a row
  whose last cells are empty, and the session that has loaded it.
\<close>

definition blankSheet :: "jsstring list list" where
  "blankSheet = [[js ''Name'', js ''Address'', js ''Favorite''], [js ''Acme'', js ''1 Main St'']]"

definition loadedBlankState :: app_state where
  "loadedBlankState = loadData refRuntime (Values (Some blankSheet)) pollingState"

section \<open>Serialized string arrays determine the array\<close>

lemma hexLower_inj: "hexLower n = hexLower m \<Longrightarrow> n mod 16 = m mod 16"
proof -
  have d: "distinct (js ''0123456789abcdef'')" by (simp add: js_def)
  have l: "length (js ''0123456789abcdef'') = 16" by (simp add: js_def)
  assume "hexLower n = hexLower m"
  then show ?thesis
    unfolding hexLower_def using d l by (simp add: nth_eq_iff_index_eq)
qed

lemma nibble_step:
  fixes a b :: nat
  assumes "a div 16 = b div 16" "a mod 16 = b mod 16"
  shows "a = b"
  using assms by (metis div_mult_mod_eq)

lemma nibbles_eq:
  fixes u v :: nat
  assumes "u < 65536" "v < 65536"
    and "(u div 4096) mod 16 = (v div 4096) mod 16"
    and "(u div 256) mod 16 = (v div 256) mod 16"
    and "(u div 16) mod 16 = (v div 16) mod 16"
    and "u mod 16 = v mod 16"
  shows "u = v"
proof -
  have "u div 4096 < 16" "v div 4096 < 16" using assms(1,2) by simp_all
  with assms(3) have a: "u div 4096 = v div 4096" by simp
  have "u div 256 div 16 = u div 4096" "v div 256 div 16 = v div 4096"
    by (simp_all add: div_mult2_eq [symmetric])
  with a assms(4) have b: "u div 256 = v div 256" by - (rule nibble_step, simp_all)
  have "u div 16 div 16 = u div 256" "v div 16 div 16 = v div 256"
    by (simp_all add: div_mult2_eq [symmetric])
  with b assms(5) have c: "u div 16 = v div 16" by - (rule nibble_step, simp_all)
  from c assms(6) show ?thesis by (rule nibble_step)
qed
lemma unicodeEscape_inj: "unicodeEscape c = unicodeEscape d \<Longrightarrow> c = d"
proof -
  assume e: "unicodeEscape c = unicodeEscape d"
  have "unat c < 65536" "unat d < 65536"
    using unsigned_less [of c] unsigned_less [of d] by simp_all
  moreover from e have "(unat c div 4096) mod 16 = (unat d div 4096) mod 16"
    "(unat c div 256) mod 16 = (unat d div 256) mod 16"
    "(unat c div 16) mod 16 = (unat d div 16) mod 16"
    "unat c mod 16 = unat d mod 16"
    by (auto simp: unicodeEscape_def dest: hexLower_inj)
  ultimately have "unat c = unat d" by (rule nibbles_eq)
  then show ?thesis using word_unat_eq_iff by blast
qed

lemma quoteBody_head:
  "a \<noteq> [] \<Longrightarrow> \<exists>t src rest. token t src \<and> a = src @ rest \<and> quoteBody a = t @ quoteBody rest"
proof (cases a)
  case Nil
  assume "a \<noteq> []"
  with Nil show ?thesis by simp
next
  case (Cons c cs)
  show ?thesis
  proof (cases "isHighSurrogate c")
    case True
    note hi = this
    show ?thesis
    proof (cases cs)
      case Nil
      have "token (unicodeEscape c) [c]" using hi by (simp add: token.lone)
      moreover have "a = [c] @ []" using Cons Nil by simp
      moreover have "quoteBody a = unicodeEscape c @ quoteBody []" using Cons Nil hi by simp
      ultimately show ?thesis by blast
    next
      case (Cons d ds)
      note cs = this
      show ?thesis
      proof (cases "isLowSurrogate d")
        case True
        have "token [c, d] [c, d]" using hi True by (rule token.pair)
        moreover have "a = [c, d] @ ds" using \<open>a = c # cs\<close> cs by simp
        moreover have "quoteBody a = [c, d] @ quoteBody ds" using \<open>a = c # cs\<close> cs hi True by simp
        ultimately show ?thesis by blast
      next
        case False
        have "token (unicodeEscape c) [c]" using hi by (simp add: token.lone)
        moreover have "a = [c] @ cs" using \<open>a = c # cs\<close> by simp
        moreover have "quoteBody a = unicodeEscape c @ quoteBody cs"
          using \<open>a = c # cs\<close> cs hi False by simp
        ultimately show ?thesis by blast
      qed
    qed
  next
    case False
    note nh = this
    show ?thesis
    proof (cases "isLowSurrogate c")
      case True
      have "token (unicodeEscape c) [c]" using True by (simp add: token.lone)
      moreover have "a = [c] @ cs" using Cons by simp
      moreover have "quoteBody a = unicodeEscape c @ quoteBody cs" using Cons nh True by simp
      ultimately show ?thesis by blast
    next
      case False
      have "token (quoteUnit c) [c]" using nh False by (rule token.unit)
      moreover have "a = [c] @ cs" using Cons by simp
      moreover have "quoteBody a = quoteUnit c @ quoteBody cs" using Cons nh False by simp
      ultimately show ?thesis by blast
    qed
  qed
qed

lemma quoteUnit_cases:
  "(quoteUnit c = [c] \<and> c \<noteq> 0x5C \<and> c \<noteq> 0x22 \<and> \<not> c < 0x20)
   \<or> (quoteUnit c = unicodeEscape c \<and> c < 0x20)
   \<or> (\<exists>e. quoteUnit c = [0x5C, e] \<and> e \<noteq> 0x75
          \<and> (c, e) \<in> {(0x08, 0x62), (0x09, 0x74), (0x0A, 0x6E), (0x0C, 0x66), (0x0D, 0x72),
                        (0x22, 0x22), (0x5C, 0x5C)})"
  by (simp add: quoteUnit_def)

lemma unicodeEscape_shape: "\<exists>h1 h2 h3 h4. unicodeEscape c = [0x5C, 0x75, h1, h2, h3, h4]"
  by (simp add: unicodeEscape_def)

lemma surrogate_not_small:
  "isHighSurrogate c \<or> isLowSurrogate c \<Longrightarrow> \<not> c < 0x20 \<and> c \<noteq> 0x5C \<and> c \<noteq> 0x22"
  by (auto simp: isHighSurrogate_def isLowSurrogate_def word_le_nat_alt word_less_nat_alt)

lemma token_head: "token t src \<Longrightarrow> t \<noteq> [] \<and> hd t \<noteq> 0x22 \<and> src \<noteq> []"
proof (induction rule: token.induct)
  case (pair c d)
  then show ?case using surrogate_not_small [of c] by simp
next
  case (lone c)
  then show ?case using unicodeEscape_shape [of c] by auto
next
  case (unit c)
  then show ?case using quoteUnit_cases [of c] unicodeEscape_shape [of c] by auto
qed


lemma token_unique:
  assumes "token t s" "token t' s'" "t @ x = t' @ x'"
  shows "t = t' \<and> s = s'"
  using assms(1)
proof (cases rule: token.cases)
  case (pair c d)
  note p = this
  from assms(2) show ?thesis
  proof (cases rule: token.cases)
    case (pair c' d')
    with p assms(3) show ?thesis by simp
  next
    case (lone c')
    with p assms(3) unicodeEscape_shape [of c'] surrogate_not_small [of c] show ?thesis by auto
  next
    case (unit c')
    with p assms(3) quoteUnit_cases [of c'] unicodeEscape_shape [of c'] surrogate_not_small [of c]
    show ?thesis by auto
  qed
next
  case (lone c)
  note l = this
  from assms(2) show ?thesis
  proof (cases rule: token.cases)
    case (pair c' d')
    with l assms(3) unicodeEscape_shape [of c] surrogate_not_small [of c'] show ?thesis by auto
  next
    case (lone c')
    from unicodeEscape_shape [of c] unicodeEscape_shape [of c'] l lone assms(3)
    have "unicodeEscape c = unicodeEscape c'" by auto
    then have "c = c'" by (rule unicodeEscape_inj)
    with l lone show ?thesis by simp
  next
    case (unit c')
    from quoteUnit_cases [of c'] show ?thesis
    proof (elim disjE)
      assume "quoteUnit c' = [c'] \<and> c' \<noteq> 0x5C \<and> c' \<noteq> 0x22 \<and> \<not> c' < 0x20"
      with l unit assms(3) unicodeEscape_shape [of c] show ?thesis by auto
    next
      assume a: "quoteUnit c' = unicodeEscape c' \<and> c' < 0x20"
      from unicodeEscape_shape [of c] unicodeEscape_shape [of c'] l unit assms(3) a
      have "unicodeEscape c = unicodeEscape c'" by auto
      then have "c = c'" by (rule unicodeEscape_inj)
      with a l surrogate_not_small [of c] show ?thesis by simp
    next
      assume "\<exists>e. quoteUnit c' = [0x5C, e] \<and> e \<noteq> 0x75
          \<and> (c', e) \<in> {(0x08, 0x62), (0x09, 0x74), (0x0A, 0x6E), (0x0C, 0x66), (0x0D, 0x72),
                        (0x22, 0x22), (0x5C, 0x5C)}"
      with l unit assms(3) unicodeEscape_shape [of c] show ?thesis by auto
    qed
  qed
next
  case (unit c)
  note u = this
  from assms(2) show ?thesis
  proof (cases rule: token.cases)
    case (pair c' d')
    with u assms(3) quoteUnit_cases [of c] unicodeEscape_shape [of c] surrogate_not_small [of c']
    show ?thesis by auto
  next
    case (lone c')
    from quoteUnit_cases [of c] show ?thesis
    proof (elim disjE)
      assume "quoteUnit c = [c] \<and> c \<noteq> 0x5C \<and> c \<noteq> 0x22 \<and> \<not> c < 0x20"
      with u lone assms(3) unicodeEscape_shape [of c'] show ?thesis by auto
    next
      assume a: "quoteUnit c = unicodeEscape c \<and> c < 0x20"
      from unicodeEscape_shape [of c] unicodeEscape_shape [of c'] u lone assms(3) a
      have "unicodeEscape c = unicodeEscape c'" by auto
      then have "c = c'" by (rule unicodeEscape_inj)
      with a lone surrogate_not_small [of c'] show ?thesis by simp
    next
      assume "\<exists>e. quoteUnit c = [0x5C, e] \<and> e \<noteq> 0x75
          \<and> (c, e) \<in> {(0x08, 0x62), (0x09, 0x74), (0x0A, 0x6E), (0x0C, 0x66), (0x0D, 0x72),
                        (0x22, 0x22), (0x5C, 0x5C)}"
      with u lone assms(3) unicodeEscape_shape [of c'] show ?thesis by auto
    qed
  next
    case (unit c')
    have "c = c'"
    proof -
      from quoteUnit_cases [of c] show ?thesis
      proof (elim disjE)
        assume a: "quoteUnit c = [c] \<and> c \<noteq> 0x5C \<and> c \<noteq> 0x22 \<and> \<not> c < 0x20"
        from quoteUnit_cases [of c'] u unit assms(3) a unicodeEscape_shape [of c']
        show ?thesis by auto
      next
        assume a: "quoteUnit c = unicodeEscape c \<and> c < 0x20"
        from quoteUnit_cases [of c'] show ?thesis
        proof (elim disjE)
          assume "quoteUnit c' = [c'] \<and> c' \<noteq> 0x5C \<and> c' \<noteq> 0x22 \<and> \<not> c' < 0x20"
          with u unit assms(3) a unicodeEscape_shape [of c] show ?thesis by auto
        next
          assume b: "quoteUnit c' = unicodeEscape c' \<and> c' < 0x20"
          from unicodeEscape_shape [of c] unicodeEscape_shape [of c'] u unit assms(3) a b
          have "unicodeEscape c = unicodeEscape c'" by auto
          then show ?thesis by (rule unicodeEscape_inj)
        next
          assume "\<exists>e. quoteUnit c' = [0x5C, e] \<and> e \<noteq> 0x75
            \<and> (c', e) \<in> {(0x08, 0x62), (0x09, 0x74), (0x0A, 0x6E), (0x0C, 0x66), (0x0D, 0x72),
                          (0x22, 0x22), (0x5C, 0x5C)}"
          with u unit assms(3) a unicodeEscape_shape [of c] show ?thesis by auto
        qed
      next
        assume a: "\<exists>e. quoteUnit c = [0x5C, e] \<and> e \<noteq> 0x75
            \<and> (c, e) \<in> {(0x08, 0x62), (0x09, 0x74), (0x0A, 0x6E), (0x0C, 0x66), (0x0D, 0x72),
                          (0x22, 0x22), (0x5C, 0x5C)}"
        from quoteUnit_cases [of c'] show ?thesis
        proof (elim disjE)
          assume "quoteUnit c' = [c'] \<and> c' \<noteq> 0x5C \<and> c' \<noteq> 0x22 \<and> \<not> c' < 0x20"
          with u unit assms(3) a show ?thesis by auto
        next
          assume b: "quoteUnit c' = unicodeEscape c' \<and> c' < 0x20"
          with u unit assms(3) a unicodeEscape_shape [of c'] show ?thesis by auto
        next
          assume "\<exists>e. quoteUnit c' = [0x5C, e] \<and> e \<noteq> 0x75
            \<and> (c', e) \<in> {(0x08, 0x62), (0x09, 0x74), (0x0A, 0x6E), (0x0C, 0x66), (0x0D, 0x72),
                          (0x22, 0x22), (0x5C, 0x5C)}"
          with u unit assms(3) a show ?thesis by auto
        qed
      qed
    qed
    with u unit show ?thesis by simp
  qed
qed


lemma quoteBody_delimited:
  "quoteBody a @ 0x22 # r = quoteBody b @ 0x22 # r' \<Longrightarrow> a = b \<and> r = r'"
proof (induction a arbitrary: b rule: length_induct)
  case (1 a)
  note eq = "1.prems"
  have headq: "\<And>y z. y \<noteq> [] \<Longrightarrow> hd (quoteBody y @ z) \<noteq> 0x22"
  proof -
    fix y :: jsstring and z
    assume "y \<noteq> []"
    then obtain t src rest where "token t src" "quoteBody y = t @ quoteBody rest"
      using quoteBody_head by blast
    then show "hd (quoteBody y @ z) \<noteq> 0x22" using token_head [of t src] by simp
  qed
  show ?case
  proof (cases "a = []")
    case True
    show ?thesis
    proof (cases "b = []")
      case True
      with \<open>a = []\<close> eq show ?thesis by simp
    next
      case False
      from headq [OF False, of "0x22 # r'"] eq \<open>a = []\<close> show ?thesis
        by (metis append_Nil list.sel(1) quoteBody.simps(1))
    qed
  next
    case False
    note na = this
    show ?thesis
    proof (cases "b = []")
      case True
      from headq [OF na, of "0x22 # r"] eq True show ?thesis
        by (metis append_Nil list.sel(1) quoteBody.simps(1))
    next
      case False
      from quoteBody_head [OF na] obtain t src rest where
        a: "token t src" "a = src @ rest" "quoteBody a = t @ quoteBody rest" by blast
      from quoteBody_head [OF False] obtain t' src' rest' where
        b: "token t' src'" "b = src' @ rest'" "quoteBody b = t' @ quoteBody rest'" by blast
      from eq a(3) b(3) have e: "t @ (quoteBody rest @ 0x22 # r) = t' @ (quoteBody rest' @ 0x22 # r')"
        by simp
      from token_unique [OF a(1) b(1) e] have ts: "t = t'" "src = src'" by simp_all
      with e have e': "quoteBody rest @ 0x22 # r = quoteBody rest' @ 0x22 # r'" by simp
      have "length rest < length a" using a(2) token_head [OF a(1)] by simp
      with "1.IH" e' have "rest = rest' \<and> r = r'" by blast
      with a(2) b(2) ts show ?thesis by simp
    qed
  qed
qed

lemma quoteJSON_delimited:
  "quoteJSON a @ r = quoteJSON b @ r' \<Longrightarrow> a = b \<and> r = r'"
  using quoteBody_delimited [of a r b r'] by (simp add: quoteJSON_def)

lemma intercalate_Cons: "intercalate sep (x # xs) = x @ concat (map (\<lambda>y. sep @ y) xs)"
  by (induction xs arbitrary: x) simp_all

lemma tail_inj:
  "concat (map (\<lambda>y. js '','' @ y) (map quoteJSON xs)) = concat (map (\<lambda>y. js '','' @ y) (map quoteJSON ys))
   \<Longrightarrow> xs = ys"
proof (induction xs arbitrary: ys)
  case Nil
  then show ?case by (cases ys) (simp_all add: js_def)
next
  case (Cons x xs)
  show ?case
  proof (cases ys)
    case Nil
    with Cons.prems show ?thesis by (simp add: js_def)
  next
    case (Cons y ys')
    with Cons.prems have
      "quoteJSON x @ concat (map (\<lambda>y. js '','' @ y) (map quoteJSON xs))
       = quoteJSON y @ concat (map (\<lambda>y. js '','' @ y) (map quoteJSON ys'))"
      by (simp add: js_def)
    then have "x = y" "concat (map (\<lambda>y. js '','' @ y) (map quoteJSON xs))
       = concat (map (\<lambda>y. js '','' @ y) (map quoteJSON ys'))"
      using quoteJSON_delimited by blast+
    with Cons.IH Cons show ?thesis by simp
  qed
qed

lemma quoteJSON_nonempty: "quoteJSON x \<noteq> []"
  by (simp add: quoteJSON_def)

lemma strings_inj:
  "intercalate (js '','') (map quoteJSON xs) = intercalate (js '','') (map quoteJSON ys) \<Longrightarrow> xs = ys"
proof (cases xs)
  case Nil
  assume "intercalate (js '','') (map quoteJSON xs) = intercalate (js '','') (map quoteJSON ys)"
  with Nil show ?thesis by (cases ys) (simp_all add: intercalate_Cons quoteJSON_nonempty)
next
  case (Cons x xs')
  assume eq: "intercalate (js '','') (map quoteJSON xs) = intercalate (js '','') (map quoteJSON ys)"
  show ?thesis
  proof (cases ys)
    case Nil
    with eq Cons show ?thesis by (simp add: intercalate_Cons quoteJSON_nonempty)
  next
    case (Cons y ys')
    with eq \<open>xs = x # xs'\<close> have
      "quoteJSON x @ concat (map (\<lambda>y. js '','' @ y) (map quoteJSON xs'))
       = quoteJSON y @ concat (map (\<lambda>y. js '','' @ y) (map quoteJSON ys'))"
      by (simp add: intercalate_Cons)
    then have "x = y"
      "concat (map (\<lambda>y. js '','' @ y) (map quoteJSON xs'))
       = concat (map (\<lambda>y. js '','' @ y) (map quoteJSON ys'))"
      using quoteJSON_delimited by blast+
    with tail_inj Cons \<open>xs = x # xs'\<close> show ?thesis by blast
  qed
qed

lemma stringifyArray_strings:
  "stringifyArray rt (map JString xs) = js ''['' @ intercalate (js '','') (map quoteJSON xs) @ js '']''"
  by (simp add: stringifyArray_def comp_def)

lemma stringifyArray_inj:
  "stringifyArray rt (map JString xs) = stringifyArray rt (map JString ys) \<Longrightarrow> xs = ys"
proof -
  assume "stringifyArray rt (map JString xs) = stringifyArray rt (map JString ys)"
  then have "intercalate (js '','') (map quoteJSON xs) = intercalate (js '','') (map quoteJSON ys)"
    by (simp add: stringifyArray_strings)
  then show ?thesis by (rule strings_inj)
qed


section \<open>Record identifiers (C10)\<close>

lemma unreserved_not_surrogate:
  "uriUnreserved c \<Longrightarrow> \<not> isHighSurrogate c \<and> \<not> isLowSurrogate c"
  by (auto simp: uriUnreserved_def isHighSurrogate_def isLowSurrogate_def js_def word_le_nat_alt)

lemma unreserved_latin1: "uriUnreserved c \<Longrightarrow> c \<le> 0xFF"
  by (auto simp: uriUnreserved_def js_def word_le_nat_alt)

lemma hexUpper_latin1: "hexUpper n \<le> 0xFF"
proof -
  have "hexUpper n \<in> set (js ''0123456789ABCDEF'')"
    unfolding hexUpper_def by (rule nth_mem) (simp add: js_def)
  then show ?thesis by (auto simp: js_def)
qed

lemma percent_latin1: "list_all (\<lambda>c. c \<le> 0xFF) (concat (map percent bs))"
  by (induction bs) (simp_all add: percent_def hexUpper_latin1)

lemma thenPrepend_Inr: "thenPrepend p r = Inr t \<longleftrightarrow> (\<exists>u. r = Inr u \<and> t = p @ u)"
  by (cases r) (auto simp: thenPrepend_def)

lemma thenPrepend_Inl: "thenPrepend p r = Inl e \<longleftrightarrow> r = Inl e"
  by (cases r) (auto simp: thenPrepend_def)

lemma encodeURIComponent_latin1:
  "encodeURIComponent s = Inr t \<Longrightarrow> isLatin1 t"
proof (induction s arbitrary: t rule: encodeURIComponent.induct)
  case 1
  then show ?case by (simp add: isLatin1_def)
next
  case (2 c cs)
  show ?case
  proof (cases "uriUnreserved c")
    case True
    with 2 show ?thesis by (auto simp: thenPrepend_Inr unreserved_latin1 isLatin1_def)
  next
    case False
    note nu = this
    show ?thesis
    proof (cases "isLowSurrogate c")
      case True
      with nu 2 show ?thesis by simp
    next
      case False
      note nl = this
      show ?thesis
      proof (cases "isHighSurrogate c")
        case False
        with nu nl 2 show ?thesis by (auto simp: thenPrepend_Inr percent_latin1 isLatin1_def)
      next
        case True
        with nu nl 2 show ?thesis
          by (cases cs) (auto simp: thenPrepend_Inr percent_latin1 isLatin1_def split: if_splits)
      qed
    qed
  qed
qed

lemma encodeURIComponent_iff:
  "(\<exists>t. encodeURIComponent s = Inr t) = isWellFormed s"
proof (induction s rule: encodeURIComponent.induct)
  case 1
  then show ?case by simp
next
  case (2 c cs)
  show ?case
  proof (cases "uriUnreserved c")
    case True
    with 2 unreserved_not_surrogate[OF True] show ?thesis by (simp add: thenPrepend_Inr)
  next
    case False
    note nu = this
    show ?thesis
    proof (cases "isLowSurrogate c")
      case True
      then have "\<not> isHighSurrogate c"
        by (auto simp: isHighSurrogate_def isLowSurrogate_def word_le_nat_alt)
      with True nu 2 show ?thesis by simp
    next
      case False
      note nl = this
      show ?thesis
      proof (cases "isHighSurrogate c")
        case False
        with nu nl 2 show ?thesis by (simp add: thenPrepend_Inr)
      next
        case True
        with nu nl 2 show ?thesis
          by (cases cs) (simp_all add: thenPrepend_Inr)
      qed
    qed
  qed
qed

lemma encodeURIComponent_error: "encodeURIComponent s = Inl e \<Longrightarrow> e = URIError"
proof (induction s rule: encodeURIComponent.induct)
  case 1
  then show ?case by simp
next
  case (2 c cs)
  then show ?case
    by (cases cs) (simp_all add: thenPrepend_Inl split: if_splits)
qed

lemma b64_alphabet: "b64 n \<in> set b64chars"
  unfolding b64_def by (rule nth_mem) (simp add: b64chars_def js_def)

lemma base64_isBase64: "isBase64 (base64 bs)"
  by (induction bs rule: base64.induct) (auto simp: b64_alphabet isBase64_def)

lemma btoa_Inr: "(\<exists>i. btoa s = Inr i) = isLatin1 s"
  by (simp add: btoa_def isLatin1_def)

lemma btoa_result: "btoa s = Inr i \<Longrightarrow> isBase64 i"
  by (auto simp: btoa_def base64_isBase64 split: if_splits)

lemma btoa_Inl: "(btoa s = Inl e) = (\<not> isLatin1 s \<and> e = InvalidCharacterError)"
  by (auto simp: btoa_def isLatin1_def)

text \<open>
  C10, as the code has it. The sheet variant's \<^verbatim>\<open>getSalonId\<close> returns a base64 identifier
  exactly when the concatenated name and address have no code unit above U+00FF, and throws
  \<^verbatim>\<open>InvalidCharacterError\<close> otherwise, as it does for a record with a CJK name. The AI
  variant's \<^verbatim>\<open>getBusinessId\<close> returns a base64 identifier exactly when the concatenation is
  well formed (every surrogate paired), on CJK text too; on an unpaired surrogate
  \<^verbatim>\<open>encodeURIComponent\<close> throws \<^verbatim>\<open>URIError\<close>, so it is not total on all strings.
\<close>

theorem identifiers_partial:
  "((\<exists>i. getSalonId rt salon = Inr i \<and> isBase64 i) = isLatin1 (nameAddress rt salon))
   \<and> (getSalonId rt salon = Inl InvalidCharacterError) = (\<not> isLatin1 (nameAddress rt salon))
   \<and> getSalonId rt zhongwen = Inl InvalidCharacterError
   \<and> ((\<exists>i. getBusinessId rt business = Inr i \<and> isBase64 i) = isWellFormed (nameAddress rt business))
   \<and> (getBusinessId rt business = Inl URIError) = (\<not> isWellFormed (nameAddress rt business))"
proof -
  have a: "(\<exists>i. getSalonId rt salon = Inr i \<and> isBase64 i) = isLatin1 (nameAddress rt salon)"
    unfolding getSalonId_def nameAddress_def using btoa_Inr btoa_result by blast
  have b: "(getSalonId rt salon = Inl InvalidCharacterError) = (\<not> isLatin1 (nameAddress rt salon))"
    unfolding getSalonId_def nameAddress_def by (simp add: btoa_Inl)
  have c: "getSalonId rt zhongwen = Inl InvalidCharacterError"
    by (simp add: getSalonId_def zhongwen_def getProp_def js_add_def btoa_def js_def)
  have d: "(\<exists>i. getBusinessId rt business = Inr i \<and> isBase64 i) = isWellFormed (nameAddress rt business)"
  proof (cases "encodeURIComponent (nameAddress rt business)")
    case (Inl e)
    then have "\<not> isWellFormed (nameAddress rt business)"
      using encodeURIComponent_iff[of "nameAddress rt business"] by simp
    with Inl show ?thesis by (simp add: getBusinessId_def nameAddress_def)
  next
    case (Inr t)
    then have wf: "isWellFormed (nameAddress rt business)"
      using encodeURIComponent_iff[of "nameAddress rt business"] by auto
    from Inr have "isLatin1 t" by (rule encodeURIComponent_latin1)
    then obtain i where "btoa t = Inr i" using btoa_Inr by blast
    with Inr wf show ?thesis
      by (auto simp: getBusinessId_def nameAddress_def dest: btoa_result)
  qed
  have e: "(getBusinessId rt business = Inl URIError) = (\<not> isWellFormed (nameAddress rt business))"
  proof (cases "encodeURIComponent (nameAddress rt business)")
    case (Inl e)
    then have "\<not> isWellFormed (nameAddress rt business)" "e = URIError"
      using encodeURIComponent_iff[of "nameAddress rt business"] encodeURIComponent_error by auto
    with Inl show ?thesis by (simp add: getBusinessId_def nameAddress_def)
  next
    case (Inr t)
    then have wf: "isWellFormed (nameAddress rt business)"
      using encodeURIComponent_iff[of "nameAddress rt business"] by auto
    from Inr have "isLatin1 t" by (rule encodeURIComponent_latin1)
    then obtain i where "btoa t = Inr i" using btoa_Inr by blast
    with Inr wf show ?thesis
      by (auto simp: getBusinessId_def nameAddress_def)
  qed
  from a b c d e show ?thesis by blast
qed


theorem identifiers_partial_witness:
  "isLatin1 (nameAddress refRuntime acme)
   \<and> (\<exists>i. getSalonId refRuntime acme = Inr i \<and> isBase64 i)
   \<and> \<not> isLatin1 (nameAddress refRuntime zhongwen)
   \<and> isWellFormed (nameAddress refRuntime zhongwen)
   \<and> (\<exists>i. getBusinessId refRuntime zhongwen = Inr i \<and> isBase64 i)"
proof -
  have l: "isLatin1 (nameAddress refRuntime acme)"
    by (simp add: isLatin1_def nameAddress_def acme_def getProp_def js_add_def js_def)
  have w: "isWellFormed (nameAddress refRuntime zhongwen)"
    by (simp add: nameAddress_def zhongwen_def getProp_def js_add_def js_def
                  isHighSurrogate_def isLowSurrogate_def)
  have n: "\<not> isLatin1 (nameAddress refRuntime zhongwen)"
    by (simp add: isLatin1_def nameAddress_def zhongwen_def getProp_def js_add_def js_def)
  from l w n identifiers_partial [of refRuntime acme zhongwen] show ?thesis by simp
qed

text \<open>
  C10 as stated fails: the AI variant's identifier function throws on a name that holds an
  unpaired surrogate.
\<close>

theorem getBusinessId_lone_surrogate:
  "getBusinessId refRuntime loneSurrogate = Inl URIError"
  by (simp add: getBusinessId_def loneSurrogate_def getProp_def js_add_def js_def uriUnreserved_def
                isLowSurrogate_def isHighSurrogate_def thenPrepend_def)

section \<open>CSV export (C9)\<close>








section \<open>What each function leaves unchanged\<close>

lemma updateMap_frame:
  "snd (updateMap rt xs s) =
     s\<lparr>mapHidden := mapHidden (snd (updateMap rt xs s)),
       mapMarkers := mapMarkers (snd (updateMap rt xs s))\<rparr>"
  by (simp add: updateMap_def Let_def split: prod.splits)

lemma displayResults_frame:
  "snd (displayResults rt xs s) =
     s\<lparr>resultsContainer := resultsContainer (snd (displayResults rt xs s)),
       mapHidden := mapHidden (snd (displayResults rt xs s)),
       mapMarkers := mapMarkers (snd (displayResults rt xs s))\<rparr>"
  by (simp add: displayResults_def updateMap_def Let_def split: prod.splits sum.splits)

lemma applyFilterAndRender_frame:
  "snd (applyFilterAndRender rt s) =
     s\<lparr>resultsContainer := resultsContainer (snd (applyFilterAndRender rt s)),
       mapHidden := mapHidden (snd (applyFilterAndRender rt s)),
       mapMarkers := mapMarkers (snd (applyFilterAndRender rt s))\<rparr>"
proof (cases "favoritesHidden s")
  case False
  then show ?thesis by (simp add: applyFilterAndRender_def)
next
  case True
  show ?thesis
  proof (cases "filterSalons rt (searchInputValue s) (currentSalons s)")
    case (Inl e)
    with True show ?thesis by (simp add: applyFilterAndRender_def)
  next
    case (Inr filtered)
    with True displayResults_frame show ?thesis
      by (simp add: applyFilterAndRender_def Let_def)
  qed
qed

lemma displayFavorites_frame:
  "snd (displayFavorites rt s) =
     s\<lparr>resultsContainer := NoContent,
       favoritesList := favoritesList (snd (displayFavorites rt s)),
       mapHidden := True\<rparr>"
  by (simp add: displayFavorites_def Let_def split: sum.splits)

lemma updateFavoriteButtons_frame:
  "updateFavoriteButtons rt salon s = Inr s' \<Longrightarrow>
     s' = s\<lparr>resultsContainer := resultsContainer s', favoritesList := favoritesList s'\<rparr>"
  by (auto simp: updateFavoriteButtons_def Let_def split: sum.splits)

lemma setCardInfo_frame:
  "setCardInfo i info s =
     s\<lparr>resultsContainer := resultsContainer (setCardInfo i info s),
       favoritesList := favoritesList (setCardInfo i info s)\<rparr>"
  by (simp add: setCardInfo_def)


lemma applyFilterAndRender_keeps:
  "currentSalons (snd (applyFilterAndRender rt s)) = currentSalons s"
  "headers (snd (applyFilterAndRender rt s)) = headers s"
  "lastDataState (snd (applyFilterAndRender rt s)) = lastDataState s"
  "dataPollingInterval (snd (applyFilterAndRender rt s)) = dataPollingInterval s"
  "clearedIntervals (snd (applyFilterAndRender rt s)) = clearedIntervals s"
  "favoritesList (snd (applyFilterAndRender rt s)) = favoritesList s"
  "favoritesHidden (snd (applyFilterAndRender rt s)) = favoritesHidden s"
  "alerts (snd (applyFilterAndRender rt s)) = alerts s"
  "sheetWrites (snd (applyFilterAndRender rt s)) = sheetWrites s"
  "sortOptions (snd (applyFilterAndRender rt s)) = sortOptions s"
  by (subst applyFilterAndRender_frame, simp)+

lemma displayFavorites_keeps:
  "currentSalons (snd (displayFavorites rt s)) = currentSalons s"
  "headers (snd (displayFavorites rt s)) = headers s"
  "dataPollingInterval (snd (displayFavorites rt s)) = dataPollingInterval s"
  "clearedIntervals (snd (displayFavorites rt s)) = clearedIntervals s"
  "favoritesHidden (snd (displayFavorites rt s)) = favoritesHidden s"
  "alerts (snd (displayFavorites rt s)) = alerts s"
  "sheetWrites (snd (displayFavorites rt s)) = sheetWrites s"
  by (subst displayFavorites_frame, simp)+

lemma updateFavoriteButtons_keeps:
  assumes "updateFavoriteButtons rt salon s = Inr s'"
  shows "currentSalons s' = currentSalons s" "headers s' = headers s"
    "dataPollingInterval s' = dataPollingInterval s" "clearedIntervals s' = clearedIntervals s"
    "favoritesHidden s' = favoritesHidden s" "alerts s' = alerts s" "sheetWrites s' = sheetWrites s"
    "resultsFirst s' = resultsFirst s"
  by (subst updateFavoriteButtons_frame [OF assms], simp)+

lemma setCardInfo_keeps:
  "currentSalons (setCardInfo i info s) = currentSalons s"
  "headers (setCardInfo i info s) = headers s"
  "dataPollingInterval (setCardInfo i info s) = dataPollingInterval s"
  "clearedIntervals (setCardInfo i info s) = clearedIntervals s"
  "favoritesHidden (setCardInfo i info s) = favoritesHidden s"
  "alerts (setCardInfo i info s) = alerts s"
  "sheetWrites (setCardInfo i info s) = sheetWrites s"
  by (simp_all add: setCardInfo_def)

lemma loadData_catch_polling:
  "dataPollingInterval (loadData_catch err s) =
     (if (errorStatus err = js ''NOT_FOUND'' \<or> errorStatus err = js ''PERMISSION_DENIED'')
         \<and> pollingActive s
      then None else dataPollingInterval s)"
  "clearedIntervals (loadData_catch err s) =
     (if (errorStatus err = js ''NOT_FOUND'' \<or> errorStatus err = js ''PERMISSION_DENIED'')
         \<and> pollingActive s
      then clearedIntervals s @ [the_default 0 (dataPollingInterval s)] else clearedIntervals s)"
  "resultsContainer (loadData_catch err s) = ErrorBox (parseGapiError err)"
  by (simp_all add: loadData_catch_def Let_def displayError_def pollingActive_def)

lemma loadData_try_polling:
  "dataPollingInterval (snd (loadData_try rt values s)) = dataPollingInterval s"
  "clearedIntervals (snd (loadData_try rt values s)) = clearedIntervals s"
  by (simp_all add: loadData_try_def Let_def setLoading_def displayError_def updateSortOptions_def
                    applyFilterAndRender_keeps split: option.splits)

lemma loadData_polling:
  "dataPollingInterval (loadData rt r s) = dataPollingInterval s
   \<or> dataPollingInterval (loadData rt r s) = None"
proof (cases "loadData_begin s")
  case None
  then show ?thesis by (simp add: loadData_def)
next
  case (Some s1)
  then have s1: "s1 = setLoading True s" by (auto simp: loadData_begin_def split: if_splits)
  show ?thesis
  proof (cases r)
    case (Rejected err)
    with Some s1 show ?thesis
      by (simp add: loadData_def loadData_resume_def setLoading_def loadData_catch_polling pollingActive_def)
  next
    case (Values vals)
    obtain thrown s2 where t: "loadData_try rt vals s1 = (thrown, s2)" by (cases "loadData_try rt vals s1")
    then have "dataPollingInterval s2 = dataPollingInterval s1"
      using loadData_try_polling(1) [of rt vals s1] by simp
    with Some s1 Values t show ?thesis
      by (cases thrown)
         (simp_all add: loadData_def loadData_resume_def setLoading_def loadData_catch_polling pollingActive_def)
  qed
qed


lemma toggleFavorite_polling:
  "dataPollingInterval (snd (snd (toggleFavorite rt salon s))) = dataPollingInterval s"
  by (simp add: toggleFavorite_def Let_def alert_def updateSheetData_def updateFavoriteButtons_def
           split: sum.splits option.splits)

lemma toggleFavorite_then_polling:
  "dataPollingInterval (snd (toggleFavorite_then rt salon s)) = dataPollingInterval s"
  by (auto simp: toggleFavorite_then_def Let_def setCardInfo_keeps displayFavorites_keeps
           split: sum.splits option.splits prod.splits if_splits)

lemma toggleFavorite_catch_polling:
  "dataPollingInterval (snd (snd (toggleFavorite_catch rt err orig salon s))) = dataPollingInterval s"
  by (simp add: toggleFavorite_catch_def Let_def alert_def updateFavoriteButtons_def
           split: sum.splits)

lemma toggleFavorite_settled_polling:
  "dataPollingInterval (snd (snd (toggleFavorite_settled rt w orig salon s))) = dataPollingInterval s"
proof (cases w)
  case (Some err)
  then show ?thesis by (simp add: toggleFavorite_settled_def toggleFavorite_catch_polling)
next
  case None
  obtain thrown s1 where t: "toggleFavorite_then rt salon s = (thrown, s1)"
    by (cases "toggleFavorite_then rt salon s")
  then have "dataPollingInterval s1 = dataPollingInterval s"
    using toggleFavorite_then_polling [of rt salon s] by simp
  with None t show ?thesis
    by (cases thrown) (simp_all add: toggleFavorite_settled_def toggleFavorite_catch_polling)
qed

lemma toggleAndSettle_polling:
  "dataPollingInterval (snd (toggleAndSettle rt w salon s)) = dataPollingInterval s"
proof -
  obtain outcome salon1 s1 where t: "toggleFavorite rt salon s = (outcome, salon1, s1)"
    by (cases "toggleFavorite rt salon s") auto
  then have "dataPollingInterval s1 = dataPollingInterval s"
    using toggleFavorite_polling [of rt salon s] by simp
  with t show ?thesis
    by (cases outcome) (simp_all add: toggleAndSettle_def toggleFavorite_settled_polling)
qed

lemma step_polling:
  "\<not> pollingActive s \<Longrightarrow> \<not> pollingActive (step rt e s)"
proof (cases e)
  case (Poll r)
  assume "\<not> pollingActive s"
  with Poll loadData_polling [of rt r s] show ?thesis by (auto simp: pollingActive_def)
next
  case (Toggle salon w)
  assume "\<not> pollingActive s"
  with Toggle show ?thesis by (simp add: pollingActive_def toggleAndSettle_polling)
next
  case Refilter
  assume "\<not> pollingActive s"
  with Refilter show ?thesis by (simp add: pollingActive_def applyFilterAndRender_keeps)
next
  case ShowFavorites
  assume "\<not> pollingActive s"
  with ShowFavorites show ?thesis by (simp add: pollingActive_def displayFavorites_keeps)
qed

lemma run_polling:
  "\<not> pollingActive s \<Longrightarrow> \<not> pollingActive (run rt events s)"
  unfolding run_def by (induction events arbitrary: s) (simp_all add: step_polling)



section \<open>Fetch failures and the polling timer (C6)\<close>

text \<open>
  C6. When the request of a poll cycle is rejected, the error's message is shown in the
  results container. With status \<^verbatim>\<open>NOT_FOUND\<close> or \<^verbatim>\<open>PERMISSION_DENIED\<close> the cycle clears the
  interval timer it finds running and forgets its handle, and no later poll cycle, favorite
  toggle, filtering or favorites display sets a timer again (the code that reloads a source
  is not part of the sources). With any other error (rate limit, unknown status, or no
  status at all) the timer handle is untouched and nothing is cleared.
\<close>

theorem fatal_errors_stop_polling:
  assumes "loadData_begin s \<noteq> None"
  shows "resultsContainer (loadData rt (Rejected err) s) = ErrorBox (parseGapiError err)
     \<and> (if errorStatus err = js ''NOT_FOUND'' \<or> errorStatus err = js ''PERMISSION_DENIED''
        then \<not> pollingActive (loadData rt (Rejected err) s)
             \<and> (pollingActive s \<longrightarrow>
                   dataPollingInterval (loadData rt (Rejected err) s) = None
                   \<and> clearedIntervals (loadData rt (Rejected err) s)
                       = clearedIntervals s @ [the_default 0 (dataPollingInterval s)])
             \<and> (\<forall>events. \<not> pollingActive (run rt events (loadData rt (Rejected err) s)))
        else dataPollingInterval (loadData rt (Rejected err) s) = dataPollingInterval s
             \<and> clearedIntervals (loadData rt (Rejected err) s) = clearedIntervals s)"
proof -
  from assms have b: "loadData_begin s = Some (setLoading True s)"
    by (auto simp: loadData_begin_def split: if_splits)
  then have l: "loadData rt (Rejected err) s = setLoading False (loadData_catch err (setLoading True s))"
    by (simp add: loadData_def loadData_resume_def)
  have r: "resultsContainer (loadData rt (Rejected err) s) = ErrorBox (parseGapiError err)"
    by (simp add: l setLoading_def loadData_catch_polling)
  have p: "dataPollingInterval (loadData rt (Rejected err) s) =
     (if (errorStatus err = js ''NOT_FOUND'' \<or> errorStatus err = js ''PERMISSION_DENIED'')
         \<and> pollingActive s
      then None else dataPollingInterval s)"
    by (simp add: l setLoading_def loadData_catch_polling pollingActive_def)
  have c: "clearedIntervals (loadData rt (Rejected err) s) =
     (if (errorStatus err = js ''NOT_FOUND'' \<or> errorStatus err = js ''PERMISSION_DENIED'')
         \<and> pollingActive s
      then clearedIntervals s @ [the_default 0 (dataPollingInterval s)] else clearedIntervals s)"
    by (simp add: l setLoading_def loadData_catch_polling pollingActive_def)
  show ?thesis
  proof (cases "errorStatus err = js ''NOT_FOUND'' \<or> errorStatus err = js ''PERMISSION_DENIED''")
    case True
    with p have np: "\<not> pollingActive (loadData rt (Rejected err) s)"
      by (auto simp: pollingActive_def split: if_splits)
    then have "\<forall>events. \<not> pollingActive (run rt events (loadData rt (Rejected err) s))"
      by (simp add: run_polling)
    with True r p c np show ?thesis by simp
  next
    case False
    with r p c show ?thesis by simp
  qed
qed

theorem fatal_errors_stop_polling_witness:
  "loadData_begin pollingState \<noteq> None
   \<and> pollingActive pollingState
   \<and> dataPollingInterval (loadData refRuntime (Rejected (GapiError (js ''NOT_FOUND'') [])) pollingState) = None
   \<and> clearedIntervals (loadData refRuntime (Rejected (GapiError (js ''NOT_FOUND'') [])) pollingState) = [7]
   \<and> \<not> pollingActive (run refRuntime [Poll (Values (Some acmeSheet)), Refilter]
         (loadData refRuntime (Rejected (GapiError (js ''NOT_FOUND'') [])) pollingState))
   \<and> dataPollingInterval
        (loadData refRuntime (Rejected (GapiError (js ''RESOURCE_EXHAUSTED'') [])) pollingState) = Some 7
   \<and> resultsContainer
        (loadData refRuntime (Rejected (GapiError (js ''RESOURCE_EXHAUSTED'') [])) pollingState)
       = ErrorBox (js ''The app has made too many requests to Google Sheets. Please wait a moment and try again later.'')"
proof -
  have b: "loadData_begin pollingState \<noteq> None"
    by (simp add: loadData_begin_def pollingState_def initialState_def js_def)
  have a: "pollingActive pollingState"
    by (simp add: pollingActive_def pollingState_def initialState_def)
  have d: "dataPollingInterval pollingState = Some 7" "clearedIntervals pollingState = []"
    by (simp_all add: pollingState_def initialState_def)
  have s1: "errorStatus (GapiError (js ''NOT_FOUND'') []) = js ''NOT_FOUND''"
    by (simp add: errorStatus_def)
  have s2: "errorStatus (GapiError (js ''RESOURCE_EXHAUSTED'') []) \<noteq> js ''NOT_FOUND''"
    "errorStatus (GapiError (js ''RESOURCE_EXHAUSTED'') []) \<noteq> js ''PERMISSION_DENIED''"
    by (simp_all add: errorStatus_def js_def)
  have m: "parseGapiError (GapiError (js ''RESOURCE_EXHAUSTED'') [])
     = js ''The app has made too many requests to Google Sheets. Please wait a moment and try again later.''"
    by (simp add: parseGapiError_def js_def)
  note f = fatal_errors_stop_polling [OF b, of refRuntime "GapiError (js ''NOT_FOUND'') []"]
  note g = fatal_errors_stop_polling [OF b, of refRuntime "GapiError (js ''RESOURCE_EXHAUSTED'') []"]
  from f s1 a d have
    "dataPollingInterval (loadData refRuntime (Rejected (GapiError (js ''NOT_FOUND'') [])) pollingState) = None"
    "clearedIntervals (loadData refRuntime (Rejected (GapiError (js ''NOT_FOUND'') [])) pollingState) = [7]"
    "\<not> pollingActive (run refRuntime [Poll (Values (Some acmeSheet)), Refilter]
         (loadData refRuntime (Rejected (GapiError (js ''NOT_FOUND'') [])) pollingState))"
    by (simp_all add: the_default_def)
  moreover from g s2 d m have
    "dataPollingInterval
        (loadData refRuntime (Rejected (GapiError (js ''RESOURCE_EXHAUSTED'') [])) pollingState) = Some 7"
    "resultsContainer
        (loadData refRuntime (Rejected (GapiError (js ''RESOURCE_EXHAUSTED'') [])) pollingState)
       = ErrorBox (js ''The app has made too many requests to Google Sheets. Please wait a moment and try again later.'')"
    by simp_all
  ultimately show ?thesis using a b by simp
qed


section \<open>A poll cycle on new and on unchanged data\<close>

lemma mapThrowing_Inr:
  "mapThrowing f xs = Inr ys \<Longrightarrow> \<forall>x \<in> set xs. \<exists>y. f x = Inr y"
  by (induction xs arbitrary: ys) (auto split: sum.splits)

lemma createSalonCards_ids:
  "createSalonCards rt salons = Inr cards \<Longrightarrow> \<forall>x \<in> set salons. \<exists>i. getSalonId rt x = Inr i"
proof
  fix x
  assume "createSalonCards rt salons = Inr cards" "x \<in> set salons"
  then obtain y where "createSalonCard rt x = Inr y"
    unfolding createSalonCards_def using mapThrowing_Inr by blast
  then show "\<exists>i. getSalonId rt x = Inr i"
    by (cases "getSalonId rt x") (simp_all add: createSalonCard_def)
qed

lemma addMarkers_None:
  "\<forall>x \<in> set xs. \<exists>i. getSalonId rt x = Inr i \<Longrightarrow> fst (addMarkers rt xs acc) = None"
  by (induction xs arbitrary: acc) auto

lemma updateMap_None:
  "\<forall>x \<in> set xs. \<exists>i. getSalonId rt x = Inr i \<Longrightarrow> fst (updateMap rt xs s) = None"
proof -
  assume a: "\<forall>x \<in> set xs. \<exists>i. getSalonId rt x = Inr i"
  let ?v = "filter (\<lambda>x. truthy (getProp x (js ''latitude'')) \<and> truthy (getProp x (js ''longitude''))) xs"
  from a have "\<forall>x \<in> set ?v. \<exists>i. getSalonId rt x = Inr i" by simp
  then have "fst (addMarkers rt ?v []) = None" by (rule addMarkers_None)
  then show ?thesis
    by (cases "addMarkers rt ?v []") (simp add: updateMap_def Let_def)
qed

lemma displayResults_view:
  "fst (displayResults rt salons s) = None \<Longrightarrow>
     resultsContainer (snd (displayResults rt salons s)) =
       (if salons = [] then
            (if trim (searchInputValue s) \<noteq> []
             then Message (js ''No salons found matching \"''
                           @ escapeHTML rt (JString (trim (searchInputValue s))) @ js ''\".'')
             else Message (js ''No salons found.''))
        else (case createSalonCards rt salons of
                  Inl e \<Rightarrow> ErrorBox (parseGapiError e)
                | Inr cards \<Rightarrow> Cards cards))"
  by (auto simp: displayResults_def updateMap_def Let_def split: sum.splits prod.splits if_splits)

lemma displayResults_thrown:
  "fst (displayResults rt salons s) = Some e \<Longrightarrow>
     salons \<noteq> [] \<and> createSalonCards rt salons = Inl e \<and> snd (displayResults rt salons s) = s"
proof (cases "salons = []")
  case True
  assume "fst (displayResults rt salons s) = Some e"
  with True show ?thesis by (simp add: displayResults_def updateMap_def Let_def)
next
  case False
  assume t: "fst (displayResults rt salons s) = Some e"
  show ?thesis
  proof (cases "createSalonCards rt salons")
    case (Inl e')
    with False t show ?thesis by (simp add: displayResults_def)
  next
    case (Inr cards)
    then have "fst (updateMap rt salons (s\<lparr>resultsContainer := Cards cards\<rparr>)) = None"
      by (intro updateMap_None createSalonCards_ids)
    with False t Inr show ?thesis by (simp add: displayResults_def)
  qed
qed


lemma loadData_catch_keeps:
  "currentSalons (loadData_catch err s) = currentSalons s"
  "headers (loadData_catch err s) = headers s"
  "lastDataState (loadData_catch err s) = lastDataState s"
  "favoritesList (loadData_catch err s) = favoritesList s"
  "favoritesHidden (loadData_catch err s) = favoritesHidden s"
  "searchInputValue (loadData_catch err s) = searchInputValue s"
  "currentSortKey (loadData_catch err s) = currentSortKey s"
  "currentSortDirection (loadData_catch err s) = currentSortDirection s"
  "isEditing (loadData_catch err s) = isEditing s"
  "currentSpreadsheetId (loadData_catch err s) = currentSpreadsheetId s"
  "sortOptions (loadData_catch err s) = sortOptions s"
  "alerts (loadData_catch err s) = alerts s"
  "sheetWrites (loadData_catch err s) = sheetWrites s"
  by (simp_all add: loadData_catch_def Let_def displayError_def)

lemma applyFilterAndRender_keeps2:
  "searchInputValue (snd (applyFilterAndRender rt s)) = searchInputValue s"
  "currentSortKey (snd (applyFilterAndRender rt s)) = currentSortKey s"
  "currentSortDirection (snd (applyFilterAndRender rt s)) = currentSortDirection s"
  "isEditing (snd (applyFilterAndRender rt s)) = isEditing s"
  "currentSpreadsheetId (snd (applyFilterAndRender rt s)) = currentSpreadsheetId s"
  "loaderHidden (snd (applyFilterAndRender rt s)) = loaderHidden s"
  by (subst applyFilterAndRender_frame, simp)+

lemma finishTry_keeps:
  "currentSalons (finishTry (applyFilterAndRender rt s)) = currentSalons s"
  "headers (finishTry (applyFilterAndRender rt s)) = headers s"
  "lastDataState (finishTry (applyFilterAndRender rt s)) = lastDataState s"
  "favoritesList (finishTry (applyFilterAndRender rt s)) = favoritesList s"
  "favoritesHidden (finishTry (applyFilterAndRender rt s)) = favoritesHidden s"
  "searchInputValue (finishTry (applyFilterAndRender rt s)) = searchInputValue s"
  "currentSortKey (finishTry (applyFilterAndRender rt s)) = currentSortKey s"
  "currentSortDirection (finishTry (applyFilterAndRender rt s)) = currentSortDirection s"
  "isEditing (finishTry (applyFilterAndRender rt s)) = isEditing s"
  "currentSpreadsheetId (finishTry (applyFilterAndRender rt s)) = currentSpreadsheetId s"
  "sortOptions (finishTry (applyFilterAndRender rt s)) = sortOptions s"
  "alerts (finishTry (applyFilterAndRender rt s)) = alerts s"
  "sheetWrites (finishTry (applyFilterAndRender rt s)) = sheetWrites s"
proof -
  obtain thrown s1 where p: "applyFilterAndRender rt s = (thrown, s1)"
    by (cases "applyFilterAndRender rt s")
  then have s1: "s1 = snd (applyFilterAndRender rt s)" by simp
  show "currentSalons (finishTry (applyFilterAndRender rt s)) = currentSalons s"
    "headers (finishTry (applyFilterAndRender rt s)) = headers s"
    "lastDataState (finishTry (applyFilterAndRender rt s)) = lastDataState s"
    "favoritesList (finishTry (applyFilterAndRender rt s)) = favoritesList s"
    "favoritesHidden (finishTry (applyFilterAndRender rt s)) = favoritesHidden s"
    "searchInputValue (finishTry (applyFilterAndRender rt s)) = searchInputValue s"
    "currentSortKey (finishTry (applyFilterAndRender rt s)) = currentSortKey s"
    "currentSortDirection (finishTry (applyFilterAndRender rt s)) = currentSortDirection s"
    "isEditing (finishTry (applyFilterAndRender rt s)) = isEditing s"
    "currentSpreadsheetId (finishTry (applyFilterAndRender rt s)) = currentSpreadsheetId s"
    "sortOptions (finishTry (applyFilterAndRender rt s)) = sortOptions s"
    "alerts (finishTry (applyFilterAndRender rt s)) = alerts s"
    "sheetWrites (finishTry (applyFilterAndRender rt s)) = sheetWrites s"
    unfolding p finishTry_def
    by (cases thrown; simp add: loadData_catch_keeps s1 applyFilterAndRender_keeps applyFilterAndRender_keeps2)+
qed

lemma finishTry_view:
  "resultsContainer (finishTry (applyFilterAndRender rt s)) =
     (if favoritesHidden s then renderedView rt s else resultsContainer s)"
proof (cases "favoritesHidden s")
  case False
  then show ?thesis by (simp add: applyFilterAndRender_def finishTry_def)
next
  case True
  show ?thesis
  proof (cases "filterSalons rt (searchInputValue s) (currentSalons s)")
    case (Inl e)
    with True show ?thesis
      by (simp add: applyFilterAndRender_def finishTry_def renderedView_def visibleSalons_def
                    loadData_catch_polling)
  next
    case (Inr filtered)
    let ?v = "if currentSortKey s \<noteq> js ''none''
               then sortSalons rt filtered (currentSortKey s) (currentSortDirection s)
               else filtered"
    have a: "applyFilterAndRender rt s = displayResults rt ?v s"
      using True Inr by (simp add: applyFilterAndRender_def Let_def)
    have v: "visibleSalons rt s = Inr ?v" using Inr by (simp add: visibleSalons_def)
    obtain thrown s1 where p: "displayResults rt ?v s = (thrown, s1)"
      by (cases "displayResults rt ?v s")
    show ?thesis
    proof (cases thrown)
      case None
      with p have "fst (displayResults rt ?v s) = None" by simp
      from displayResults_view [OF this] p None True a v show ?thesis
        by (simp add: finishTry_def renderedView_def)
    next
      case (Some e)
      with p have "fst (displayResults rt ?v s) = Some e" by simp
      from displayResults_thrown [OF this] p Some True a v show ?thesis
        by (simp add: finishTry_def renderedView_def loadData_catch_polling)
    qed
  qed
qed

lemma renderedView_cong:
  "searchInputValue a = searchInputValue b \<Longrightarrow> currentSalons a = currentSalons b \<Longrightarrow>
   currentSortKey a = currentSortKey b \<Longrightarrow> currentSortDirection a = currentSortDirection b \<Longrightarrow>
   renderedView rt a = renderedView rt b"
  unfolding renderedView_def visibleSalons_def by (simp only:)

lemma stringifyArray_headers:
  "(stringifyArray rt (map JString hs) \<noteq> stringifyArray rt (map JString hs')) = (hs \<noteq> hs')"
  using stringifyArray_inj by blast

lemma loadData_changed:
  assumes "loadData_begin s \<noteq> None" "2 \<le> length data"
    and "stringifyArray rt (rowsValue data) \<noteq> lastDataState s"
  shows "loadData rt (Values (Some data)) s =
     setLoading False (finishTry (applyFilterAndRender rt
       (s\<lparr>loaderHidden := False,
          lastDataState := stringifyArray rt (rowsValue data),
          headers := hd data,
          sortOptions := (if headers s = hd data then sortOptions s else hd data),
          currentSalons := makeSalons rt (hd data) (tl data)\<rparr>)))"
proof -
  from assms(1) have b: "loadData_begin s = Some (setLoading True s)"
    by (auto simp: loadData_begin_def split: if_splits)
  have t: "loadData_try rt (Some data) (setLoading True s) =
     applyFilterAndRender rt
       (s\<lparr>loaderHidden := False,
          lastDataState := stringifyArray rt (rowsValue data),
          headers := hd data,
          sortOptions := (if headers s = hd data then sortOptions s else hd data),
          currentSalons := makeSalons rt (hd data) (tl data)\<rparr>)"
  proof (cases "headers s = hd data")
    case True
    with assms(2,3) show ?thesis
      by (simp add: loadData_try_def Let_def setLoading_def updateSortOptions_def
                    stringifyArray_headers True [symmetric])
  next
    case False
    with assms(2,3) show ?thesis
      by (simp add: loadData_try_def Let_def setLoading_def updateSortOptions_def
                    stringifyArray_headers)
  qed
  show ?thesis
    by (simp add: loadData_def b loadData_resume_def t finishTry_def split: prod.splits option.splits)
qed

lemma loadData_unchanged:
  assumes "loadData_begin s \<noteq> None" "2 \<le> length data"
    and "stringifyArray rt (rowsValue data) = lastDataState s"
  shows "loadData rt (Values (Some data)) s = s\<lparr>loaderHidden := True\<rparr>"
proof -
  from assms(1) have b: "loadData_begin s = Some (setLoading True s)"
    by (auto simp: loadData_begin_def split: if_splits)
  show ?thesis using assms(2,3)
    by (simp add: loadData_def b loadData_resume_def loadData_try_def Let_def setLoading_def)
qed

lemma makeSalons_acme: "makeSalons refRuntime (hd acmeSheet) (tl acmeSheet) = [acme]"
  by code_simp

lemma stringifyArray_nonempty: "stringifyArray rt xs \<noteq> []"
  by (simp add: stringifyArray_def js_def)

lemma loadData_begin_iff:
  "(loadData_begin s \<noteq> None) =
     (\<not> isEditing s \<and> currentSpreadsheetId s \<noteq> None \<and> currentSpreadsheetId s \<noteq> Some [])"
  by (simp add: loadData_begin_def)

lemma loadData_begin_kept:
  "isEditing s' = isEditing s \<Longrightarrow> currentSpreadsheetId s' = currentSpreadsheetId s \<Longrightarrow>
   loadData_begin s \<noteq> None \<Longrightarrow> loadData_begin s' \<noteq> None"
  unfolding loadData_begin_iff by simp


section \<open>The record normalizer (C4)\<close>

lemma map_of_replaceProp:
  "map_of (replaceProp obj k v) k'
   = (if k' = k \<and> map_of obj k \<noteq> None then Some v else map_of obj k')"
  by (induction obj) auto


lemma map_of_insertProp:
  "map_of obj k = None
   \<Longrightarrow> map_of (insertProp obj k v) k' = (if k' = k then Some v else map_of obj k')"
  by (induction obj) (auto split: option.splits if_splits)


lemma getProp_setProp:
  "k \<noteq> js ''__proto__''
   \<Longrightarrow> getProp (setProp obj k v) k' = (if k' = k then v else getProp obj k')"
  by (cases "map_of obj k")
     (auto simp: getProp_def setProp_def map_of_replaceProp map_of_insertProp)



lemma favorite_not_proto: "js ''favorite'' \<noteq> js ''__proto__''"
  by (simp add: js_def)

lemma getProp_setFavorite:
  "getProp (setProp obj (js ''favorite'') v) k'
   = (if k' = js ''favorite'' then v else getProp obj k')"
  by (rule getProp_setProp [OF favorite_not_proto])























section \<open>Filtering (C5)\<close>

lemma js_includes_empty: "js_includes t [] = True"
  by (induction t) simp_all

lemma js_includes_iff: "js_includes t u = (\<exists>p r. t = p @ u @ r)"
proof (induction t)
  case Nil
  then show ?case by auto
next
  case (Cons c cs)
  show ?case
  proof
    assume "js_includes (c # cs) u"
    then consider "take (length u) (c # cs) = u" | "js_includes cs u" by auto
    then show "\<exists>p r. c # cs = p @ u @ r"
    proof cases
      case 1
      then have "c # cs = [] @ u @ drop (length u) (c # cs)"
        by (metis append_Nil append_take_drop_id)
      then show ?thesis by blast
    next
      case 2
      with Cons.IH obtain p r where "cs = p @ u @ r" by blast
      then have "c # cs = (c # p) @ u @ r" by simp
      then show ?thesis by blast
    qed
  next
    assume "\<exists>p r. c # cs = p @ u @ r"
    then obtain p r where e: "c # cs = p @ u @ r" by blast
    show "js_includes (c # cs) u"
    proof (cases p)
      case Nil
      with e have "take (length u) (c # cs) = u" by simp
      then show ?thesis by simp
    next
      case (Cons d ps)
      with e have "cs = ps @ u @ r" by simp
      with Cons.IH have "js_includes cs u" by blast
      then show ?thesis by simp
    qed
  qed
qed

lemma filterThrowing_total:
  "\<forall>x \<in> set xs. p x = Inr (q x) \<Longrightarrow> filterThrowing p xs = Inr (filter q xs)"
  by (induction xs) simp_all

lemma lowerOrThrow_text: "isText v \<Longrightarrow> lowerOrThrow rt v = Inr (toLowerCase rt (fieldText v))"
  by (cases v) (simp_all add: lowerOrThrow_def orElse_def)

lemma salonMatches_text:
  "salonHasText salon \<Longrightarrow>
     salonMatches rt u salon =
       Inr (js_includes (toLowerCase rt (fieldText (getProp salon (js ''name'')))) u
            \<or> js_includes (toLowerCase rt (fieldText (getProp salon (js ''address'')))) u
            \<or> js_includes (toLowerCase rt (fieldText (getProp salon (js ''description'')))) u)"
  by (simp add: salonHasText_def salonMatches_def lowerOrThrow_text)

lemma filterSalons_text:
  assumes "list_all salonHasText salons"
  shows "filterSalons rt q salons =
     Inr (filter (\<lambda>salon.
            js_includes (toLowerCase rt (fieldText (getProp salon (js ''name'')))) (toLowerCase rt (trim q))
            \<or> js_includes (toLowerCase rt (fieldText (getProp salon (js ''address'')))) (toLowerCase rt (trim q))
            \<or> js_includes (toLowerCase rt (fieldText (getProp salon (js ''description''))))
                 (toLowerCase rt (trim q)))
          salons)"
proof (cases "toLowerCase rt (trim q) = []")
  case True
  then show ?thesis by (simp add: filterSalons_def js_includes_empty)
next
  case False
  from assms have "\<forall>x \<in> set salons. salonMatches rt (toLowerCase rt (trim q)) x =
      Inr (js_includes (toLowerCase rt (fieldText (getProp x (js ''name'')))) (toLowerCase rt (trim q))
            \<or> js_includes (toLowerCase rt (fieldText (getProp x (js ''address'')))) (toLowerCase rt (trim q))
            \<or> js_includes (toLowerCase rt (fieldText (getProp x (js ''description''))))
                 (toLowerCase rt (trim q)))"
    by (simp add: list_all_iff salonMatches_text)
  from filterThrowing_total [OF this] False show ?thesis by (simp add: filterSalons_def Let_def)
qed

lemma salonMatches_fields:
  "getProp a (js ''name'') = getProp b (js ''name'') \<Longrightarrow>
   getProp a (js ''address'') = getProp b (js ''address'') \<Longrightarrow>
   getProp a (js ''description'') = getProp b (js ''description'') \<Longrightarrow>
   salonMatches rt u a = salonMatches rt u b"
  unfolding salonMatches_def by (simp only:)

lemma businessMatches_text:
  "isText (optMember (getProp b (js ''socialMedia'')) (js ''instagram'')) \<Longrightarrow>
     businessMatches rt u v only b =
       Inr ((u = [] \<or> js_includes (toLowerCase rt (stringifyObject rt b)) u)
            \<and> (v = [] \<or> js_includes (toLowerCase rt
                   (fieldText (optMember (getProp b (js ''socialMedia'')) (js ''instagram'')))) v)
            \<and> (only \<longrightarrow> truthy (optMember (getProp b (js ''socialMedia'')) (js ''instagram''))))"
  by (auto simp: businessMatches_def Let_def lowerOrThrow_text)

lemma filterBusinesses_text:
  assumes "list_all (\<lambda>b. isText (optMember (getProp b (js ''socialMedia'')) (js ''instagram''))) bs"
  shows "filterBusinesses rt ui bs =
     Inr (filter (\<lambda>b.
            (toLowerCase rt (searchInput ui) = []
             \<or> js_includes (toLowerCase rt (stringifyObject rt b)) (toLowerCase rt (searchInput ui)))
            \<and> (toLowerCase rt (instagramHandleInput ui) = []
                \<or> js_includes (toLowerCase rt
                     (fieldText (optMember (getProp b (js ''socialMedia'')) (js ''instagram''))))
                     (toLowerCase rt (instagramHandleInput ui)))
            \<and> (followsFilterCheckbox ui
                \<longrightarrow> truthy (optMember (getProp b (js ''socialMedia'')) (js ''instagram''))))
          bs)"
proof -
  from assms have "\<forall>x \<in> set bs.
     businessMatches rt (toLowerCase rt (searchInput ui)) (toLowerCase rt (instagramHandleInput ui))
       (followsFilterCheckbox ui) x =
     Inr ((toLowerCase rt (searchInput ui) = []
             \<or> js_includes (toLowerCase rt (stringifyObject rt x)) (toLowerCase rt (searchInput ui)))
            \<and> (toLowerCase rt (instagramHandleInput ui) = []
                \<or> js_includes (toLowerCase rt
                     (fieldText (optMember (getProp x (js ''socialMedia'')) (js ''instagram''))))
                     (toLowerCase rt (instagramHandleInput ui)))
            \<and> (followsFilterCheckbox ui
                \<longrightarrow> truthy (optMember (getProp x (js ''socialMedia'')) (js ''instagram''))))"
    by (simp add: list_all_iff businessMatches_text)
  from filterThrowing_total [OF this] show ?thesis by (simp add: filterBusinesses_def Let_def)
qed


text \<open>
  C5, as the code has it. In the sheet variant, for records whose name, address and
  description are strings or missing, filtering returns exactly the records one of whose
  three fields, lower-cased, contains the trimmed and lower-cased query as a contiguous run
  of code units; the outcome for a record depends on these three fields only. Filtering and
  rendering leave the record set of the state as it is. In the AI variant, for businesses
  whose instagram handle is a string or missing, filtering returns the businesses whose
  whole serialized record, lower-cased, contains the lower-cased search term, and that pass
  the two instagram tests: there every field and every key is consulted.
\<close>

theorem filter_contract:
  "(list_all salonHasText salons \<longrightarrow>
      filterSalons rt q salons =
        Inr (filter (\<lambda>salon.
               js_includes (toLowerCase rt (fieldText (getProp salon (js ''name''))))
                           (toLowerCase rt (trim q))
               \<or> js_includes (toLowerCase rt (fieldText (getProp salon (js ''address''))))
                              (toLowerCase rt (trim q))
               \<or> js_includes (toLowerCase rt (fieldText (getProp salon (js ''description''))))
                              (toLowerCase rt (trim q)))
             salons))
   \<and> js_includes t u = (\<exists>p r. t = p @ u @ r)
   \<and> (getProp a (js ''name'') = getProp b (js ''name'')
        \<and> getProp a (js ''address'') = getProp b (js ''address'')
        \<and> getProp a (js ''description'') = getProp b (js ''description'')
      \<longrightarrow> salonMatches rt u a = salonMatches rt u b)
   \<and> currentSalons (snd (applyFilterAndRender rt s)) = currentSalons s
   \<and> (list_all (\<lambda>b. isText (optMember (getProp b (js ''socialMedia'')) (js ''instagram''))) bs \<longrightarrow>
        filterBusinesses rt ui bs =
          Inr (filter (\<lambda>b.
                 (toLowerCase rt (searchInput ui) = []
                  \<or> js_includes (toLowerCase rt (stringifyObject rt b)) (toLowerCase rt (searchInput ui)))
                 \<and> (toLowerCase rt (instagramHandleInput ui) = []
                     \<or> js_includes (toLowerCase rt
                          (fieldText (optMember (getProp b (js ''socialMedia'')) (js ''instagram''))))
                          (toLowerCase rt (instagramHandleInput ui)))
                 \<and> (followsFilterCheckbox ui
                     \<longrightarrow> truthy (optMember (getProp b (js ''socialMedia'')) (js ''instagram''))))
               bs))"
  using filterSalons_text [of salons rt q] js_includes_iff [of t u] salonMatches_fields [of a b rt u]
    applyFilterAndRender_keeps(1) [of rt s] filterBusinesses_text [of bs rt ui]
  by blast

theorem filter_contract_witness:
  "list_all salonHasText [phoneBusiness, acme]
   \<and> filterSalons refRuntime (js '' ACME '') [phoneBusiness, acme] = Inr [phoneBusiness, acme]
   \<and> filterSalons refRuntime (js ''main st'') [zhongwen, loneSurrogate, acme]
       = Inr [zhongwen, loneSurrogate, acme]
   \<and> getProp phoneBusiness (js ''name'') = getProp acme (js ''name'')
   \<and> getProp phoneBusiness (js ''address'') = getProp acme (js ''address'')
   \<and> getProp phoneBusiness (js ''description'') = getProp acme (js ''description'')
   \<and> salonMatches refRuntime (js ''555'') phoneBusiness = salonMatches refRuntime (js ''555'') acme
   \<and> list_all (\<lambda>b. isText (optMember (getProp b (js ''socialMedia'')) (js ''instagram'')))
         [phoneBusiness, zhongwen]
   \<and> filterBusinesses refRuntime phoneSearch [phoneBusiness, zhongwen] = Inr [phoneBusiness]"
proof -
  have h: "list_all salonHasText [phoneBusiness, acme]" by code_simp
  have g: "getProp phoneBusiness (js ''name'') = getProp acme (js ''name'')"
    "getProp phoneBusiness (js ''address'') = getProp acme (js ''address'')"
    "getProp phoneBusiness (js ''description'') = getProp acme (js ''description'')"
    by code_simp+
  have i: "list_all (\<lambda>b. isText (optMember (getProp b (js ''socialMedia'')) (js ''instagram'')))
         [phoneBusiness, zhongwen]" by code_simp
  note t = filter_contract [where salons = "[phoneBusiness, acme]" and rt = refRuntime
      and q = "js '' ACME ''" and t = "[]" and u = "js ''555''" and a = phoneBusiness and b = acme
      and s = initialState and bs = "[phoneBusiness, zhongwen]" and ui = phoneSearch]
  from t h have 1: "filterSalons refRuntime (js '' ACME '') [phoneBusiness, acme] =
        Inr (filter (\<lambda>salon.
               js_includes (toLowerCase refRuntime (fieldText (getProp salon (js ''name''))))
                           (toLowerCase refRuntime (trim (js '' ACME '')))
               \<or> js_includes (toLowerCase refRuntime (fieldText (getProp salon (js ''address''))))
                              (toLowerCase refRuntime (trim (js '' ACME '')))
               \<or> js_includes (toLowerCase refRuntime (fieldText (getProp salon (js ''description''))))
                              (toLowerCase refRuntime (trim (js '' ACME ''))))
             [phoneBusiness, acme])" by blast
  have 1: "filterSalons refRuntime (js '' ACME '') [phoneBusiness, acme] = Inr [phoneBusiness, acme]"
    unfolding 1 by code_simp
  from t g have 2: "salonMatches refRuntime (js ''555'') phoneBusiness = salonMatches refRuntime (js ''555'') acme"
    by blast
  from t i have 3: "filterBusinesses refRuntime phoneSearch [phoneBusiness, zhongwen] =
          Inr (filter (\<lambda>b.
                 (toLowerCase refRuntime (searchInput phoneSearch) = []
                  \<or> js_includes (toLowerCase refRuntime (stringifyObject refRuntime b))
                       (toLowerCase refRuntime (searchInput phoneSearch)))
                 \<and> (toLowerCase refRuntime (instagramHandleInput phoneSearch) = []
                     \<or> js_includes (toLowerCase refRuntime
                          (fieldText (optMember (getProp b (js ''socialMedia'')) (js ''instagram''))))
                          (toLowerCase refRuntime (instagramHandleInput phoneSearch)))
                 \<and> (followsFilterCheckbox phoneSearch
                     \<longrightarrow> truthy (optMember (getProp b (js ''socialMedia'')) (js ''instagram''))))
               [phoneBusiness, zhongwen])" by blast
  have 3: "filterBusinesses refRuntime phoneSearch [phoneBusiness, zhongwen] = Inr [phoneBusiness]"
    unfolding 3 by code_simp
  have 4: "filterSalons refRuntime (js ''main st'') [zhongwen, loneSurrogate, acme]
       = Inr [zhongwen, loneSurrogate, acme]" by code_simp
  from h g i 1 2 3 4 show ?thesis by blast
qed


text \<open>
  C5 as stated fails for the AI variant: a search for digits of the phone number keeps a
  business whose name and address do not contain them and that has no description; the
  sheet variant's filter drops the same record.
\<close>

theorem ai_filter_reads_every_field:
  "filterBusinesses refRuntime phoneSearch [phoneBusiness] = Inr [phoneBusiness]
   \<and> searchInput phoneSearch = js ''555''
   \<and> filterSalons refRuntime (js ''555'') [phoneBusiness] = Inr []"
  by code_simp


section \<open>The numeric guard of the comparator (C3)\<close>

lemma digitChar_digit: "digitChar n \<in> set (js ''0123456789'')"
  unfolding digitChar_def by (rule nth_mem) (simp add: js_def)

lemma decNat_digits: "set (decNat n) \<subseteq> set (js ''0123456789'')"
proof (induction n rule: decNat.induct)
  case (1 n)
  show ?case
  proof (cases "n < 10")
    case True
    then show ?thesis using digitChar_digit [of n] by (subst decNat.simps) simp
  next
    case False
    with 1 digitChar_digit [of "n mod 10"] show ?thesis by (subst decNat.simps) simp
  qed
qed

lemma fractionDigits_digits: "set (fractionDigits k r) \<subseteq> set (js ''0123456789'')"
  using digitChar_digit by (induction k arbitrary: r) auto

lemma digits_numerals: "set (js ''0123456789'') \<subseteq> set (js ''0123456789.e+-'')"
  by (simp add: js_def)

lemma ref_printsNumerals: "printsNumerals refRuntime"
proof -
  have "set (refFiniteToString q) \<subseteq> set (js ''0123456789.e+-'')" for q
  proof -
    define sign :: jsstring where "sign = (if q < 0 then [0x2D] else [])"
    define whole where "whole = decNat (nat \<lfloor>\<bar>q\<bar>\<rfloor>)"
    define frac where "frac = (if \<bar>q\<bar> = of_int \<lfloor>\<bar>q\<bar>\<rfloor> then []
        else 0x2E # fractionDigits 17 (\<bar>q\<bar> - of_int \<lfloor>\<bar>q\<bar>\<rfloor>))"
    have r: "refFiniteToString q = sign @ whole @ frac"
      unfolding refFiniteToString_def sign_def whole_def frac_def by (rule refl)
    have n: "{0x2D, 0x2E} \<subseteq> set (js ''0123456789.e+-'')" by (simp add: js_def)
    have "set sign \<subseteq> {0x2D, 0x2E}" unfolding sign_def by (cases "q < 0") simp_all
    with n have 1: "set sign \<subseteq> set (js ''0123456789.e+-'')" by blast
    have 2: "set whole \<subseteq> set (js ''0123456789.e+-'')"
      unfolding whole_def using decNat_digits digits_numerals by blast
    have "set frac \<subseteq> {0x2D, 0x2E} \<union> set (fractionDigits 17 (\<bar>q\<bar> - of_int \<lfloor>\<bar>q\<bar>\<rfloor>))"
      unfolding frac_def by (cases "\<bar>q\<bar> = of_int \<lfloor>\<bar>q\<bar>\<rfloor>") auto
    with n fractionDigits_digits digits_numerals
    have 3: "set frac \<subseteq> set (js ''0123456789.e+-'')" by blast
    from 1 2 3 show ?thesis unfolding r by simp
  qed
  then show ?thesis by (simp add: printsNumerals_def refRuntime_def)
qed

lemma ref_reads123: "reads123 refRuntime"
  by (simp add: reads123_def refRuntime_def refParseFloat_def isWhiteSpace_def isDigit_def
                digitsValue_def refFiniteToString_def asciiUpper_def decNat.simps digitChar_def js_def Let_def)


lemma numToString_numerals:
  assumes "printsNumerals rt" "n \<noteq> NaN"
  shows "0x20 \<notin> set (numToString rt n) \<and> numToString rt n \<noteq> js ''true''
         \<and> numToString rt n \<noteq> js ''false''"
proof (cases n)
  case (Finite q)
  have "0x20 \<notin> set (js ''0123456789.e+-'')" "0x74 \<notin> set (js ''0123456789.e+-'')"
    "0x66 \<notin> set (js ''0123456789.e+-'')" by (simp_all add: js_def)
  with assms(1) have "0x20 \<notin> set (finiteToString rt q)" "0x74 \<notin> set (finiteToString rt q)"
    "0x66 \<notin> set (finiteToString rt q)"
    unfolding printsNumerals_def by blast+
  moreover have "0x74 \<in> set (js ''true'')" "0x66 \<in> set (js ''false'')" by (simp_all add: js_def)
  ultimately show ?thesis using Finite by (auto simp: numToString_def)
next
  case NaN
  with assms(2) show ?thesis by simp
next
  case PosInf
  then show ?thesis by (simp add: numToString_def js_def)
next
  case NegInf
  then show ?thesis by (simp add: numToString_def js_def)
qed

lemma guard_needs_numerals:
  assumes "printsNumerals rt" "numericGuard rt val"
  shows "0x20 \<notin> set (toStr rt val) \<and> toStr rt val \<noteq> js ''true'' \<and> toStr rt val \<noteq> js ''false''"
  using assms numToString_numerals [of rt "parseFloat rt (toStr rt val)"]
  by (simp add: numericGuard_def)

lemma boolLike_cases:
  "boolLike rt val = val \<or> boolLike rt val = JBoolean True \<or> boolLike rt val = JBoolean False"
  by (cases val) (simp_all add: boolLike_def)

lemma mainSt_not_numeric:
  assumes "printsNumerals rt" "getProp a key = JString (js ''123 Main St'')"
  shows "\<not> numericGuard rt (sortValue rt a key)"
proof
  assume g: "numericGuard rt (sortValue rt a key)"
  note n = guard_needs_numerals [OF assms(1) g]
  from boolLike_cases [of rt "JString (js ''123 Main St'')"] assms(2)
  consider "sortValue rt a key = JString (js ''123 Main St'')"
    | "sortValue rt a key = JBoolean True" | "sortValue rt a key = JBoolean False"
    by (auto simp: sortValue_def nullish_def)
  then show False
  proof cases
    case 1
    with n show False by (simp add: js_def)
  next
    case 2
    with n show False by simp
  next
    case 3
    with n show False by simp
  qed
qed

lemma s123_numeric:
  assumes "reads123 rt" "getProp a key = JString (js ''123'')"
  shows "sortValue rt a key = JString (js ''123'')" "numericGuard rt (sortValue rt a key)"
    "parseFloat rt (toStr rt (sortValue rt a key)) = Finite 123"
proof -
  from assms have u: "toUpperCase rt (js ''123'') = js ''123''" by (simp add: reads123_def)
  have "js ''123'' \<noteq> js ''TRUE''" "js ''123'' \<noteq> js ''FALSE''" by (simp_all add: js_def)
  with u assms(2) show v: "sortValue rt a key = JString (js ''123'')"
    by (simp add: sortValue_def nullish_def boolLike_def)
  from assms(1) show "numericGuard rt (sortValue rt a key)"
    by (simp add: v numericGuard_def reads123_def numToString_def)
  from assms(1) show "parseFloat rt (toStr rt (sortValue rt a key)) = Finite 123"
    by (simp add: v reads123_def)
qed

text \<open>
  C3. For every pair of sort values the comparator takes its numeric branch exactly when
  both values pass the guard: \<^verbatim>\<open>parseFloat\<close> of the value is not NaN, and the parsed number
  prints back to exactly the value's string. Otherwise it returns the result of
  \<^verbatim>\<open>localeCompare\<close> with \<^verbatim>\<open>{numeric: true, sensitivity: 'base'}\<close>, times the direction. A record
  whose value is \<^verbatim>\<open>"123 Main St"\<close> is never compared numerically, whatever the other record
  holds; the value \<^verbatim>\<open>"123"\<close> passes the guard, and two such values are compared as numbers.
  The runtime is taken to print finite numbers with digits, point, \<^verbatim>\<open>e\<close> and signs only, and
  to read and print 123 as ECMAScript does.
\<close>

theorem numeric_guard:
  assumes "printsNumerals rt" "reads123 rt"
  shows
    "numericPath rt valA valB = (numericGuard rt valA \<and> numericGuard rt valB)
     \<and> compareSalons rt key direction a b =
         (if numericGuard rt (sortValue rt a key) \<and> numericGuard rt (sortValue rt b key)
          then (if numLess (parseFloat rt (toStr rt (sortValue rt a key)))
                           (parseFloat rt (toStr rt (sortValue rt b key)))
                then - dirSign direction
                else if numLess (parseFloat rt (toStr rt (sortValue rt b key)))
                                (parseFloat rt (toStr rt (sortValue rt a key)))
                then dirSign direction
                else 0)
          else localeCompare rt (toStr rt (sortValue rt a key)) (toStr rt (sortValue rt b key))
               * dirSign direction)
     \<and> (getProp a key = JString (js ''123 Main St'') \<or> getProp b key = JString (js ''123 Main St'')
        \<longrightarrow> \<not> numericPath rt (sortValue rt a key) (sortValue rt b key)
            \<and> compareSalons rt key direction a b =
                localeCompare rt (toStr rt (sortValue rt a key)) (toStr rt (sortValue rt b key))
                * dirSign direction)
     \<and> (getProp a key = JString (js ''123'') \<longrightarrow> numericGuard rt (sortValue rt a key))
     \<and> (getProp a key = JString (js ''123'') \<and> getProp b key = JString (js ''123'')
        \<longrightarrow> numericPath rt (sortValue rt a key) (sortValue rt b key)
            \<and> compareSalons rt key direction a b = 0)"
proof -
  have p: "numericPath rt x y = (numericGuard rt x \<and> numericGuard rt y)" for x y
    by (auto simp: numericPath_def numericGuard_def Let_def)
  have c: "compareSalons rt key direction a b =
         (if numericGuard rt (sortValue rt a key) \<and> numericGuard rt (sortValue rt b key)
          then (if numLess (parseFloat rt (toStr rt (sortValue rt a key)))
                           (parseFloat rt (toStr rt (sortValue rt b key)))
                then - dirSign direction
                else if numLess (parseFloat rt (toStr rt (sortValue rt b key)))
                                (parseFloat rt (toStr rt (sortValue rt a key)))
                then dirSign direction
                else 0)
          else localeCompare rt (toStr rt (sortValue rt a key)) (toStr rt (sortValue rt b key))
               * dirSign direction)"
    by (simp add: compareSalons_def Let_def p)
  have m: "getProp a key = JString (js ''123 Main St'') \<or> getProp b key = JString (js ''123 Main St'')
        \<longrightarrow> \<not> numericPath rt (sortValue rt a key) (sortValue rt b key)
            \<and> compareSalons rt key direction a b =
                localeCompare rt (toStr rt (sortValue rt a key)) (toStr rt (sortValue rt b key))
                * dirSign direction"
    using mainSt_not_numeric [OF assms(1), of a key] mainSt_not_numeric [OF assms(1), of b key]
    by (auto simp: p c)
  have n: "getProp a key = JString (js ''123'') \<longrightarrow> numericGuard rt (sortValue rt a key)"
    using s123_numeric(2) [OF assms(2)] by blast
  have e: "getProp a key = JString (js ''123'') \<and> getProp b key = JString (js ''123'')
        \<longrightarrow> numericPath rt (sortValue rt a key) (sortValue rt b key)
            \<and> compareSalons rt key direction a b = 0"
    using s123_numeric [OF assms(2), of a key] s123_numeric [OF assms(2), of b key]
    by (simp add: p c)
  from p [of valA valB] c m n e show ?thesis by blast
qed

theorem numeric_guard_witness:
  "printsNumerals refRuntime \<and> reads123 refRuntime
   \<and> getProp streetMain (js ''street'') = JString (js ''123 Main St'')
   \<and> getProp street123 (js ''street'') = JString (js ''123'')
   \<and> \<not> numericPath refRuntime (sortValue refRuntime street123 (js ''street''))
                             (sortValue refRuntime streetMain (js ''street''))
   \<and> compareSalons refRuntime (js ''street'') Asc street123 streetMain = -1
   \<and> numericGuard refRuntime (sortValue refRuntime street123 (js ''street''))
   \<and> numericPath refRuntime (sortValue refRuntime street123 (js ''street''))
                           (sortValue refRuntime street123 (js ''street''))
   \<and> compareSalons refRuntime (js ''street'') Desc street123 street123 = 0"
proof -
  have a: "getProp streetMain (js ''street'') = JString (js ''123 Main St'')"
    "getProp street123 (js ''street'') = JString (js ''123'')"
    by (simp_all add: streetMain_def street123_def getProp_def)
  have v: "sortValue refRuntime street123 (js ''street'') = JString (js ''123'')"
    "sortValue refRuntime streetMain (js ''street'') = JString (js ''123 Main St'')"
    by (simp_all add: sortValue_def a nullish_def boolLike_def refRuntime_def asciiUpper_def)
       (simp_all add: js_def)
  have l: "localeCompare refRuntime (js ''123'') (js ''123 Main St'') * dirSign Asc = -1"
    by (simp add: refRuntime_def refLocaleCompare_def asciiLower_def isDigit_def digitsValue_def
                  dirSign_def js_def)
  note t1 = numeric_guard [OF ref_printsNumerals ref_reads123, where key = "js ''street''"
      and a = street123 and b = streetMain and direction = Asc
      and valA = "JString []" and valB = "JString []"]
  note t2 = numeric_guard [OF ref_printsNumerals ref_reads123, where key = "js ''street''"
      and a = street123 and b = street123 and direction = Desc
      and valA = "JString []" and valB = "JString []"]
  from t1 have "getProp street123 (js ''street'') = JString (js ''123 Main St'')
        \<or> getProp streetMain (js ''street'') = JString (js ''123 Main St'')
        \<longrightarrow> \<not> numericPath refRuntime (sortValue refRuntime street123 (js ''street''))
                                    (sortValue refRuntime streetMain (js ''street''))
            \<and> compareSalons refRuntime (js ''street'') Asc street123 streetMain =
                localeCompare refRuntime (toStr refRuntime (sortValue refRuntime street123 (js ''street'')))
                  (toStr refRuntime (sortValue refRuntime streetMain (js ''street'')))
                * dirSign Asc"
    by (rule conjunct2 [THEN conjunct2, THEN conjunct1])
  with a(1) have m: "\<not> numericPath refRuntime (sortValue refRuntime street123 (js ''street''))
                                    (sortValue refRuntime streetMain (js ''street''))"
    "compareSalons refRuntime (js ''street'') Asc street123 streetMain =
                localeCompare refRuntime (toStr refRuntime (sortValue refRuntime street123 (js ''street'')))
                  (toStr refRuntime (sortValue refRuntime streetMain (js ''street'')))
                * dirSign Asc"
    by blast+
  from m(2) have c: "compareSalons refRuntime (js ''street'') Asc street123 streetMain = -1"
    by (simp only: v toStr.simps l)
  from t1 have "getProp street123 (js ''street'') = JString (js ''123'')
      \<longrightarrow> numericGuard refRuntime (sortValue refRuntime street123 (js ''street''))"
    by (rule conjunct2 [THEN conjunct2, THEN conjunct2, THEN conjunct1])
  with a(2) have g: "numericGuard refRuntime (sortValue refRuntime street123 (js ''street''))"
    by blast
  from t2 have "getProp street123 (js ''street'') = JString (js ''123'')
        \<and> getProp street123 (js ''street'') = JString (js ''123'')
        \<longrightarrow> numericPath refRuntime (sortValue refRuntime street123 (js ''street''))
                                  (sortValue refRuntime street123 (js ''street''))
            \<and> compareSalons refRuntime (js ''street'') Desc street123 street123 = 0"
    by (rule conjunct2 [THEN conjunct2, THEN conjunct2, THEN conjunct2])
  with a(2) have e: "numericPath refRuntime (sortValue refRuntime street123 (js ''street''))
                                  (sortValue refRuntime street123 (js ''street''))"
    "compareSalons refRuntime (js ''street'') Desc street123 street123 = 0"
    by blast+
  from m(1) c g e a ref_printsNumerals ref_reads123 show ?thesis by blast
qed


section \<open>Favorite toggles\<close>

lemma getSalonId_setFavorite: "getSalonId rt (setProp salon (js ''favorite'') v) = getSalonId rt salon"
proof -
  have "js ''name'' \<noteq> js ''favorite''" "js ''address'' \<noteq> js ''favorite''" by (simp_all add: js_def)
  then show ?thesis by (simp add: getSalonId_def getProp_setFavorite)
qed

lemma rowIndex_setFavorite:
  "getProp (setProp salon (js ''favorite'') v) (js ''rowIndex'') = getProp salon (js ''rowIndex'')"
proof -
  have "js ''rowIndex'' \<noteq> js ''favorite''" by (simp add: js_def)
  then show ?thesis by (simp add: getProp_setFavorite)
qed

lemma isFavorited_flag:
  assumes "upperFixesFlags rt"
  shows "isFavorited rt (setProp salon (js ''favorite'') (JString (if f then js ''TRUE'' else js ''FALSE''))) = f"
proof -
  have "js ''FALSE'' \<noteq> js ''TRUE''" "js ''TRUE'' \<noteq> []" "js ''FALSE'' \<noteq> []" by (simp_all add: js_def)
  with assms show ?thesis
    by (cases f) (simp_all add: isFavorited_def getProp_setFavorite upperFixesFlags_def)
qed

lemma isFavorited_same:
  "getProp a (js ''favorite'') = getProp b (js ''favorite'') \<Longrightarrow> isFavorited rt a = isFavorited rt b"
  by (simp add: isFavorited_def)

lemma updateFavoriteButtons_Inr:
  "getSalonId rt salon = Inr i \<Longrightarrow>
     updateFavoriteButtons rt salon s =
       Inr (s\<lparr>resultsContainer := mapCards (setButton i (isFavorited rt salon)) (resultsContainer s),
             favoritesList := mapCards (setButton i (isFavorited rt salon)) (favoritesList s)\<rparr>)"
  by (simp add: updateFavoriteButtons_def Let_def)

lemma cardsOf_mapCards: "cardsOf (mapCards f h) = map f (cardsOf h)"
  by (cases h) simp_all

lemma setButton_shows: "i = cardId (setButton i fav c) \<longrightarrow> buttonShows fav (setButton i fav c)"
  by (simp add: setButton_def buttonShows_def)

lemma list_all_map_all: "(\<And>x. P (f x)) \<Longrightarrow> list_all P (map f xs)"
  by (induction xs) auto

lemma setButton_id: "cardId (setButton i fav c) = cardId c"
  by (simp add: setButton_def)

lemma updateFavoriteButtons_shows:
  assumes "updateFavoriteButtons rt salon s = Inr s'"
  shows "buttonsShow rt salon s'"
proof -
  from assms obtain i where i: "getSalonId rt salon = Inr i"
    by (cases "getSalonId rt salon") (simp_all add: updateFavoriteButtons_def)
  with assms have s': "s' = s\<lparr>resultsContainer := mapCards (setButton i (isFavorited rt salon)) (resultsContainer s),
             favoritesList := mapCards (setButton i (isFavorited rt salon)) (favoritesList s)\<rparr>"
    by (simp add: updateFavoriteButtons_Inr)
  have "list_all (\<lambda>c. i = cardId c \<longrightarrow> buttonShows (isFavorited rt salon) c)
          (map (setButton i (isFavorited rt salon)) cs)" for cs
    by (rule list_all_map_all) (rule setButton_shows)
  then show ?thesis
    unfolding buttonsShow_def s' i by (simp add: cardsOf_mapCards)
qed

lemma buttonsShow_same:
  "getProp a (js ''favorite'') = getProp b (js ''favorite'') \<Longrightarrow> getSalonId rt a = getSalonId rt b \<Longrightarrow>
   buttonsShow rt a s = buttonsShow rt b s"
  by (simp add: buttonsShow_def isFavorited_same [of a b])

lemma toggleFavorite_WriteSent:
  assumes "toggleFavorite rt salon s = (WriteSent cellRange vals orig, salon1, s1)"
  shows "getProp salon (js ''rowIndex'') \<noteq> JUndefined"
    and "orig = getProp salon (js ''favorite'')"
    and "salon1 = setProp salon (js ''favorite'')
                    (JString (if \<not> isFavorited rt salon then js ''TRUE'' else js ''FALSE''))"
    and "\<exists>i. getSalonId rt salon = Inr i"
    and "\<exists>col. findIndex (\<lambda>h. toLowerCase rt h = js ''favorite'') (headers s) = Some col
            \<and> cellRange = js ''Sheet1!'' @ [of_nat (65 + col)] @ toStr rt (getProp salon (js ''rowIndex''))"
    and "vals = [[JString (if \<not> isFavorited rt salon then js ''TRUE'' else js ''FALSE'')]]"
    and "\<exists>s0. updateFavoriteButtons rt salon1 s = Inr s0 \<and> s1 = updateSheetData cellRange vals s0"
proof -
  let ?salon1 = "setProp salon (js ''favorite'')
                    (JString (if \<not> isFavorited rt salon then js ''TRUE'' else js ''FALSE''))"
  from assms show r: "getProp salon (js ''rowIndex'') \<noteq> JUndefined"
    by (auto simp: toggleFavorite_def split: if_splits)
  from assms r obtain s0 where u: "updateFavoriteButtons rt ?salon1 s = Inr s0"
    by (cases "updateFavoriteButtons rt ?salon1 s") (simp_all add: toggleFavorite_def Let_def)
  then have h: "headers s0 = headers s" by (rule updateFavoriteButtons_keeps)
  from assms r u obtain col where c: "findIndex (\<lambda>h. toLowerCase rt h = js ''favorite'') (headers s) = Some col"
    by (cases "findIndex (\<lambda>h. toLowerCase rt h = js ''favorite'') (headers s)")
       (auto simp: toggleFavorite_def Let_def h split: sum.splits)
  from assms r u c h have e: "orig = getProp salon (js ''favorite'')" "salon1 = ?salon1"
    "cellRange = js ''Sheet1!'' @ [of_nat (65 + col)] @ toStr rt (getProp ?salon1 (js ''rowIndex''))"
    "vals = [[getProp ?salon1 (js ''favorite'')]]"
    "s1 = updateSheetData cellRange vals s0"
    by (auto simp: toggleFavorite_def Let_def)
  from e show "orig = getProp salon (js ''favorite'')" by simp
  from e show "salon1 = ?salon1" by simp
  from u show "\<exists>i. getSalonId rt salon = Inr i"
    by (cases "getSalonId rt ?salon1") (simp_all add: updateFavoriteButtons_def getSalonId_setFavorite)
  from c e show "\<exists>col. findIndex (\<lambda>h. toLowerCase rt h = js ''favorite'') (headers s) = Some col
            \<and> cellRange = js ''Sheet1!'' @ [of_nat (65 + col)] @ toStr rt (getProp salon (js ''rowIndex''))"
    by (simp add: rowIndex_setFavorite)
  from e show "vals = [[JString (if \<not> isFavorited rt salon then js ''TRUE'' else js ''FALSE'')]]"
    by (simp add: getProp_setFavorite)
  from u e show "\<exists>s0. updateFavoriteButtons rt salon1 s = Inr s0 \<and> s1 = updateSheetData cellRange vals s0"
    by simp
qed


lemma toggleFavorite_sends:
  assumes "getProp salon (js ''rowIndex'') \<noteq> JUndefined" "getSalonId rt salon = Inr i"
    and "findIndex (\<lambda>h. toLowerCase rt h = js ''favorite'') (headers s) = Some col"
  shows "toggleFavorite rt salon s =
     (WriteSent (js ''Sheet1!'' @ [of_nat (65 + col)] @ toStr rt (getProp salon (js ''rowIndex'')))
                [[flag (\<not> isFavorited rt salon)]] (getProp salon (js ''favorite'')),
      setProp salon (js ''favorite'') (flag (\<not> isFavorited rt salon)),
      updateSheetData (js ''Sheet1!'' @ [of_nat (65 + col)] @ toStr rt (getProp salon (js ''rowIndex'')))
                [[flag (\<not> isFavorited rt salon)]]
        (s\<lparr>resultsContainer :=
              mapCards (setButton i (isFavorited rt (setProp salon (js ''favorite'') (flag (\<not> isFavorited rt salon)))))
                (resultsContainer s),
            favoritesList :=
              mapCards (setButton i (isFavorited rt (setProp salon (js ''favorite'') (flag (\<not> isFavorited rt salon)))))
                (favoritesList s)\<rparr>))"
proof -
  let ?salon1 = "setProp salon (js ''favorite'') (flag (\<not> isFavorited rt salon))"
  have id: "getSalonId rt ?salon1 = Inr i" by (simp add: getSalonId_setFavorite assms(2))
  note u = updateFavoriteButtons_Inr [OF id, of s]
  have s1: "setProp salon (js ''favorite'')
              (JString (if \<not> isFavorited rt salon then js ''TRUE'' else js ''FALSE'')) = ?salon1"
    by (simp add: flag_def)
  have k: "js ''rowIndex'' \<noteq> js ''favorite''" by (simp add: js_def)
  show ?thesis
    unfolding toggleFavorite_def Let_def s1
    by (simp add: assms(1,3) u getProp_setFavorite k)
qed

lemma toggleFavorite_then_keeps:
  "headers (snd (toggleFavorite_then rt salon s)) = headers s"
  "sheetWrites (snd (toggleFavorite_then rt salon s)) = sheetWrites s"
  "favoritesHidden (snd (toggleFavorite_then rt salon s)) = favoritesHidden s"
  by (auto simp: toggleFavorite_then_def Let_def setCardInfo_keeps displayFavorites_keeps
                 setCardInfo_def
           split: sum.splits option.splits prod.splits if_splits)

lemma toggleFavorite_then_hidden:
  assumes "favoritesHidden s" "getSalonId rt salon = Inr i"
  shows "fst (toggleFavorite_then rt salon s) = None"
  using assms by (simp add: toggleFavorite_then_def Let_def setCardInfo_keeps split: option.splits)


lemma loadedState_fields:
  "headers loadedState = hd acmeSheet" "currentSalons loadedState = [acme]"
  "favoritesHidden loadedState" "sheetWrites loadedState = []" "alerts loadedState = []"
proof -
  have b: "loadData_begin pollingState \<noteq> None"
    by (simp add: loadData_begin_def pollingState_def initialState_def js_def)
  have l: "2 \<le> length acmeSheet" by (simp add: acmeSheet_def)
  have n: "stringifyArray refRuntime (rowsValue acmeSheet) \<noteq> lastDataState pollingState"
    by (simp add: pollingState_def initialState_def stringifyArray_nonempty)
  note e = loadData_changed [OF b l n]
  show "headers loadedState = hd acmeSheet" "currentSalons loadedState = [acme]"
    "favoritesHidden loadedState" "sheetWrites loadedState = []" "alerts loadedState = []"
    unfolding loadedState_def e
    by (simp_all add: setLoading_def finishTry_keeps makeSalons_acme pollingState_def initialState_def)
qed

lemma acme_facts:
  "getProp acme (js ''rowIndex'') \<noteq> JUndefined"
  "getSalonId refRuntime acme = Inr (js ''QWNtZTEgTWFpbiBTdA=='')"
  "findIndex (\<lambda>h. toLowerCase refRuntime h = js ''favorite'') (hd acmeSheet) = Some 2"
  "js ''Sheet1!'' @ 67 # toStr refRuntime (getProp acme (js ''rowIndex'')) = js ''Sheet1!C2''"
  "isFavorited refRuntime acme = False"
  "getProp acme (js ''favorite'') = JString (js ''FALSE'')"
  by code_simp+

lemma ref_upperFixesFlags: "upperFixesFlags refRuntime"
  by code_simp


section \<open>A poll cycle from its answer on, and the example sessions\<close>

lemma loadData_resume_changed:
  assumes "2 \<le> length data"
    and "stringifyArray rt (rowsValue data) \<noteq> lastDataState s"
  shows "loadData_resume rt (Values (Some data)) s =
     setLoading False (finishTry (applyFilterAndRender rt
       (s\<lparr>lastDataState := stringifyArray rt (rowsValue data),
          headers := hd data,
          sortOptions := (if headers s = hd data then sortOptions s else hd data),
          currentSalons := makeSalons rt (hd data) (tl data)\<rparr>)))"
proof -
  have t: "loadData_try rt (Some data) s =
     applyFilterAndRender rt
       (s\<lparr>lastDataState := stringifyArray rt (rowsValue data),
          headers := hd data,
          sortOptions := (if headers s = hd data then sortOptions s else hd data),
          currentSalons := makeSalons rt (hd data) (tl data)\<rparr>)"
  proof (cases "headers s = hd data")
    case True
    with assms show ?thesis
      by (simp add: loadData_try_def Let_def updateSortOptions_def
                    stringifyArray_headers True [symmetric])
  next
    case False
    with assms show ?thesis
      by (simp add: loadData_try_def Let_def updateSortOptions_def stringifyArray_headers)
  qed
  show ?thesis
    by (simp add: loadData_resume_def t finishTry_def split: prod.splits option.splits)
qed

lemma loadData_resume_fields:
  assumes "2 \<le> length data"
    and "stringifyArray rt (rowsValue data) \<noteq> lastDataState s"
  shows "lastDataState (loadData_resume rt (Values (Some data)) s) = stringifyArray rt (rowsValue data)"
    and "headers (loadData_resume rt (Values (Some data)) s) = hd data"
    and "currentSalons (loadData_resume rt (Values (Some data)) s) = makeSalons rt (hd data) (tl data)"
    and "favoritesList (loadData_resume rt (Values (Some data)) s) = favoritesList s"
    and "favoritesHidden (loadData_resume rt (Values (Some data)) s) = favoritesHidden s"
    and "searchInputValue (loadData_resume rt (Values (Some data)) s) = searchInputValue s"
    and "currentSortKey (loadData_resume rt (Values (Some data)) s) = currentSortKey s"
    and "currentSortDirection (loadData_resume rt (Values (Some data)) s) = currentSortDirection s"
    and "isEditing (loadData_resume rt (Values (Some data)) s) = isEditing s"
    and "currentSpreadsheetId (loadData_resume rt (Values (Some data)) s) = currentSpreadsheetId s"
    and "alerts (loadData_resume rt (Values (Some data)) s) = alerts s"
    and "sheetWrites (loadData_resume rt (Values (Some data)) s) = sheetWrites s"
    and "loaderHidden (loadData_resume rt (Values (Some data)) s)"
    and "resultsContainer (loadData_resume rt (Values (Some data)) s) =
           (if favoritesHidden s then renderedView rt (loadData_resume rt (Values (Some data)) s)
            else resultsContainer s)"
proof -
  let ?s' = "loadData_resume rt (Values (Some data)) s"
  let ?s3 = "s\<lparr>lastDataState := stringifyArray rt (rowsValue data), headers := hd data,
              sortOptions := (if headers s = hd data then sortOptions s else hd data),
              currentSalons := makeSalons rt (hd data) (tl data)\<rparr>"
  note e = loadData_resume_changed [OF assms]
  show "lastDataState ?s' = stringifyArray rt (rowsValue data)"
    "headers ?s' = hd data"
    "currentSalons ?s' = makeSalons rt (hd data) (tl data)"
    "favoritesList ?s' = favoritesList s"
    "favoritesHidden ?s' = favoritesHidden s"
    "searchInputValue ?s' = searchInputValue s"
    "currentSortKey ?s' = currentSortKey s"
    "currentSortDirection ?s' = currentSortDirection s"
    "isEditing ?s' = isEditing s"
    "currentSpreadsheetId ?s' = currentSpreadsheetId s"
    "alerts ?s' = alerts s"
    "sheetWrites ?s' = sheetWrites s"
    "loaderHidden ?s'"
    by (simp_all add: e setLoading_def finishTry_keeps)
  have v: "renderedView rt ?s' = renderedView rt ?s3"
    by (rule renderedView_cong) (simp_all add: e setLoading_def finishTry_keeps)
  show "resultsContainer ?s' = (if favoritesHidden s then renderedView rt ?s' else resultsContainer s)"
    by (simp add: v) (simp add: e setLoading_def finishTry_view)
qed

lemma loadData_sent:
  "loadData_begin s \<noteq> None \<Longrightarrow> loadData rt r s = loadData_resume rt r (setLoading True s)"
  by (auto simp: loadData_def loadData_begin_def split: if_splits)

lemma mapThrowing_Inl: "mapThrowing f xs = Inl e \<Longrightarrow> \<exists>x \<in> set xs. f x = Inl e"
  by (induction xs) (auto split: sum.splits)

lemma filterThrowing_Inl: "filterThrowing p xs = Inl e \<Longrightarrow> \<exists>x \<in> set xs. p x = Inl e"
  by (induction xs) (auto split: sum.splits)

lemma createSalonCards_error:
  assumes "createSalonCards rt salons = Inl e"
  shows "parseGapiError e = js ''An unexpected error occurred. Please check the console for more details.''"
proof -
  from assms obtain x where "createSalonCard rt x = Inl e"
    unfolding createSalonCards_def using mapThrowing_Inl by blast
  then have "e = InvalidCharacterError \<or> e = TypeError"
    by (auto simp: createSalonCard_def getSalonId_def btoa_Inl Let_def split: sum.splits if_splits)
  then show ?thesis by (auto simp: parseGapiError_def)
qed

lemma visibleSalons_error:
  assumes "visibleSalons rt s = Inl e"
  shows "parseGapiError e = js ''An unexpected error occurred. Please check the console for more details.''"
proof -
  from assms have "filterSalons rt (searchInputValue s) (currentSalons s) = Inl e"
    by (auto simp: visibleSalons_def split: sum.splits)
  then obtain x q where "salonMatches rt q x = Inl e"
    using filterThrowing_Inl by (fastforce simp: filterSalons_def Let_def split: if_splits)
  then have "e = TypeError"
    by (auto simp: salonMatches_def lowerOrThrow_def split: sum.splits jsval.splits)
  then show ?thesis by (simp add: parseGapiError_def)
qed

lemma renderedView_explicit:
  "renderedView rt s =
     (case visibleSalons rt s of
        Inl e \<Rightarrow> ErrorBox (js ''An unexpected error occurred. Please check the console for more details.'')
      | Inr salons \<Rightarrow>
          if salons = [] then
            (if trim (searchInputValue s) \<noteq> []
             then Message (js ''No salons found matching \"''
                           @ escapeHTML rt (JString (trim (searchInputValue s))) @ js ''\".'')
             else Message (js ''No salons found.''))
          else (case createSalonCards rt salons of
                  Inl e \<Rightarrow> ErrorBox (js ''An unexpected error occurred. Please check the console for more details.'')
                | Inr cards \<Rightarrow> Cards cards))"
  by (auto simp: renderedView_def visibleSalons_error createSalonCards_error split: sum.splits)

lemma acme_cards:
  "createSalonCards refRuntime [acme] = Inr [acmeCard acme False]"
  "createSalonCards refRuntime [acmeFavorite] = Inr [acmeCard acmeFavorite True]"
  "createSalonCards refRuntime [zhongwenRow] = Inl InvalidCharacterError"
proof -
  have a: "renderSourcesThrows acme = False" "renderSocialsThrows acme = False"
    "getSalonId refRuntime acme = Inr (js ''QWNtZTEgTWFpbiBTdA=='')"
    "isFavorited refRuntime acme = False" "getProp acme (js ''rowIndex'') \<noteq> JUndefined"
    "renderSourcesThrows acmeFavorite = False" "renderSocialsThrows acmeFavorite = False"
    "getSalonId refRuntime acmeFavorite = Inr (js ''QWNtZTEgTWFpbiBTdA=='')"
    "isFavorited refRuntime acmeFavorite = True" "getProp acmeFavorite (js ''rowIndex'') \<noteq> JUndefined"
    "getSalonId refRuntime zhongwenRow = Inl InvalidCharacterError"
    by code_simp+
  show "createSalonCards refRuntime [acme] = Inr [acmeCard acme False]"
    "createSalonCards refRuntime [acmeFavorite] = Inr [acmeCard acmeFavorite True]"
    "createSalonCards refRuntime [zhongwenRow] = Inl InvalidCharacterError"
    by (simp_all add: createSalonCards_def createSalonCard_def a acmeCard_def)
qed

lemma sheets_differ:
  "stringifyArray refRuntime (rowsValue acmeFavoriteSheet) \<noteq> stringifyArray refRuntime (rowsValue acmeSheet)"
  by code_simp

lemma makeSalons_examples:
  "makeSalons refRuntime (hd acmeFavoriteSheet) (tl acmeFavoriteSheet) = [acmeFavorite]"
  "makeSalons refRuntime (hd zhongwenSheet) (tl zhongwenSheet) = [zhongwenRow]"
  by code_simp+

lemma visibleSalons_plain:
  "searchInputValue s = [] \<Longrightarrow> currentSortKey s = js ''none'' \<Longrightarrow>
   visibleSalons refRuntime s = Inr (currentSalons s)"
  by (simp add: visibleSalons_def filterSalons_def trim_def refRuntime_def asciiLower_def)

lemma renderedView_plain:
  assumes "searchInputValue s = []" "currentSortKey s = js ''none''" "currentSalons s = [x]"
  shows "renderedView refRuntime s =
           (case createSalonCards refRuntime [x] of
              Inl e \<Rightarrow> ErrorBox (js ''An unexpected error occurred. Please check the console for more details.'')
            | Inr cards \<Rightarrow> Cards cards)"
  by (simp add: renderedView_explicit visibleSalons_plain [OF assms(1,2)] assms(3))

lemma pollingState_fields:
  "loadData_begin pollingState \<noteq> None" "lastDataState pollingState = []"
  "searchInputValue pollingState = []" "currentSortKey pollingState = js ''none''"
  "favoritesHidden pollingState" "isEditing pollingState = False"
  "currentSpreadsheetId pollingState = Some (js ''sheet-1'')"
  "favoritesList pollingState = NoContent" "resultsContainer pollingState = NoContent"
  "alerts pollingState = []" "sheetWrites pollingState = []" "currentSalons pollingState = []"
  by (simp_all add: loadData_begin_def pollingState_def initialState_def js_def)

lemma sheet_lengths:
  "2 \<le> length acmeSheet" "2 \<le> length acmeFavoriteSheet" "2 \<le> length zhongwenSheet"
  by (simp_all add: acmeSheet_def acmeFavoriteSheet_def zhongwenSheet_def)

lemma loadedState_resume:
  "loadedState = loadData_resume refRuntime (Values (Some acmeSheet)) (setLoading True pollingState)"
  "loadedFavoriteState = loadData_resume refRuntime (Values (Some acmeFavoriteSheet)) (setLoading True pollingState)"
  by (simp_all add: loadedState_def loadedFavoriteState_def loadData_sent pollingState_fields)

lemma sent_fields:
  "lastDataState (setLoading True s) = lastDataState s"
  "searchInputValue (setLoading True s) = searchInputValue s"
  "currentSortKey (setLoading True s) = currentSortKey s"
  "favoritesHidden (setLoading True s) = favoritesHidden s"
  "isEditing (setLoading True s) = isEditing s"
  "currentSpreadsheetId (setLoading True s) = currentSpreadsheetId s"
  "favoritesList (setLoading True s) = favoritesList s"
  "resultsContainer (setLoading True s) = resultsContainer s"
  "alerts (setLoading True s) = alerts s"
  "sheetWrites (setLoading True s) = sheetWrites s"
  "currentSalons (setLoading True s) = currentSalons s"
  "headers (setLoading True s) = headers s"
  by (simp_all add: setLoading_def)

lemma loadedState_view:
  "resultsContainer loadedState = Cards [acmeCard acme False]"
  "lastDataState loadedState = stringifyArray refRuntime (rowsValue acmeSheet)"
  "searchInputValue loadedState = []" "currentSortKey loadedState = js ''none''"
  "isEditing loadedState = False" "currentSpreadsheetId loadedState = Some (js ''sheet-1'')"
  "favoritesList loadedState = NoContent"
proof -
  have n: "stringifyArray refRuntime (rowsValue acmeSheet) \<noteq> lastDataState (setLoading True pollingState)"
    by (simp add: sent_fields pollingState_fields stringifyArray_nonempty)
  note f = loadData_resume_fields [OF sheet_lengths(1) n, folded loadedState_resume(1)]
  show "lastDataState loadedState = stringifyArray refRuntime (rowsValue acmeSheet)"
    "searchInputValue loadedState = []" "currentSortKey loadedState = js ''none''"
    "isEditing loadedState = False" "currentSpreadsheetId loadedState = Some (js ''sheet-1'')"
    "favoritesList loadedState = NoContent"
    by (simp_all add: f sent_fields pollingState_fields)
  have "renderedView refRuntime loadedState = Cards [acmeCard acme False]"
    by (subst renderedView_plain [of _ acme])
       (simp_all add: f sent_fields pollingState_fields makeSalons_acme acme_cards)
  then show "resultsContainer loadedState = Cards [acmeCard acme False]"
    by (simp add: f(14) sent_fields pollingState_fields)
qed

lemma favoritesOpenState_fields:
  "loadData_begin favoritesOpenState \<noteq> None" "lastDataState favoritesOpenState = []"
  "\<not> favoritesHidden favoritesOpenState" "isEditing favoritesOpenState = False"
  "currentSpreadsheetId favoritesOpenState = Some (js ''sheet-1'')"
  "favoritesList favoritesOpenState = Message (js ''You haven't saved any favorite salons yet.'')"
  "resultsContainer favoritesOpenState = NoContent"
  by (simp_all add: loadData_begin_def favoritesOpenState_def pollingState_def initialState_def js_def)

lemma favoritesOpenLoaded_fields:
  "lastDataState favoritesOpenLoaded = stringifyArray refRuntime (rowsValue acmeSheet)"
  "currentSalons favoritesOpenLoaded = [acme]"
  "\<not> favoritesHidden favoritesOpenLoaded" "isEditing favoritesOpenLoaded = False"
  "currentSpreadsheetId favoritesOpenLoaded = Some (js ''sheet-1'')"
  "favoritesList favoritesOpenLoaded = Message (js ''You haven't saved any favorite salons yet.'')"
  "resultsContainer favoritesOpenLoaded = NoContent"
proof -
  have r: "favoritesOpenLoaded
           = loadData_resume refRuntime (Values (Some acmeSheet)) (setLoading True favoritesOpenState)"
    by (simp add: favoritesOpenLoaded_def loadData_sent favoritesOpenState_fields)
  have n: "stringifyArray refRuntime (rowsValue acmeSheet) \<noteq> lastDataState (setLoading True favoritesOpenState)"
    by (simp add: sent_fields favoritesOpenState_fields stringifyArray_nonempty)
  note f = loadData_resume_fields [OF sheet_lengths(1) n, folded r]
  show "lastDataState favoritesOpenLoaded = stringifyArray refRuntime (rowsValue acmeSheet)"
    "currentSalons favoritesOpenLoaded = [acme]"
    "\<not> favoritesHidden favoritesOpenLoaded" "isEditing favoritesOpenLoaded = False"
    "currentSpreadsheetId favoritesOpenLoaded = Some (js ''sheet-1'')"
    "favoritesList favoritesOpenLoaded = Message (js ''You haven't saved any favorite salons yet.'')"
    "resultsContainer favoritesOpenLoaded = NoContent"
    by (simp_all add: f sent_fields favoritesOpenState_fields makeSalons_acme)
qed


lemma editOpenedInFlight_fields:
  "isEditing editOpenedInFlight" "currentSalons editOpenedInFlight = [acme]"
  "headers editOpenedInFlight = hd acmeSheet"
  "lastDataState editOpenedInFlight = stringifyArray refRuntime (rowsValue acmeSheet)"
  "resultsContainer editOpenedInFlight = Cards [acmeCard acme False]"
  "favoritesHidden editOpenedInFlight"
  "searchInputValue editOpenedInFlight = []" "currentSortKey editOpenedInFlight = js ''none''"
  by (simp_all add: editOpenedInFlight_def setLoading_def loadedState_fields loadedState_view)

lemma isFavorited_explicit:
  "isFavorited rt salon =
     (truthy (getProp salon (js ''favorite''))
      \<and> toUpperCase rt (toStr rt (getProp salon (js ''favorite''))) = js ''TRUE'')"
proof -
  have "js ''FALSE'' \<noteq> js ''TRUE''" by (simp add: js_def)
  then show ?thesis by (simp add: isFavorited_def Let_def)
qed

lemma map_cardId_setButton: "map cardId (map (setButton i fav) cs) = map cardId cs"
  by (simp add: setButton_id)

lemma updateFavoriteButtons_ids:
  assumes "updateFavoriteButtons rt salon s = Inr s'"
  shows "map cardId (cardsOf (resultsContainer s')) = map cardId (cardsOf (resultsContainer s))"
    and "map cardId (cardsOf (favoritesList s')) = map cardId (cardsOf (favoritesList s))"
proof -
  from assms obtain i where i: "getSalonId rt salon = Inr i"
    by (cases "getSalonId rt salon") (simp_all add: updateFavoriteButtons_def)
  from assms have s': "s' = s\<lparr>resultsContainer := mapCards (setButton i (isFavorited rt salon)) (resultsContainer s),
             favoritesList := mapCards (setButton i (isFavorited rt salon)) (favoritesList s)\<rparr>"
    by (simp add: updateFavoriteButtons_Inr [OF i])
  show "map cardId (cardsOf (resultsContainer s')) = map cardId (cardsOf (resultsContainer s))"
    "map cardId (cardsOf (favoritesList s')) = map cardId (cardsOf (favoritesList s))"
    unfolding s' by (simp_all add: cardsOf_mapCards map_cardId_setButton del: map_map)
qed


lemma acmeFavorite_facts:
  "getProp acmeFavorite (js ''rowIndex'') \<noteq> JUndefined"
  "getSalonId refRuntime acmeFavorite = Inr (js ''QWNtZTEgTWFpbiBTdA=='')"
  "findIndex (\<lambda>h. toLowerCase refRuntime h = js ''favorite'') (hd acmeFavoriteSheet) = Some 2"
  "js ''Sheet1!'' @ 67 # toStr refRuntime (getProp acmeFavorite (js ''rowIndex'')) = js ''Sheet1!C2''"
  "isFavorited refRuntime acmeFavorite = True"
  "getProp acmeFavorite (js ''favorite'') = JString (js ''TRUE'')"
  "setProp (setProp acmeFavorite (js ''favorite'') (JString (js ''FALSE''))) (js ''favorite'')
     (JString (js ''TRUE'')) = acmeFavorite"
  "setProp (setProp acme (js ''favorite'') (JString (js ''TRUE''))) (js ''favorite'')
     (JString (js ''FALSE'')) = acme"
  "toUpperCase refRuntime (js ''TRUE'') = js ''TRUE''"
  "toUpperCase refRuntime (js ''FALSE'') \<noteq> js ''TRUE''"
  by code_simp+

lemma loadedFavoriteState_fields:
  "headers loadedFavoriteState = hd acmeFavoriteSheet"
  "currentSalons loadedFavoriteState = [acmeFavorite]"
  "sheetWrites loadedFavoriteState = []" "alerts loadedFavoriteState = []"
  "resultsContainer loadedFavoriteState = Cards [acmeCard acmeFavorite True]"
  "favoritesList loadedFavoriteState = NoContent"
proof -
  have n: "stringifyArray refRuntime (rowsValue acmeFavoriteSheet)
            \<noteq> lastDataState (setLoading True pollingState)"
    by (simp add: sent_fields pollingState_fields stringifyArray_nonempty)
  note f = loadData_resume_fields [OF sheet_lengths(2) n, folded loadedState_resume(2)]
  show c: "headers loadedFavoriteState = hd acmeFavoriteSheet"
    "currentSalons loadedFavoriteState = [acmeFavorite]"
    "sheetWrites loadedFavoriteState = []" "alerts loadedFavoriteState = []"
    "favoritesList loadedFavoriteState = NoContent"
    by (simp_all add: f sent_fields pollingState_fields makeSalons_examples)
  have "renderedView refRuntime loadedFavoriteState = Cards [acmeCard acmeFavorite True]"
    by (subst renderedView_plain [of _ acmeFavorite])
       (simp_all add: f(6,7) c sent_fields pollingState_fields acme_cards)
  then show "resultsContainer loadedFavoriteState = Cards [acmeCard acmeFavorite True]"
    by (simp add: f(14) sent_fields pollingState_fields)
qed

lemma single_button:
  assumes "list_all (\<lambda>c. cardId c = i \<longrightarrow> buttonFavorited c = fav \<and> buttonText c = txt) (cs @ ds)"
    and "map cardId cs = [i]"
  shows "map buttonFavorited cs = [fav]" "map buttonText cs = [txt]"
proof -
  from assms(2) obtain c where c: "cs = [c]" "cardId c = i" by auto
  with assms(1) show "map buttonFavorited cs = [fav]" "map buttonText cs = [txt]" by simp_all
qed



section \<open>Polling while an edit is open (C8)\<close>

text \<open>
  C8, as the code has it. \<^verbatim>\<open>loadData\<close> reads the editing flag once, before it sends the
  request. A poll cycle that starts while the flag is set returns at once: no request is
  sent and the whole state stays as it was, whatever the request would have answered. The
  flag is not read again after the \<^verbatim>\<open>await\<close>: when the answer of a request that was already
  sent arrives with at least two rows that differ from the last-seen serialization, the
  cycle replaces the records, the headers and the last-seen serialization and, while the
  favorites view is hidden, renders the results again, whether or not the flag is set by
  then; the flag itself is left as it is.
\<close>

theorem editing_suppresses_poll:
  "(isEditing s \<longrightarrow> loadData_begin s = None \<and> loadData rt r s = s)
   \<and> (loadData_begin s = None)
       = (isEditing s \<or> currentSpreadsheetId s = None \<or> currentSpreadsheetId s = Some [])
   \<and> (2 \<le> length data \<and> stringifyArray rt (rowsValue data) \<noteq> lastDataState s
        \<longrightarrow> currentSalons (loadData_resume rt (Values (Some data)) s) = makeSalons rt (hd data) (tl data)
            \<and> headers (loadData_resume rt (Values (Some data)) s) = hd data
            \<and> lastDataState (loadData_resume rt (Values (Some data)) s)
                = stringifyArray rt (rowsValue data)
            \<and> isEditing (loadData_resume rt (Values (Some data)) s) = isEditing s
            \<and> (favoritesHidden s
                 \<longrightarrow> resultsContainer (loadData_resume rt (Values (Some data)) s)
                     = (case visibleSalons rt (loadData_resume rt (Values (Some data)) s) of
                        Inl e \<Rightarrow>
                          ErrorBox (js ''An unexpected error occurred. Please check the console for more details.'')
                      | Inr salons \<Rightarrow>
                          if salons = [] then
                            (if trim (searchInputValue s) \<noteq> []
                             then Message (js ''No salons found matching \"''
                                           @ escapeHTML rt (JString (trim (searchInputValue s))) @ js ''\".'')
                             else Message (js ''No salons found.''))
                          else (case createSalonCards rt salons of
                                  Inl e \<Rightarrow>
                                    ErrorBox (js ''An unexpected error occurred. Please check the console for more details.'')
                                | Inr cards \<Rightarrow> Cards cards))))"
proof -
  have a: "isEditing s \<longrightarrow> loadData_begin s = None \<and> loadData rt r s = s"
    by (simp add: loadData_begin_def loadData_def)
  have g: "(loadData_begin s = None)
       = (isEditing s \<or> currentSpreadsheetId s = None \<or> currentSpreadsheetId s = Some [])"
    by (simp add: loadData_begin_def)
  have b: "2 \<le> length data \<and> stringifyArray rt (rowsValue data) \<noteq> lastDataState s
        \<longrightarrow> currentSalons (loadData_resume rt (Values (Some data)) s) = makeSalons rt (hd data) (tl data)
            \<and> headers (loadData_resume rt (Values (Some data)) s) = hd data
            \<and> lastDataState (loadData_resume rt (Values (Some data)) s)
                = stringifyArray rt (rowsValue data)
            \<and> isEditing (loadData_resume rt (Values (Some data)) s) = isEditing s
            \<and> (favoritesHidden s
                 \<longrightarrow> resultsContainer (loadData_resume rt (Values (Some data)) s)
                     = (case visibleSalons rt (loadData_resume rt (Values (Some data)) s) of
                        Inl e \<Rightarrow>
                          ErrorBox (js ''An unexpected error occurred. Please check the console for more details.'')
                      | Inr salons \<Rightarrow>
                          if salons = [] then
                            (if trim (searchInputValue s) \<noteq> []
                             then Message (js ''No salons found matching \"''
                                           @ escapeHTML rt (JString (trim (searchInputValue s))) @ js ''\".'')
                             else Message (js ''No salons found.''))
                          else (case createSalonCards rt salons of
                                  Inl e \<Rightarrow>
                                    ErrorBox (js ''An unexpected error occurred. Please check the console for more details.'')
                                | Inr cards \<Rightarrow> Cards cards)))"
  proof
    assume h: "2 \<le> length data \<and> stringifyArray rt (rowsValue data) \<noteq> lastDataState s"
    then have l: "2 \<le> length data" and n: "stringifyArray rt (rowsValue data) \<noteq> lastDataState s"
      by simp_all
    note f = loadData_resume_fields [OF l n]
    have v: "renderedView rt (loadData_resume rt (Values (Some data)) s)
               = (case visibleSalons rt (loadData_resume rt (Values (Some data)) s) of
                        Inl e \<Rightarrow>
                          ErrorBox (js ''An unexpected error occurred. Please check the console for more details.'')
                      | Inr salons \<Rightarrow>
                          if salons = [] then
                            (if trim (searchInputValue s) \<noteq> []
                             then Message (js ''No salons found matching \"''
                                           @ escapeHTML rt (JString (trim (searchInputValue s))) @ js ''\".'')
                             else Message (js ''No salons found.''))
                          else (case createSalonCards rt salons of
                                  Inl e \<Rightarrow>
                                    ErrorBox (js ''An unexpected error occurred. Please check the console for more details.'')
                                | Inr cards \<Rightarrow> Cards cards))"
      by (simp only: renderedView_explicit f(6))
    show "currentSalons (loadData_resume rt (Values (Some data)) s) = makeSalons rt (hd data) (tl data)
            \<and> headers (loadData_resume rt (Values (Some data)) s) = hd data
            \<and> lastDataState (loadData_resume rt (Values (Some data)) s)
                = stringifyArray rt (rowsValue data)
            \<and> isEditing (loadData_resume rt (Values (Some data)) s) = isEditing s
            \<and> (favoritesHidden s
                 \<longrightarrow> resultsContainer (loadData_resume rt (Values (Some data)) s)
                     = (case visibleSalons rt (loadData_resume rt (Values (Some data)) s) of
                        Inl e \<Rightarrow>
                          ErrorBox (js ''An unexpected error occurred. Please check the console for more details.'')
                      | Inr salons \<Rightarrow>
                          if salons = [] then
                            (if trim (searchInputValue s) \<noteq> []
                             then Message (js ''No salons found matching \"''
                                           @ escapeHTML rt (JString (trim (searchInputValue s))) @ js ''\".'')
                             else Message (js ''No salons found.''))
                          else (case createSalonCards rt salons of
                                  Inl e \<Rightarrow>
                                    ErrorBox (js ''An unexpected error occurred. Please check the console for more details.'')
                                | Inr cards \<Rightarrow> Cards cards)))"
      unfolding v [symmetric] using f(1,2,3,9,14) by simp
  qed
  from a g b show ?thesis by (intro conjI)
qed

theorem editing_suppresses_poll_witness:
  "isEditing editingState
   \<and> loadData_begin editingState = None
   \<and> loadData refRuntime (Values (Some acmeSheet)) editingState = editingState
   \<and> currentSalons (loadData refRuntime (Values (Some acmeSheet)) editingState) = []
   \<and> lastDataState (loadData refRuntime (Values (Some acmeSheet)) editingState) = []
   \<and> 2 \<le> length acmeFavoriteSheet
   \<and> stringifyArray refRuntime (rowsValue acmeFavoriteSheet) \<noteq> lastDataState editOpenedInFlight
   \<and> favoritesHidden editOpenedInFlight
   \<and> isEditing (loadData_resume refRuntime (Values (Some acmeFavoriteSheet)) editOpenedInFlight)
   \<and> currentSalons (loadData_resume refRuntime (Values (Some acmeFavoriteSheet)) editOpenedInFlight)
       = [acmeFavorite]
   \<and> headers (loadData_resume refRuntime (Values (Some acmeFavoriteSheet)) editOpenedInFlight)
       = [js ''Name'', js ''Address'', js ''Favorite'']
   \<and> resultsContainer (loadData_resume refRuntime (Values (Some acmeFavoriteSheet)) editOpenedInFlight)
       = Cards [acmeCard acmeFavorite True]"
proof -
  let ?s' = "loadData_resume refRuntime (Values (Some acmeFavoriteSheet)) editOpenedInFlight"
  have e: "isEditing editingState" by (simp add: editingState_def)
  have n: "stringifyArray refRuntime (rowsValue acmeFavoriteSheet) \<noteq> lastDataState editOpenedInFlight"
    by (simp add: editOpenedInFlight_fields sheets_differ)
  note t1 = editing_suppresses_poll [of editingState refRuntime "Values (Some acmeSheet)" acmeSheet,
      THEN conjunct1, rule_format, OF e]
  note t2 = editing_suppresses_poll [of editOpenedInFlight refRuntime "Values (Some acmeSheet)"
      acmeFavoriteSheet, THEN conjunct2, THEN conjunct2, rule_format, OF conjI, OF sheet_lengths(2) n]
  have h: "hd acmeFavoriteSheet = [js ''Name'', js ''Address'', js ''Favorite'']"
    by (simp add: acmeFavoriteSheet_def)
  from t1 have a: "loadData_begin editingState = None"
    "loadData refRuntime (Values (Some acmeSheet)) editingState = editingState" by simp_all
  have c: "currentSalons editingState = []" "lastDataState editingState = []"
    by (simp_all add: editingState_def pollingState_def initialState_def)
  from t2 have b: "currentSalons ?s' = [acmeFavorite]"
    "headers ?s' = [js ''Name'', js ''Address'', js ''Favorite'']"
    "isEditing ?s'"
    by (simp_all add: makeSalons_examples editOpenedInFlight_fields) (simp add: h)
  note f = loadData_resume_fields [OF sheet_lengths(2) n]
  have v: "visibleSalons refRuntime ?s' = Inr [acmeFavorite]"
    by (simp add: visibleSalons_plain f(6,7) editOpenedInFlight_fields b(1))
  from t2 have r: "resultsContainer ?s' = Cards [acmeCard acmeFavorite True]"
    by (simp add: editOpenedInFlight_fields v acme_cards)
  from e a c sheet_lengths(2) n editOpenedInFlight_fields(6) b r show ?thesis by simp
qed

text \<open>
  C8 as stated fails for a cycle whose request is under way when the edit is opened: the
  example sheet is loaded and shown, a cycle sends its request, the editing flag is set,
  and the answer has \<^verbatim>\<open>TRUE\<close> in the favorite cell. The cycle replaces the record and the
  last-seen serialization and renders the card again, with the flag set.
\<close>

theorem poll_in_flight_overwrites:
  "loadData_begin loadedState = Some (setLoading True loadedState)
   \<and> isEditing editOpenedInFlight
   \<and> currentSalons editOpenedInFlight = [acme]
   \<and> lastDataState editOpenedInFlight = stringifyArray refRuntime (rowsValue acmeSheet)
   \<and> resultsContainer editOpenedInFlight = Cards [acmeCard acme False]
   \<and> currentSalons (loadData_resume refRuntime (Values (Some acmeFavoriteSheet)) editOpenedInFlight)
       = [acmeFavorite]
   \<and> lastDataState (loadData_resume refRuntime (Values (Some acmeFavoriteSheet)) editOpenedInFlight)
       = stringifyArray refRuntime (rowsValue acmeFavoriteSheet)
   \<and> stringifyArray refRuntime (rowsValue acmeFavoriteSheet)
       \<noteq> stringifyArray refRuntime (rowsValue acmeSheet)
   \<and> resultsContainer (loadData_resume refRuntime (Values (Some acmeFavoriteSheet)) editOpenedInFlight)
       = Cards [acmeCard acmeFavorite True]
   \<and> acmeCard acmeFavorite True \<noteq> acmeCard acme False"
proof -
  let ?s' = "loadData_resume refRuntime (Values (Some acmeFavoriteSheet)) editOpenedInFlight"
  have g: "loadData_begin loadedState = Some (setLoading True loadedState)"
    by (simp add: loadData_begin_def loadedState_view) (simp add: js_def)
  have n: "stringifyArray refRuntime (rowsValue acmeFavoriteSheet) \<noteq> lastDataState editOpenedInFlight"
    by (simp add: editOpenedInFlight_fields sheets_differ)
  note f = loadData_resume_fields [OF sheet_lengths(2) n]
  have c: "currentSalons ?s' = [acmeFavorite]" by (simp add: f makeSalons_examples)
  have "renderedView refRuntime ?s' = Cards [acmeCard acmeFavorite True]"
    by (subst renderedView_plain [of _ acmeFavorite])
       (simp_all add: f(6,7) c editOpenedInFlight_fields acme_cards)
  then have v: "resultsContainer ?s' = Cards [acmeCard acmeFavorite True]"
    by (simp add: f(14) editOpenedInFlight_fields)
  have d: "acmeCard acmeFavorite True \<noteq> acmeCard acme False"
    by (simp add: acmeCard_def)
  from g editOpenedInFlight_fields c f(1) sheets_differ v d show ?thesis by simp
qed


section \<open>Change detection (C1)\<close>

text \<open>
  C1, as the code has it. Take a poll cycle that sends its request (no edit open, a sheet
  loaded) and gets at least two rows back. If the rows serialize to the last-seen
  serialization, the cycle changes nothing but the loader: the records, the headers and
  both containers stay as they are. If the serialization differs, the cycle stores it, takes
  the headers from the first row and recomputes the records from the other rows. While the
  favorites view is open it renders nothing: neither container is touched. While the
  favorites view is hidden it replaces the content of the results container by the
  rendering of the filtered and sorted new records: their cards; or the message for an
  empty list; or, when building the list or a card throws (\<^verbatim>\<open>btoa\<close> on a name or address
  with a code unit above U+00FF, a non-empty \<^verbatim>\<open>sources\<close> cell), the error message of the
  \<^verbatim>\<open>catch\<close> block in place of the results. A second cycle with the same rows changes nothing,
  so such an error message stays.
\<close>

theorem change_detection:
  assumes "loadData_begin s \<noteq> None" "2 \<le> length data"
  shows
    "(stringifyArray rt (rowsValue data) = lastDataState s \<longrightarrow>
        loadData rt (Values (Some data)) s = s\<lparr>loaderHidden := True\<rparr>)
     \<and> (stringifyArray rt (rowsValue data) \<noteq> lastDataState s \<longrightarrow>
          lastDataState (loadData rt (Values (Some data)) s) = stringifyArray rt (rowsValue data)
          \<and> headers (loadData rt (Values (Some data)) s) = hd data
          \<and> currentSalons (loadData rt (Values (Some data)) s) = makeSalons rt (hd data) (tl data)
          \<and> favoritesList (loadData rt (Values (Some data)) s) = favoritesList s
          \<and> resultsContainer (loadData rt (Values (Some data)) s) =
              (if \<not> favoritesHidden s then resultsContainer s
               else case visibleSalons rt (loadData rt (Values (Some data)) s) of
                 Inl e \<Rightarrow>
                   ErrorBox (js ''An unexpected error occurred. Please check the console for more details.'')
               | Inr salons \<Rightarrow>
                   if salons = [] then
                     (if trim (searchInputValue s) \<noteq> []
                      then Message (js ''No salons found matching \"''
                                    @ escapeHTML rt (JString (trim (searchInputValue s))) @ js ''\".'')
                      else Message (js ''No salons found.''))
                   else (case createSalonCards rt salons of
                           Inl e \<Rightarrow>
                             ErrorBox (js ''An unexpected error occurred. Please check the console for more details.'')
                         | Inr cards \<Rightarrow> Cards cards)))
     \<and> loadData rt (Values (Some data)) (loadData rt (Values (Some data)) s)
         = loadData rt (Values (Some data)) s"
proof -
  let ?ser = "stringifyArray rt (rowsValue data)"
  let ?s' = "loadData rt (Values (Some data)) s"
  have same: "?ser = lastDataState s \<Longrightarrow> ?s' = s\<lparr>loaderHidden := True\<rparr>"
    using assms by (rule loadData_unchanged)
  have r: "?s' = loadData_resume rt (Values (Some data)) (setLoading True s)"
    using assms(1) by (rule loadData_sent)
  have fields: "lastDataState ?s' = ?ser" "headers ?s' = hd data"
      "currentSalons ?s' = makeSalons rt (hd data) (tl data)"
      "favoritesList ?s' = favoritesList s"
      "resultsContainer ?s' = (if favoritesHidden s then renderedView rt ?s' else resultsContainer s)"
      "loaderHidden ?s'" "isEditing ?s' = isEditing s"
      "currentSpreadsheetId ?s' = currentSpreadsheetId s"
      "searchInputValue ?s' = searchInputValue s"
    if ne: "?ser \<noteq> lastDataState s"
  proof -
    have n: "?ser \<noteq> lastDataState (setLoading True s)" using ne by (simp add: sent_fields)
    note f = loadData_resume_fields [OF assms(2) n, folded r]
    show "lastDataState ?s' = ?ser" "headers ?s' = hd data"
      "currentSalons ?s' = makeSalons rt (hd data) (tl data)"
      "favoritesList ?s' = favoritesList s"
      "resultsContainer ?s' = (if favoritesHidden s then renderedView rt ?s' else resultsContainer s)"
      "loaderHidden ?s'" "isEditing ?s' = isEditing s"
      "currentSpreadsheetId ?s' = currentSpreadsheetId s"
      "searchInputValue ?s' = searchInputValue s"
      using f by (simp_all add: sent_fields)
  qed
  have idem: "loadData rt (Values (Some data)) ?s' = ?s'"
  proof (cases "?ser = lastDataState s")
    case True
    have b: "loadData_begin (s\<lparr>loaderHidden := True\<rparr>) \<noteq> None"
      using assms(1) unfolding loadData_begin_iff by simp
    have "loadData rt (Values (Some data)) (s\<lparr>loaderHidden := True\<rparr>) = s\<lparr>loaderHidden := True\<rparr>"
      using loadData_unchanged [OF b assms(2), of rt] True by simp
    with same [OF True] show ?thesis by simp
  next
    case False
    note f = fields [OF False]
    have b: "loadData_begin ?s' \<noteq> None"
      using f assms(1) by (intro loadData_begin_kept [of ?s' s]) simp_all
    have "loadData rt (Values (Some data)) ?s' = ?s'\<lparr>loaderHidden := True\<rparr>"
      using loadData_unchanged [OF b assms(2), of rt] f by simp
    moreover have "?s'\<lparr>loaderHidden := True\<rparr> = ?s'" using f by simp
    ultimately show ?thesis by simp
  qed
  have new: "?ser \<noteq> lastDataState s \<longrightarrow>
          lastDataState ?s' = ?ser \<and> headers ?s' = hd data
          \<and> currentSalons ?s' = makeSalons rt (hd data) (tl data)
          \<and> favoritesList ?s' = favoritesList s
          \<and> resultsContainer ?s' =
              (if \<not> favoritesHidden s then resultsContainer s
               else case visibleSalons rt ?s' of
                 Inl e \<Rightarrow>
                   ErrorBox (js ''An unexpected error occurred. Please check the console for more details.'')
               | Inr salons \<Rightarrow>
                   if salons = [] then
                     (if trim (searchInputValue s) \<noteq> []
                      then Message (js ''No salons found matching \"''
                                    @ escapeHTML rt (JString (trim (searchInputValue s))) @ js ''\".'')
                      else Message (js ''No salons found.''))
                   else (case createSalonCards rt salons of
                           Inl e \<Rightarrow>
                             ErrorBox (js ''An unexpected error occurred. Please check the console for more details.'')
                         | Inr cards \<Rightarrow> Cards cards))"
  proof
    assume ne: "?ser \<noteq> lastDataState s"
    note f = fields [OF ne]
    have v: "renderedView rt ?s' =
               (case visibleSalons rt ?s' of
                 Inl e \<Rightarrow>
                   ErrorBox (js ''An unexpected error occurred. Please check the console for more details.'')
               | Inr salons \<Rightarrow>
                   if salons = [] then
                     (if trim (searchInputValue s) \<noteq> []
                      then Message (js ''No salons found matching \"''
                                    @ escapeHTML rt (JString (trim (searchInputValue s))) @ js ''\".'')
                      else Message (js ''No salons found.''))
                   else (case createSalonCards rt salons of
                           Inl e \<Rightarrow>
                             ErrorBox (js ''An unexpected error occurred. Please check the console for more details.'')
                         | Inr cards \<Rightarrow> Cards cards))"
      by (simp only: renderedView_explicit f(9))
    show "lastDataState ?s' = ?ser \<and> headers ?s' = hd data
          \<and> currentSalons ?s' = makeSalons rt (hd data) (tl data)
          \<and> favoritesList ?s' = favoritesList s
          \<and> resultsContainer ?s' =
              (if \<not> favoritesHidden s then resultsContainer s
               else case visibleSalons rt ?s' of
                 Inl e \<Rightarrow>
                   ErrorBox (js ''An unexpected error occurred. Please check the console for more details.'')
               | Inr salons \<Rightarrow>
                   if salons = [] then
                     (if trim (searchInputValue s) \<noteq> []
                      then Message (js ''No salons found matching \"''
                                    @ escapeHTML rt (JString (trim (searchInputValue s))) @ js ''\".'')
                      else Message (js ''No salons found.''))
                   else (case createSalonCards rt salons of
                           Inl e \<Rightarrow>
                             ErrorBox (js ''An unexpected error occurred. Please check the console for more details.'')
                         | Inr cards \<Rightarrow> Cards cards))"
      unfolding v [symmetric] using f(1-5) by simp
  qed
  from same new idem show ?thesis by blast
qed

theorem change_detection_witness:
  "loadData_begin pollingState \<noteq> None \<and> 2 \<le> length acmeSheet
   \<and> stringifyArray refRuntime (rowsValue acmeSheet) \<noteq> lastDataState pollingState
   \<and> favoritesHidden pollingState
   \<and> currentSalons (loadData refRuntime (Values (Some acmeSheet)) pollingState) = [acme]
   \<and> headers (loadData refRuntime (Values (Some acmeSheet)) pollingState)
       = [js ''Name'', js ''Address'', js ''Favorite'']
   \<and> resultsContainer (loadData refRuntime (Values (Some acmeSheet)) pollingState)
       = Cards [acmeCard acme False]
   \<and> loadData refRuntime (Values (Some acmeSheet))
         (loadData refRuntime (Values (Some acmeSheet)) pollingState)
       = loadData refRuntime (Values (Some acmeSheet)) pollingState
   \<and> loadData_begin loadedState \<noteq> None
   \<and> stringifyArray refRuntime (rowsValue acmeSheet) = lastDataState loadedState
   \<and> loadData refRuntime (Values (Some acmeSheet)) loadedState = loadedState\<lparr>loaderHidden := True\<rparr>
   \<and> 2 \<le> length zhongwenSheet
   \<and> stringifyArray refRuntime (rowsValue zhongwenSheet) \<noteq> lastDataState pollingState
   \<and> currentSalons (loadData refRuntime (Values (Some zhongwenSheet)) pollingState) = [zhongwenRow]
   \<and> resultsContainer (loadData refRuntime (Values (Some zhongwenSheet)) pollingState)
       = ErrorBox (js ''An unexpected error occurred. Please check the console for more details.'')"
proof -
  let ?z = "loadData refRuntime (Values (Some zhongwenSheet)) pollingState"
  note b = pollingState_fields(1)
  have n: "stringifyArray refRuntime (rowsValue acmeSheet) \<noteq> lastDataState pollingState"
    "stringifyArray refRuntime (rowsValue zhongwenSheet) \<noteq> lastDataState pollingState"
    by (simp_all add: pollingState_fields stringifyArray_nonempty)
  have bl: "loadData_begin loadedState \<noteq> None"
    unfolding loadData_begin_iff by (simp add: loadedState_view) (simp add: js_def)
  note t1 = change_detection [OF b sheet_lengths(1), of refRuntime, folded loadedState_def]
  note t2 = change_detection [OF bl sheet_lengths(1), of refRuntime]
  note t3 = change_detection [OF b sheet_lengths(3), of refRuntime]
  have v1: "visibleSalons refRuntime loadedState = Inr [acme]"
    by (simp add: visibleSalons_plain loadedState_view loadedState_fields)
  from t1 n(1) have a1: "currentSalons loadedState = [acme]"
    "headers loadedState = [js ''Name'', js ''Address'', js ''Favorite'']"
    "resultsContainer loadedState = Cards [acmeCard acme False]"
    "loadData refRuntime (Values (Some acmeSheet)) loadedState = loadedState"
    by (simp_all add: makeSalons_acme pollingState_fields v1 acme_cards) (simp add: acmeSheet_def)
  from t2 have a2: "loadData refRuntime (Values (Some acmeSheet)) loadedState = loadedState\<lparr>loaderHidden := True\<rparr>"
    by (simp add: loadedState_view)
  from t3 n(2) have z: "currentSalons ?z = [zhongwenRow]"
    by (simp add: makeSalons_examples)
  have zr: "?z = loadData_resume refRuntime (Values (Some zhongwenSheet)) (setLoading True pollingState)"
    by (simp add: loadData_sent pollingState_fields)
  have zn: "stringifyArray refRuntime (rowsValue zhongwenSheet) \<noteq> lastDataState (setLoading True pollingState)"
    by (simp add: sent_fields n)
  note zf = loadData_resume_fields [OF sheet_lengths(3) zn, folded zr]
  have v3: "visibleSalons refRuntime ?z = Inr [zhongwenRow]"
    by (simp add: visibleSalons_plain zf(6,7) sent_fields pollingState_fields z)
  from t3 n(2) have a3: "resultsContainer ?z
       = ErrorBox (js ''An unexpected error occurred. Please check the console for more details.'')"
    by (simp add: pollingState_fields v3 acme_cards)
  from b sheet_lengths n pollingState_fields(5) a1 [unfolded loadedState_def] bl
    loadedState_view(2) a2 z a3
  show ?thesis by (simp add: loadedState_def)
qed


text \<open>
  C1 as stated fails for two consecutive answered polls while the favorites view is open:
  the first brings the example sheet, the second the same sheet with \<^verbatim>\<open>TRUE\<close> in the favorite
  cell. The second serialization differs from the last-seen one and the record is
  recomputed, but nothing is rendered: the results container stays empty and the favorites
  list keeps saying that nothing was saved.
\<close>

theorem change_without_rerender:
  "favoritesOpenLoaded = loadData refRuntime (Values (Some acmeSheet)) favoritesOpenState
   \<and> lastDataState favoritesOpenLoaded = stringifyArray refRuntime (rowsValue acmeSheet)
   \<and> currentSalons favoritesOpenLoaded = [acme]
   \<and> resultsContainer favoritesOpenLoaded = NoContent
   \<and> favoritesList favoritesOpenLoaded = Message (js ''You haven't saved any favorite salons yet.'')
   \<and> loadData_begin favoritesOpenLoaded \<noteq> None
   \<and> 2 \<le> length acmeFavoriteSheet
   \<and> stringifyArray refRuntime (rowsValue acmeFavoriteSheet) \<noteq> lastDataState favoritesOpenLoaded
   \<and> currentSalons (loadData refRuntime (Values (Some acmeFavoriteSheet)) favoritesOpenLoaded)
       = [acmeFavorite]
   \<and> lastDataState (loadData refRuntime (Values (Some acmeFavoriteSheet)) favoritesOpenLoaded)
       = stringifyArray refRuntime (rowsValue acmeFavoriteSheet)
   \<and> resultsContainer (loadData refRuntime (Values (Some acmeFavoriteSheet)) favoritesOpenLoaded)
       = NoContent
   \<and> favoritesList (loadData refRuntime (Values (Some acmeFavoriteSheet)) favoritesOpenLoaded)
       = Message (js ''You haven't saved any favorite salons yet.'')"
proof -
  let ?s' = "loadData refRuntime (Values (Some acmeFavoriteSheet)) favoritesOpenLoaded"
  have b: "loadData_begin favoritesOpenLoaded \<noteq> None"
    unfolding loadData_begin_iff by (simp add: favoritesOpenLoaded_fields) (simp add: js_def)
  have n: "stringifyArray refRuntime (rowsValue acmeFavoriteSheet) \<noteq> lastDataState favoritesOpenLoaded"
    by (simp add: favoritesOpenLoaded_fields sheets_differ)
  have r: "?s' = loadData_resume refRuntime (Values (Some acmeFavoriteSheet)) (setLoading True favoritesOpenLoaded)"
    using b by (rule loadData_sent)
  have n': "stringifyArray refRuntime (rowsValue acmeFavoriteSheet)
             \<noteq> lastDataState (setLoading True favoritesOpenLoaded)"
    using n by (simp add: sent_fields)
  note f = loadData_resume_fields [OF sheet_lengths(2) n', folded r]
  have c: "currentSalons ?s' = [acmeFavorite]"
    "lastDataState ?s' = stringifyArray refRuntime (rowsValue acmeFavoriteSheet)"
    "resultsContainer ?s' = NoContent"
    "favoritesList ?s' = Message (js ''You haven't saved any favorite salons yet.'')"
    by (simp_all add: f sent_fields favoritesOpenLoaded_fields makeSalons_examples)
  from favoritesOpenLoaded_def favoritesOpenLoaded_fields b sheet_lengths(2) n c
  show ?thesis by simp
qed


section \<open>Rollback of a failed favorite write (C2)\<close>

text \<open>
  C2. Let a click on the favorite button of a sheet-backed record send its write, and let
  that write be rejected with any error, in whatever state the page is by then. The
  rejection handler returns normally. Afterwards the record's favorite field is what it was
  before the click. Every favorite button of the document that carries the record's
  identifier shows that value: it is marked as favorited and reads \<^verbatim>\<open>Unfavorite\<close> exactly when
  the field before the click was truthy and upper-cases to \<^verbatim>\<open>TRUE\<close>, and reads \<^verbatim>\<open>Favorite\<close>
  otherwise; no card is added or removed. One alert has been raised, made of
  \<^verbatim>\<open>Failed to update favorite status:\<close> and the sentence for the class of the error: one
  sentence each for the statuses \<^verbatim>\<open>NOT_FOUND\<close>, \<^verbatim>\<open>PERMISSION_DENIED\<close> and \<^verbatim>\<open>RESOURCE_EXHAUSTED\<close>,
  the backend's own message for any other status (a fixed sentence when it has none), and a
  fixed sentence for an error that does not come from the backend. The record set and the
  writes sent are untouched by the handler.
\<close>

theorem favorite_rollback:
  assumes "toggleFavorite rt salon s = (WriteSent cellRange vals orig, salon1, s1)"
  shows "\<exists>s2 i. toggleFavorite_settled rt (Some err) orig salon1 s'
               = (None, setProp salon1 (js ''favorite'') (getProp salon (js ''favorite'')), s2)
           \<and> getProp (setProp salon1 (js ''favorite'') (getProp salon (js ''favorite''))) (js ''favorite'')
               = getProp salon (js ''favorite'')
           \<and> getSalonId rt salon = Inr i
           \<and> list_all
                (\<lambda>c. cardId c = i \<longrightarrow>
                   buttonFavorited c
                     = (truthy (getProp salon (js ''favorite''))
                        \<and> toUpperCase rt (toStr rt (getProp salon (js ''favorite''))) = js ''TRUE'')
                   \<and> buttonText c
                     = (if truthy (getProp salon (js ''favorite''))
                           \<and> toUpperCase rt (toStr rt (getProp salon (js ''favorite''))) = js ''TRUE''
                        then js ''Unfavorite'' else js ''Favorite''))
                (cardsOf (resultsContainer s2) @ cardsOf (favoritesList s2))
           \<and> map cardId (cardsOf (resultsContainer s2)) = map cardId (cardsOf (resultsContainer s'))
           \<and> map cardId (cardsOf (favoritesList s2)) = map cardId (cardsOf (favoritesList s'))
           \<and> alerts s2 = alerts s' @
               [js ''Failed to update favorite status: '' @
                (case err of
                   GapiError status message \<Rightarrow>
                     if status = js ''NOT_FOUND'' then
                       js ''The Google Sheet could not be found. Please check the URL or ID and make sure it's correct.''
                     else if status = js ''PERMISSION_DENIED'' then
                       js ''You do not have permission to access this Google Sheet. Please check the sheet's sharing settings and ensure you are signed in with the correct Google account.''
                     else if status = js ''RESOURCE_EXHAUSTED'' then
                       js ''The app has made too many requests to Google Sheets. Please wait a moment and try again later.''
                     else if message \<noteq> [] then message
                     else js ''An unknown error occurred while communicating with Google Sheets.''
                 | _ \<Rightarrow> js ''An unexpected error occurred. Please check the console for more details.'')]
           \<and> currentSalons s2 = currentSalons s' \<and> sheetWrites s2 = sheetWrites s'"
proof -
  note w = toggleFavorite_WriteSent [OF assms]
  let ?reverted = "setProp salon1 (js ''favorite'') (getProp salon (js ''favorite''))"
  let ?sa = "alert (js ''Failed to update favorite status: '' @ parseGapiError err) s'"
  from w(4) obtain i where i: "getSalonId rt salon = Inr i" by blast
  have id: "getSalonId rt ?reverted = Inr i" by (simp add: w(3) getSalonId_setFavorite i)
  have f: "getProp ?reverted (js ''favorite'') = getProp salon (js ''favorite'')"
    by (simp add: getProp_setFavorite)
  obtain s2 where u: "updateFavoriteButtons rt ?reverted ?sa = Inr s2"
    using updateFavoriteButtons_Inr [OF id] by blast
  have c: "toggleFavorite_settled rt (Some err) orig salon1 s' = (None, ?reverted, s2)"
    using u by (simp add: toggleFavorite_settled_def toggleFavorite_catch_def Let_def w(2))
  have "buttonsShow rt salon s2"
    using updateFavoriteButtons_shows [OF u] buttonsShow_same [OF f, of rt s2] id i by simp
  then have b: "list_all
                (\<lambda>c. cardId c = i \<longrightarrow>
                   buttonFavorited c
                     = (truthy (getProp salon (js ''favorite''))
                        \<and> toUpperCase rt (toStr rt (getProp salon (js ''favorite''))) = js ''TRUE'')
                   \<and> buttonText c
                     = (if truthy (getProp salon (js ''favorite''))
                           \<and> toUpperCase rt (toStr rt (getProp salon (js ''favorite''))) = js ''TRUE''
                        then js ''Unfavorite'' else js ''Favorite''))
                (cardsOf (resultsContainer s2) @ cardsOf (favoritesList s2))"
    unfolding buttonsShow_def buttonShows_def i isFavorited_explicit
    by (auto simp: list_all_iff)
  have ids: "map cardId (cardsOf (resultsContainer s2)) = map cardId (cardsOf (resultsContainer s'))"
    "map cardId (cardsOf (favoritesList s2)) = map cardId (cardsOf (favoritesList s'))"
    using updateFavoriteButtons_ids [OF u] by (simp_all add: alert_def)
  have k: "alerts s2 = alerts s' @ [js ''Failed to update favorite status: '' @ parseGapiError err]"
    "currentSalons s2 = currentSalons s'" "sheetWrites s2 = sheetWrites s'"
    using updateFavoriteButtons_keeps [OF u] by (simp_all add: alert_def)
  note k1 = k(1) [unfolded parseGapiError_def]
  from c f i b ids k1 k(2,3) show ?thesis by blast
qed

theorem favorite_rollback_witness:
  "fst (toggleFavorite refRuntime acme loadedState)
     = WriteSent (js ''Sheet1!C2'') [[JString (js ''TRUE'')]] (JString (js ''FALSE''))
   \<and> map buttonText
        (cardsOf (resultsContainer (snd (snd (toggleFavorite refRuntime acme loadedState)))))
       = [js ''Unfavorite'']
   \<and> (\<exists>s2. toggleFavorite_settled refRuntime (Some (GapiError (js ''PERMISSION_DENIED'') []))
               (JString (js ''FALSE''))
               (fst (snd (toggleFavorite refRuntime acme loadedState)))
               (snd (snd (toggleFavorite refRuntime acme loadedState)))
             = (None, acme, s2)
          \<and> map cardId (cardsOf (resultsContainer s2)) = [js ''QWNtZTEgTWFpbiBTdA=='']
          \<and> map buttonText (cardsOf (resultsContainer s2)) = [js ''Favorite'']
          \<and> map buttonFavorited (cardsOf (resultsContainer s2)) = [False]
          \<and> alerts s2 =
              [js ''Failed to update favorite status: '' @
               js ''You do not have permission to access this Google Sheet. Please check the sheet's sharing settings and ensure you are signed in with the correct Google account.'']
          \<and> sheetWrites s2 = [(js ''Sheet1!C2'', [[JString (js ''TRUE'')]])])
   \<and> fst (toggleFavorite refRuntime acmeFavorite loadedFavoriteState)
     = WriteSent (js ''Sheet1!C2'') [[JString (js ''FALSE'')]] (JString (js ''TRUE''))
   \<and> map buttonText
        (cardsOf (resultsContainer (snd (snd (toggleFavorite refRuntime acmeFavorite loadedFavoriteState)))))
       = [js ''Favorite'']
   \<and> (\<exists>s2. toggleFavorite_settled refRuntime (Some OtherError) (JString (js ''TRUE''))
               (fst (snd (toggleFavorite refRuntime acmeFavorite loadedFavoriteState)))
               (snd (snd (toggleFavorite refRuntime acmeFavorite loadedFavoriteState)))
             = (None, acmeFavorite, s2)
          \<and> map cardId (cardsOf (resultsContainer s2)) = [js ''QWNtZTEgTWFpbiBTdA=='']
          \<and> map buttonText (cardsOf (resultsContainer s2)) = [js ''Unfavorite'']
          \<and> map buttonFavorited (cardsOf (resultsContainer s2)) = [True]
          \<and> alerts s2 =
              [js ''Failed to update favorite status: '' @
               js ''An unexpected error occurred. Please check the console for more details.'']
          \<and> sheetWrites s2 = [(js ''Sheet1!C2'', [[JString (js ''FALSE'')]])])"
proof -
  let ?id = "js ''QWNtZTEgTWFpbiBTdA==''"
  have fl: "flag True = JString (js ''TRUE'')" "flag False = JString (js ''FALSE'')"
    by (simp_all add: flag_def)
  have tr: "js ''TRUE'' \<noteq> []" "js ''FALSE'' \<noteq> []"
    by (simp_all add: js_def)
  have pd: "js ''PERMISSION_DENIED'' \<noteq> js ''NOT_FOUND''" by (simp add: js_def)

  \<comment> \<open>the record whose favorite cell is FALSE\<close>
  let ?t = "toggleFavorite refRuntime acme loadedState"
  have h: "findIndex (\<lambda>h. toLowerCase refRuntime h = js ''favorite'') (headers loadedState) = Some 2"
    by (simp add: loadedState_fields acme_facts)
  note t = toggleFavorite_sends [OF acme_facts(1) acme_facts(2) h]
  from t have o: "fst ?t = WriteSent (js ''Sheet1!C2'') [[JString (js ''TRUE'')]] (JString (js ''FALSE''))"
    by (simp add: acme_facts fl)
  from t have s1: "fst (snd ?t) = setProp acme (js ''favorite'') (JString (js ''TRUE''))"
    by (simp add: acme_facts fl)
  from t have w: "sheetWrites (snd (snd ?t)) = [(js ''Sheet1!C2'', [[JString (js ''TRUE'')]])]"
    "alerts (snd (snd ?t)) = []"
    by (simp_all add: acme_facts fl updateSheetData_def loadedState_fields)
  from t have v: "resultsContainer (snd (snd ?t))
      = Cards [setButton ?id (isFavorited refRuntime (setProp acme (js ''favorite'') (flag True)))
                 (acmeCard acme False)]"
    by (simp add: acme_facts updateSheetData_def loadedState_view)
  have ids: "map cardId (cardsOf (resultsContainer (snd (snd ?t)))) = [?id]"
    by (simp add: v setButton_id) (simp add: acmeCard_def)
  have opt: "map buttonText (cardsOf (resultsContainer (snd (snd ?t)))) = [js ''Unfavorite'']"
    unfolding v fl
    by (simp add: isFavorited_flag [OF ref_upperFixesFlags, of acme True, simplified]
                  setButton_def acmeCard_def)
  have e: "?t = (WriteSent (js ''Sheet1!C2'') [[JString (js ''TRUE'')]] (JString (js ''FALSE'')),
                 fst (snd ?t), snd (snd ?t))"
    using o by (metis prod.collapse)
  from favorite_rollback [OF e, of "GapiError (js ''PERMISSION_DENIED'') []" "snd (snd ?t)"]
  obtain s2 i where r: "toggleFavorite_settled refRuntime (Some (GapiError (js ''PERMISSION_DENIED'') []))
               (JString (js ''FALSE'')) (fst (snd ?t)) (snd (snd ?t))
             = (None, setProp (fst (snd ?t)) (js ''favorite'') (getProp acme (js ''favorite'')), s2)"
    "getSalonId refRuntime acme = Inr i"
    "list_all
       (\<lambda>c. cardId c = i \<longrightarrow>
          buttonFavorited c
            = (truthy (getProp acme (js ''favorite''))
               \<and> toUpperCase refRuntime (toStr refRuntime (getProp acme (js ''favorite''))) = js ''TRUE'')
          \<and> buttonText c
            = (if truthy (getProp acme (js ''favorite''))
                  \<and> toUpperCase refRuntime (toStr refRuntime (getProp acme (js ''favorite''))) = js ''TRUE''
               then js ''Unfavorite'' else js ''Favorite''))
       (cardsOf (resultsContainer s2) @ cardsOf (favoritesList s2))"
    "map cardId (cardsOf (resultsContainer s2)) = map cardId (cardsOf (resultsContainer (snd (snd ?t))))"
    "alerts s2 = alerts (snd (snd ?t)) @
       [js ''Failed to update favorite status: '' @
        (case GapiError (js ''PERMISSION_DENIED'') [] of
           GapiError status message \<Rightarrow>
             if status = js ''NOT_FOUND'' then
               js ''The Google Sheet could not be found. Please check the URL or ID and make sure it's correct.''
             else if status = js ''PERMISSION_DENIED'' then
               js ''You do not have permission to access this Google Sheet. Please check the sheet's sharing settings and ensure you are signed in with the correct Google account.''
             else if status = js ''RESOURCE_EXHAUSTED'' then
               js ''The app has made too many requests to Google Sheets. Please wait a moment and try again later.''
             else if message \<noteq> [] then message
             else js ''An unknown error occurred while communicating with Google Sheets.''
         | _ \<Rightarrow> js ''An unexpected error occurred. Please check the console for more details.'')]"
    "sheetWrites s2 = sheetWrites (snd (snd ?t))"
    by blast
  from r(2) have i: "i = ?id" by (simp add: acme_facts)
  from r(1) have r1: "toggleFavorite_settled refRuntime (Some (GapiError (js ''PERMISSION_DENIED'') []))
               (JString (js ''FALSE'')) (fst (snd ?t)) (snd (snd ?t)) = (None, acme, s2)"
    by (simp only: s1 acme_facts(6) acmeFavorite_facts(8))
  from r(4) have r4: "map cardId (cardsOf (resultsContainer s2)) = [?id]" by (simp only: ids)
  from r(3) have r3: "list_all (\<lambda>c. cardId c = ?id \<longrightarrow>
        buttonFavorited c = False \<and> buttonText c = js ''Favorite'')
       (cardsOf (resultsContainer s2) @ cardsOf (favoritesList s2))"
    by (simp add: i acme_facts(6) tr acmeFavorite_facts(10))
  note sb = single_button [OF r3 r4]
  from r(5) w have r5: "alerts s2 =
              [js ''Failed to update favorite status: '' @
               js ''You do not have permission to access this Google Sheet. Please check the sheet's sharing settings and ensure you are signed in with the correct Google account.'']"
    by (simp add: pd)
  from r(6) w have r6: "sheetWrites s2 = [(js ''Sheet1!C2'', [[JString (js ''TRUE'')]])]" by simp
  have first: "\<exists>s2. toggleFavorite_settled refRuntime (Some (GapiError (js ''PERMISSION_DENIED'') []))
               (JString (js ''FALSE'')) (fst (snd ?t)) (snd (snd ?t)) = (None, acme, s2)
          \<and> map cardId (cardsOf (resultsContainer s2)) = [?id]
          \<and> map buttonText (cardsOf (resultsContainer s2)) = [js ''Favorite'']
          \<and> map buttonFavorited (cardsOf (resultsContainer s2)) = [False]
          \<and> alerts s2 =
              [js ''Failed to update favorite status: '' @
               js ''You do not have permission to access this Google Sheet. Please check the sheet's sharing settings and ensure you are signed in with the correct Google account.'']
          \<and> sheetWrites s2 = [(js ''Sheet1!C2'', [[JString (js ''TRUE'')]])]"
    by (rule exI [of _ s2]) (simp only: r1 r4 sb r5 r6 simp_thms)

  \<comment> \<open>the record whose favorite cell is TRUE\<close>
  let ?u = "toggleFavorite refRuntime acmeFavorite loadedFavoriteState"
  have h': "findIndex (\<lambda>h. toLowerCase refRuntime h = js ''favorite'') (headers loadedFavoriteState) = Some 2"
    by (simp add: loadedFavoriteState_fields acmeFavorite_facts)
  note t' = toggleFavorite_sends [OF acmeFavorite_facts(1) acmeFavorite_facts(2) h']
  from t' have o': "fst ?u = WriteSent (js ''Sheet1!C2'') [[JString (js ''FALSE'')]] (JString (js ''TRUE''))"
    by (simp add: acmeFavorite_facts fl)
  from t' have s1': "fst (snd ?u) = setProp acmeFavorite (js ''favorite'') (JString (js ''FALSE''))"
    by (simp add: acmeFavorite_facts fl)
  from t' have w': "sheetWrites (snd (snd ?u)) = [(js ''Sheet1!C2'', [[JString (js ''FALSE'')]])]"
    "alerts (snd (snd ?u)) = []"
    by (simp_all add: acmeFavorite_facts fl updateSheetData_def loadedFavoriteState_fields)
  from t' have v': "resultsContainer (snd (snd ?u))
      = Cards [setButton ?id (isFavorited refRuntime (setProp acmeFavorite (js ''favorite'') (flag False)))
                 (acmeCard acmeFavorite True)]"
    by (simp add: acmeFavorite_facts updateSheetData_def loadedFavoriteState_fields)
  have ids': "map cardId (cardsOf (resultsContainer (snd (snd ?u)))) = [?id]"
    by (simp add: v' setButton_id) (simp add: acmeCard_def)
  have opt': "map buttonText (cardsOf (resultsContainer (snd (snd ?u)))) = [js ''Favorite'']"
    unfolding v' fl
    by (simp add: isFavorited_flag [OF ref_upperFixesFlags, of acmeFavorite False, simplified]
                  setButton_def acmeCard_def)
  have e': "?u = (WriteSent (js ''Sheet1!C2'') [[JString (js ''FALSE'')]] (JString (js ''TRUE'')),
                 fst (snd ?u), snd (snd ?u))"
    using o' by (metis prod.collapse)
  from favorite_rollback [OF e', of OtherError "snd (snd ?u)"]
  obtain s3 j where q: "toggleFavorite_settled refRuntime (Some OtherError)
               (JString (js ''TRUE'')) (fst (snd ?u)) (snd (snd ?u))
             = (None, setProp (fst (snd ?u)) (js ''favorite'') (getProp acmeFavorite (js ''favorite'')), s3)"
    "getSalonId refRuntime acmeFavorite = Inr j"
    "list_all
       (\<lambda>c. cardId c = j \<longrightarrow>
          buttonFavorited c
            = (truthy (getProp acmeFavorite (js ''favorite''))
               \<and> toUpperCase refRuntime (toStr refRuntime (getProp acmeFavorite (js ''favorite''))) = js ''TRUE'')
          \<and> buttonText c
            = (if truthy (getProp acmeFavorite (js ''favorite''))
                  \<and> toUpperCase refRuntime (toStr refRuntime (getProp acmeFavorite (js ''favorite''))) = js ''TRUE''
               then js ''Unfavorite'' else js ''Favorite''))
       (cardsOf (resultsContainer s3) @ cardsOf (favoritesList s3))"
    "map cardId (cardsOf (resultsContainer s3)) = map cardId (cardsOf (resultsContainer (snd (snd ?u))))"
    "alerts s3 = alerts (snd (snd ?u)) @
       [js ''Failed to update favorite status: '' @
        (case OtherError of
           GapiError status message \<Rightarrow>
             if status = js ''NOT_FOUND'' then
               js ''The Google Sheet could not be found. Please check the URL or ID and make sure it's correct.''
             else if status = js ''PERMISSION_DENIED'' then
               js ''You do not have permission to access this Google Sheet. Please check the sheet's sharing settings and ensure you are signed in with the correct Google account.''
             else if status = js ''RESOURCE_EXHAUSTED'' then
               js ''The app has made too many requests to Google Sheets. Please wait a moment and try again later.''
             else if message \<noteq> [] then message
             else js ''An unknown error occurred while communicating with Google Sheets.''
         | _ \<Rightarrow> js ''An unexpected error occurred. Please check the console for more details.'')]"
    "sheetWrites s3 = sheetWrites (snd (snd ?u))"
    by blast
  from q(2) have j: "j = ?id" by (simp add: acmeFavorite_facts)
  from q(1) have q1: "toggleFavorite_settled refRuntime (Some OtherError)
               (JString (js ''TRUE'')) (fst (snd ?u)) (snd (snd ?u)) = (None, acmeFavorite, s3)"
    by (simp only: s1' acmeFavorite_facts(6) acmeFavorite_facts(7))
  from q(4) have q4: "map cardId (cardsOf (resultsContainer s3)) = [?id]" by (simp only: ids')
  from q(3) have q3: "list_all (\<lambda>c. cardId c = ?id \<longrightarrow>
        buttonFavorited c = True \<and> buttonText c = js ''Unfavorite'')
       (cardsOf (resultsContainer s3) @ cardsOf (favoritesList s3))"
    by (simp add: j acmeFavorite_facts(6) tr acmeFavorite_facts(9))
  note sb' = single_button [OF q3 q4]
  from q(5) w' have q5: "alerts s3 =
              [js ''Failed to update favorite status: '' @
               js ''An unexpected error occurred. Please check the console for more details.'']"
    by simp
  from q(6) w' have q6: "sheetWrites s3 = [(js ''Sheet1!C2'', [[JString (js ''FALSE'')]])]" by simp
  have second: "\<exists>s2. toggleFavorite_settled refRuntime (Some OtherError)
               (JString (js ''TRUE'')) (fst (snd ?u)) (snd (snd ?u)) = (None, acmeFavorite, s2)
          \<and> map cardId (cardsOf (resultsContainer s2)) = [?id]
          \<and> map buttonText (cardsOf (resultsContainer s2)) = [js ''Unfavorite'']
          \<and> map buttonFavorited (cardsOf (resultsContainer s2)) = [True]
          \<and> alerts s2 =
              [js ''Failed to update favorite status: '' @
               js ''An unexpected error occurred. Please check the console for more details.'']
          \<and> sheetWrites s2 = [(js ''Sheet1!C2'', [[JString (js ''FALSE'')]])]"
    by (rule exI [of _ s3]) (simp only: q1 q4 sb' q5 q6 simp_thms)
  show ?thesis by (intro conjI o opt first o' opt' second)
qed


section \<open>Two favorite toggles in a row (C7)\<close>

lemma toggleFavorite_hidden:
  "favoritesHidden (snd (snd (toggleFavorite rt salon s))) = favoritesHidden s"
  by (simp add: toggleFavorite_def Let_def alert_def updateSheetData_def updateFavoriteButtons_def
           split: sum.splits option.splits)

lemma toggleFavorite_catch_hidden:
  "favoritesHidden (snd (snd (toggleFavorite_catch rt err orig salon s))) = favoritesHidden s"
  by (simp add: toggleFavorite_catch_def Let_def alert_def updateFavoriteButtons_def
           split: sum.splits)

lemma toggleFavorite_settled_hidden:
  "favoritesHidden (snd (snd (toggleFavorite_settled rt w orig salon s))) = favoritesHidden s"
proof (cases w)
  case (Some err)
  then show ?thesis by (simp add: toggleFavorite_settled_def toggleFavorite_catch_hidden)
next
  case None
  obtain thrown s1 where t: "toggleFavorite_then rt salon s = (thrown, s1)"
    by (cases "toggleFavorite_then rt salon s")
  then have "favoritesHidden s1 = favoritesHidden s"
    using toggleFavorite_then_keeps(3) [of rt salon s] by simp
  with None t show ?thesis
    by (cases thrown) (simp_all add: toggleFavorite_settled_def toggleFavorite_catch_hidden)
qed

lemma toggleAndSettle_hidden:
  "favoritesHidden (snd (toggleAndSettle rt w salon s)) = favoritesHidden s"
proof -
  obtain outcome salon1 s1 where t: "toggleFavorite rt salon s = (outcome, salon1, s1)"
    by (cases "toggleFavorite rt salon s") auto
  then have "favoritesHidden s1 = favoritesHidden s"
    using toggleFavorite_hidden [of rt salon s] by simp
  with t show ?thesis
    by (cases outcome) (simp_all add: toggleAndSettle_def toggleFavorite_settled_hidden)
qed

lemma handlerCompletes_hidden:
  assumes "favoritesHidden s"
  shows "handlerCompletes rt salon s"
proof -
  obtain outcome salon1 s1 where t: "toggleFavorite rt salon s = (outcome, salon1, s1)"
    by (cases "toggleFavorite rt salon s") auto
  show ?thesis
  proof (cases outcome)
    case (WriteSent cellRange vals orig)
    note w = toggleFavorite_WriteSent [OF t [unfolded WriteSent]]
    from w(4) obtain i where "getSalonId rt salon = Inr i" by blast
    then have i: "getSalonId rt salon1 = Inr i" by (simp add: w(3) getSalonId_setFavorite)
    have "favoritesHidden s1" using toggleFavorite_hidden [of rt salon s] t assms by simp
    from toggleFavorite_then_hidden [OF this i] t WriteSent show ?thesis
      by (simp add: handlerCompletes_def)
  qed (use t in \<open>simp_all add: handlerCompletes_def\<close>)
qed

lemma isFavorited_flagged:
  assumes "upperFixesFlags rt"
  shows "isFavorited rt (setProp salon (js ''favorite'') (flag f)) = f"
  using isFavorited_flag [OF assms, of salon f] by (simp add: flag_def)

lemma twoToggles_result:
  assumes laws: "upperFixesFlags rt"
    and r: "getProp salon (js ''rowIndex'') \<noteq> JUndefined"
    and i: "getSalonId rt salon = Inr i"
    and c: "findIndex (\<lambda>h. toLowerCase rt h = js ''favorite'') (headers s) = Some col"
    and h1: "handlerCompletes rt salon s"
    and h2: "handlerCompletes rt (fst (toggleAndSettle rt None salon s))
                                 (snd (toggleAndSettle rt None salon s))"
  shows "fst (twoToggles rt salon s)
           = setProp (setProp salon (js ''favorite'') (flag (\<not> isFavorited rt salon)))
               (js ''favorite'') (flag (isFavorited rt salon))"
    and "sheetWrites (snd (twoToggles rt salon s))
           = sheetWrites s
             @ [(js ''Sheet1!'' @ [of_nat (65 + col)] @ toStr rt (getProp salon (js ''rowIndex'')),
                 [[flag (\<not> isFavorited rt salon)]]),
                (js ''Sheet1!'' @ [of_nat (65 + col)] @ toStr rt (getProp salon (js ''rowIndex'')),
                 [[flag (isFavorited rt salon)]])]"
proof -
  let ?fav = "isFavorited rt salon"
  let ?range = "js ''Sheet1!'' @ [of_nat (65 + col)] @ toStr rt (getProp salon (js ''rowIndex''))"
  let ?salon1 = "setProp salon (js ''favorite'') (flag (\<not> ?fav))"
  let ?salon2 = "setProp ?salon1 (js ''favorite'') (flag ?fav)"
  obtain s1 where t1: "toggleFavorite rt salon s =
      (WriteSent ?range [[flag (\<not> ?fav)]] (getProp salon (js ''favorite'')), ?salon1, s1)"
    and w1: "sheetWrites s1 = sheetWrites s @ [(?range, [[flag (\<not> ?fav)]])]"
    and hd1: "headers s1 = headers s"
    using toggleFavorite_sends [OF r i c] by (simp add: updateSheetData_def)
  define s2 where "s2 = snd (toggleFavorite_then rt ?salon1 s1)"
  from h1 t1 have "fst (toggleFavorite_then rt ?salon1 s1) = None"
    by (simp add: handlerCompletes_def)
  then have th1: "toggleFavorite_then rt ?salon1 s1 = (None, s2)"
    unfolding s2_def by (metis prod.collapse)
  have a1: "toggleAndSettle rt None salon s = (?salon1, s2)"
    by (simp add: toggleAndSettle_def t1 toggleFavorite_settled_def th1)
  have k2: "headers s2 = headers s" "sheetWrites s2 = sheetWrites s1"
    unfolding s2_def by (simp_all add: toggleFavorite_then_keeps hd1)
  have r1: "getProp ?salon1 (js ''rowIndex'') \<noteq> JUndefined" by (simp add: rowIndex_setFavorite r)
  have i1: "getSalonId rt ?salon1 = Inr i" by (simp add: getSalonId_setFavorite i)
  have c1: "findIndex (\<lambda>h. toLowerCase rt h = js ''favorite'') (headers s2) = Some col"
    by (simp add: k2 c)
  have f1: "isFavorited rt ?salon1 = (\<not> ?fav)" by (rule isFavorited_flagged [OF laws])
  obtain s3 where t2: "toggleFavorite rt ?salon1 s2 =
      (WriteSent ?range [[flag ?fav]] (getProp ?salon1 (js ''favorite'')), ?salon2, s3)"
    and w3: "sheetWrites s3 = sheetWrites s2 @ [(?range, [[flag ?fav]])]"
    using toggleFavorite_sends [OF r1 i1 c1]
    by (simp add: updateSheetData_def f1 rowIndex_setFavorite)
  define s4 where "s4 = snd (toggleFavorite_then rt ?salon2 s3)"
  from h2 a1 t2 have "fst (toggleFavorite_then rt ?salon2 s3) = None"
    by (simp add: handlerCompletes_def)
  then have th2: "toggleFavorite_then rt ?salon2 s3 = (None, s4)"
    unfolding s4_def by (metis prod.collapse)
  have a2: "toggleAndSettle rt None ?salon1 s2 = (?salon2, s4)"
    by (simp add: toggleAndSettle_def t2 toggleFavorite_settled_def th2)
  have two: "twoToggles rt salon s = (?salon2, s4)"
    by (simp add: twoToggles_def a1 a2)
  have w4: "sheetWrites s4 = sheetWrites s3"
    unfolding s4_def by (simp add: toggleFavorite_then_keeps)
  from two show "fst (twoToggles rt salon s) = ?salon2" by simp
  from two w4 w3 k2 w1 show "sheetWrites (snd (twoToggles rt salon s))
           = sheetWrites s @ [(?range, [[flag (\<not> ?fav)]]), (?range, [[flag ?fav]])]"
    by simp
qed

lemma not_favorite_kept:
  "k \<noteq> js ''favorite'' \<Longrightarrow>
   getProp (setProp (setProp salon (js ''favorite'') v) (js ''favorite'') w) k = getProp salon k"
  by (simp add: getProp_setFavorite)


lemma blankFavorite_facts:
  "getProp blankFavorite (js ''rowIndex'') \<noteq> JUndefined"
  "getSalonId refRuntime blankFavorite = Inr (js ''QWNtZTEgTWFpbiBTdA=='')"
  "findIndex (\<lambda>h. toLowerCase refRuntime h = js ''favorite'') (hd blankSheet) = Some 2"
  "js ''Sheet1!'' @ 67 # toStr refRuntime (getProp blankFavorite (js ''rowIndex'')) = js ''Sheet1!C2''"
  "getProp blankFavorite (js ''favorite'') = JString []"
  "makeSalons refRuntime (hd blankSheet) (tl blankSheet) = [blankFavorite]"
  "2 \<le> length blankSheet"
  by code_simp+

lemma loaded_hidden:
  "favoritesHidden loadedFavoriteState" "favoritesHidden loadedBlankState"
  "headers loadedBlankState = hd blankSheet" "currentSalons loadedBlankState = [blankFavorite]"
  "sheetWrites loadedBlankState = []"
proof -
  have n: "stringifyArray refRuntime (rowsValue acmeFavoriteSheet)
            \<noteq> lastDataState (setLoading True pollingState)"
    "stringifyArray refRuntime (rowsValue blankSheet)
            \<noteq> lastDataState (setLoading True pollingState)"
    by (simp_all add: sent_fields pollingState_fields stringifyArray_nonempty)
  have r: "loadedBlankState = loadData_resume refRuntime (Values (Some blankSheet)) (setLoading True pollingState)"
    by (simp add: loadedBlankState_def loadData_sent pollingState_fields)
  note f = loadData_resume_fields [OF sheet_lengths(2) n(1), folded loadedState_resume(2)]
  note g = loadData_resume_fields [OF blankFavorite_facts(7) n(2), folded r]
  show "favoritesHidden loadedFavoriteState" "favoritesHidden loadedBlankState"
    "headers loadedBlankState = hd blankSheet" "currentSalons loadedBlankState = [blankFavorite]"
    "sheetWrites loadedBlankState = []"
    by (simp_all add: f g sent_fields pollingState_fields blankFavorite_facts)
qed

lemma twoToggles_hidden:
  assumes "upperFixesFlags rt" "getProp salon (js ''rowIndex'') \<noteq> JUndefined"
    and "getSalonId rt salon = Inr i"
    and "findIndex (\<lambda>h. toLowerCase rt h = js ''favorite'') (headers s) = Some col"
    and "favoritesHidden s"
  shows "handlerCompletes rt salon s"
    and "handlerCompletes rt (fst (toggleAndSettle rt None salon s))
                             (snd (toggleAndSettle rt None salon s))"
proof -
  show "handlerCompletes rt salon s" using assms(5) by (rule handlerCompletes_hidden)
  have "favoritesHidden (snd (toggleAndSettle rt None salon s))"
    using assms(5) by (simp add: toggleAndSettle_hidden)
  then show "handlerCompletes rt (fst (toggleAndSettle rt None salon s))
                             (snd (toggleAndSettle rt None salon s))"
    by (rule handlerCompletes_hidden)
qed


text \<open>
  C7, as the code has it. Take a sheet-backed record that has an identifier (a record
  without one has no card, hence no button), in a session whose headers have a favorite
  column, and click its favorite button twice, each write
  fulfilled and each fulfilment handler returning normally before the next click (as they
  do while the favorites view is hidden). Afterwards the record's favorite field is the
  string \<^verbatim>\<open>TRUE\<close> when the original value was truthy and upper-cased to \<^verbatim>\<open>TRUE\<close>, and the string
  \<^verbatim>\<open>FALSE\<close> otherwise; it is the original value when that was one of these two strings. Every
  other field is as before. Exactly two writes were sent, to the same single-cell range
  \<^verbatim>\<open>Sheet1!\<close>, the character with code 65 plus the index of the favorite column, the
  record's \<^verbatim>\<open>rowIndex\<close>: the first carries the negated state, the second the state before the
  first click. For the example record the first write is \<^verbatim>\<open>[["TRUE"]]\<close> and the second
  \<^verbatim>\<open>[["FALSE"]]\<close>, both to \<^verbatim>\<open>Sheet1!C2\<close>. The runtime is taken to upper-case \<^verbatim>\<open>TRUE\<close> and
  \<^verbatim>\<open>FALSE\<close> to themselves.
\<close>

theorem toggle_twice:
  assumes "upperFixesFlags rt"
    and "getProp salon (js ''rowIndex'') \<noteq> JUndefined"
    and "getSalonId rt salon = Inr i"
    and "findIndex (\<lambda>h. toLowerCase rt h = js ''favorite'') (headers s) = Some col"
    and "handlerCompletes rt salon s"
    and "handlerCompletes rt (fst (toggleAndSettle rt None salon s))
                             (snd (toggleAndSettle rt None salon s))"
  shows
    "getProp (fst (twoToggles rt salon s)) (js ''favorite'')
       = JString (if truthy (getProp salon (js ''favorite''))
                     \<and> toUpperCase rt (toStr rt (getProp salon (js ''favorite''))) = js ''TRUE''
                  then js ''TRUE'' else js ''FALSE'')
     \<and> (getProp salon (js ''favorite'') = JString (js ''TRUE'')
          \<or> getProp salon (js ''favorite'') = JString (js ''FALSE'')
        \<longrightarrow> getProp (fst (twoToggles rt salon s)) (js ''favorite'') = getProp salon (js ''favorite''))
     \<and> (\<forall>k. k \<noteq> js ''favorite'' \<longrightarrow> getProp (fst (twoToggles rt salon s)) k = getProp salon k)
     \<and> sheetWrites (snd (twoToggles rt salon s))
         = sheetWrites s
           @ [(js ''Sheet1!'' @ [of_nat (65 + col)] @ toStr rt (getProp salon (js ''rowIndex'')),
               [[JString (if truthy (getProp salon (js ''favorite''))
                             \<and> toUpperCase rt (toStr rt (getProp salon (js ''favorite''))) = js ''TRUE''
                          then js ''FALSE'' else js ''TRUE'')]]),
              (js ''Sheet1!'' @ [of_nat (65 + col)] @ toStr rt (getProp salon (js ''rowIndex'')),
               [[JString (if truthy (getProp salon (js ''favorite''))
                             \<and> toUpperCase rt (toStr rt (getProp salon (js ''favorite''))) = js ''TRUE''
                          then js ''TRUE'' else js ''FALSE'')]])]"
proof -
  let ?fav = "truthy (getProp salon (js ''favorite''))
              \<and> toUpperCase rt (toStr rt (getProp salon (js ''favorite''))) = js ''TRUE''"
  have e: "isFavorited rt salon = ?fav" by (rule isFavorited_explicit)
  note t = twoToggles_result [OF assms]
  have ne: "js ''TRUE'' \<noteq> []" "js ''FALSE'' \<noteq> []" "js ''FALSE'' \<noteq> js ''TRUE''"
    by (simp_all add: js_def)
  have a: "getProp (fst (twoToggles rt salon s)) (js ''favorite'')
             = JString (if ?fav then js ''TRUE'' else js ''FALSE'')"
    unfolding t(1) by (simp add: getProp_setFavorite flag_def e)
  have b: "getProp salon (js ''favorite'') = JString (js ''TRUE'')
          \<or> getProp salon (js ''favorite'') = JString (js ''FALSE'')
        \<longrightarrow> getProp (fst (twoToggles rt salon s)) (js ''favorite'') = getProp salon (js ''favorite'')"
    unfolding a using assms(1) ne by (auto simp: upperFixesFlags_def)
  have c: "\<forall>k. k \<noteq> js ''favorite'' \<longrightarrow> getProp (fst (twoToggles rt salon s)) k = getProp salon k"
    unfolding t(1) by (simp add: not_favorite_kept)
  have d: "sheetWrites (snd (twoToggles rt salon s))
         = sheetWrites s
           @ [(js ''Sheet1!'' @ [of_nat (65 + col)] @ toStr rt (getProp salon (js ''rowIndex'')),
               [[JString (if ?fav then js ''FALSE'' else js ''TRUE'')]]),
              (js ''Sheet1!'' @ [of_nat (65 + col)] @ toStr rt (getProp salon (js ''rowIndex'')),
               [[JString (if ?fav then js ''TRUE'' else js ''FALSE'')]])]"
    unfolding t(2) by (simp add: flag_def e)
  from a b c d show ?thesis by (intro conjI)
qed

theorem toggle_twice_witness:
  "upperFixesFlags refRuntime
   \<and> getProp acme (js ''rowIndex'') \<noteq> JUndefined
   \<and> getSalonId refRuntime acme = Inr (js ''QWNtZTEgTWFpbiBTdA=='')
   \<and> findIndex (\<lambda>h. toLowerCase refRuntime h = js ''favorite'') (headers loadedState) = Some 2
   \<and> handlerCompletes refRuntime acme loadedState
   \<and> handlerCompletes refRuntime (fst (toggleAndSettle refRuntime None acme loadedState))
                                 (snd (toggleAndSettle refRuntime None acme loadedState))
   \<and> getProp acme (js ''favorite'') = JString (js ''FALSE'')
   \<and> getProp (fst (twoToggles refRuntime acme loadedState)) (js ''favorite'') = JString (js ''FALSE'')
   \<and> getProp (fst (twoToggles refRuntime acme loadedState)) (js ''name'') = JString (js ''Acme'')
   \<and> sheetWrites (snd (twoToggles refRuntime acme loadedState))
       = [(js ''Sheet1!C2'', [[JString (js ''TRUE'')]]), (js ''Sheet1!C2'', [[JString (js ''FALSE'')]])]
   \<and> getProp acmeFavorite (js ''favorite'') = JString (js ''TRUE'')
   \<and> getProp (fst (twoToggles refRuntime acmeFavorite loadedFavoriteState)) (js ''favorite'')
       = JString (js ''TRUE'')
   \<and> sheetWrites (snd (twoToggles refRuntime acmeFavorite loadedFavoriteState))
       = [(js ''Sheet1!C2'', [[JString (js ''FALSE'')]]), (js ''Sheet1!C2'', [[JString (js ''TRUE'')]])]"
proof -
  have ne: "js ''TRUE'' \<noteq> []" "js ''FALSE'' \<noteq> []" "js ''name'' \<noteq> js ''favorite''"
    by (simp_all add: js_def)
  have nm: "getProp acme (js ''name'') = JString (js ''Acme'')" by code_simp
  have h: "findIndex (\<lambda>h. toLowerCase refRuntime h = js ''favorite'') (headers loadedState) = Some 2"
    by (simp add: loadedState_fields acme_facts)
  note c = twoToggles_hidden [OF ref_upperFixesFlags acme_facts(1) acme_facts(2) h loadedState_fields(3)]
  note t = toggle_twice [OF ref_upperFixesFlags acme_facts(1) acme_facts(2) h c]
  have h': "findIndex (\<lambda>h. toLowerCase refRuntime h = js ''favorite'') (headers loadedFavoriteState) = Some 2"
    by (simp add: loadedFavoriteState_fields acmeFavorite_facts)
  note c' = twoToggles_hidden [OF ref_upperFixesFlags acmeFavorite_facts(1) acmeFavorite_facts(2) h'
              loaded_hidden(1)]
  note t' = toggle_twice [OF ref_upperFixesFlags acmeFavorite_facts(1) acmeFavorite_facts(2) h' c']
  from t have a: "getProp (fst (twoToggles refRuntime acme loadedState)) (js ''favorite'') = JString (js ''FALSE'')"
    "getProp (fst (twoToggles refRuntime acme loadedState)) (js ''name'') = JString (js ''Acme'')"
    "sheetWrites (snd (twoToggles refRuntime acme loadedState))
       = [(js ''Sheet1!C2'', [[JString (js ''TRUE'')]]), (js ''Sheet1!C2'', [[JString (js ''FALSE'')]])]"
    using ne nm by (simp_all add: acme_facts acmeFavorite_facts(10) loadedState_fields)
  from t' have b: "getProp (fst (twoToggles refRuntime acmeFavorite loadedFavoriteState)) (js ''favorite'')
       = JString (js ''TRUE'')"
    "sheetWrites (snd (twoToggles refRuntime acmeFavorite loadedFavoriteState))
       = [(js ''Sheet1!C2'', [[JString (js ''FALSE'')]]), (js ''Sheet1!C2'', [[JString (js ''TRUE'')]])]"
    using ne by (simp_all add: acmeFavorite_facts loadedFavoriteState_fields)
  show ?thesis
    by (intro conjI ref_upperFixesFlags acme_facts(1) acme_facts(2) h c acme_facts(6) a
              acmeFavorite_facts(6) b)
qed


text \<open>
  C7 as stated fails in two ways. A record whose favorite cell is empty has the field
  \<^verbatim>\<open>''\<close>; after two toggles the field is \<^verbatim>\<open>FALSE\<close>, not the original value. And for the
  example record it is the first toggle that writes \<^verbatim>\<open>[["TRUE"]]\<close> to \<^verbatim>\<open>Sheet1!C2\<close>; the second
  writes \<^verbatim>\<open>[["FALSE"]]\<close>.
\<close>

theorem toggle_twice_normalizes:
  "currentSalons loadedBlankState = [blankFavorite]
   \<and> getProp blankFavorite (js ''favorite'') = JString []
   \<and> getProp (fst (twoToggles refRuntime blankFavorite loadedBlankState)) (js ''favorite'')
       = JString (js ''FALSE'')
   \<and> JString (js ''FALSE'') \<noteq> JString []
   \<and> sheetWrites (snd (twoToggles refRuntime blankFavorite loadedBlankState))
       = [(js ''Sheet1!C2'', [[JString (js ''TRUE'')]]), (js ''Sheet1!C2'', [[JString (js ''FALSE'')]])]
   \<and> currentSalons loadedState = [acme]
   \<and> sheetWrites (snd (twoToggles refRuntime acme loadedState))
       = [(js ''Sheet1!C2'', [[JString (js ''TRUE'')]]), (js ''Sheet1!C2'', [[JString (js ''FALSE'')]])]"
proof -
  have fb: "isFavorited refRuntime blankFavorite = False" by code_simp
  have h: "findIndex (\<lambda>h. toLowerCase refRuntime h = js ''favorite'') (headers loadedBlankState) = Some 2"
    by (simp add: loaded_hidden blankFavorite_facts)
  note c = twoToggles_hidden [OF ref_upperFixesFlags blankFavorite_facts(1) blankFavorite_facts(2) h
             loaded_hidden(2)]
  note t = twoToggles_result [OF ref_upperFixesFlags blankFavorite_facts(1) blankFavorite_facts(2) h c]
  have a: "getProp (fst (twoToggles refRuntime blankFavorite loadedBlankState)) (js ''favorite'')
       = JString (js ''FALSE'')"
    unfolding t(1) by (simp add: getProp_setFavorite fb flag_def)
  have b: "sheetWrites (snd (twoToggles refRuntime blankFavorite loadedBlankState))
       = [(js ''Sheet1!C2'', [[JString (js ''TRUE'')]]), (js ''Sheet1!C2'', [[JString (js ''FALSE'')]])]"
    unfolding t(2) by (simp add: fb flag_def blankFavorite_facts loaded_hidden)
  have h': "findIndex (\<lambda>h. toLowerCase refRuntime h = js ''favorite'') (headers loadedState) = Some 2"
    by (simp add: loadedState_fields acme_facts)
  note c' = twoToggles_hidden [OF ref_upperFixesFlags acme_facts(1) acme_facts(2) h' loadedState_fields(3)]
  note t' = twoToggles_result [OF ref_upperFixesFlags acme_facts(1) acme_facts(2) h' c']
  have d: "sheetWrites (snd (twoToggles refRuntime acme loadedState))
       = [(js ''Sheet1!C2'', [[JString (js ''TRUE'')]]), (js ''Sheet1!C2'', [[JString (js ''FALSE'')]])]"
    unfolding t'(2) by (simp add: acme_facts flag_def loadedState_fields)
  have ne: "JString (js ''FALSE'') \<noteq> JString []" by (simp add: js_def)
  show ?thesis
    by (intro conjI loaded_hidden(4) blankFavorite_facts(5) a ne b loadedState_fields(2) d)
qed

end
